(* ===== verification/Prelude.thy ===== *)
theory Prelude
  imports Complex_Main
begin

text \<open>
  Shared vocabulary of the development. Money is Python's \<open>Decimal\<close>, which the
  code only adds, subtracts, multiplies by integers and by \<open>Decimal('0.15')\<close>
  and compares: exact decimal arithmetic, modelled as \<^typ>\<open>rat\<close>. Every
  table of the Django models is a list indexed by primary key (keys are assigned
  in insertion order and nothing in scope is ever deleted), read with
  \<open>obter\<close>, the ORM's \<open>objects.get(pk=...)\<close>, which fails on a missing key.
  Python's builtin \<open>min(iterable, key=f)\<close>, used by the outcome selector, is
  the left-to-right scan \<open>min_chave\<close>; its characteristic lemmas live here.
\<close>

type_synonym dinheiro = rat
type_synonym pk = nat

named_theorems store_simps "lookups and updates of the model's tables"

text \<open>Python's \<open>str.isdigit()\<close> on one ASCII character.\<close>

definition digito :: "char \<Rightarrow> bool" where
  "digito c \<longleftrightarrow> 48 \<le> (of_char c :: nat) \<and> (of_char c :: nat) \<le> 57"

definition obter :: "'a list \<Rightarrow> pk \<Rightarrow> 'a option" where
  "obter xs i = (if i < length xs then Some (xs ! i) else None)"

lemma obter_Some_iff [store_simps]: "obter xs i = Some x \<longleftrightarrow> i < length xs \<and> xs ! i = x"
  by (auto simp: obter_def)

lemma obter_None_iff [store_simps]: "obter xs i = None \<longleftrightarrow> length xs \<le> i"
  by (auto simp: obter_def)

lemma obter_update [store_simps]:
  "obter (xs[j := y]) i = (if i = j \<and> j < length xs then Some y else obter xs i)"
  by (auto simp: obter_def)

lemma obter_append_new [store_simps]: "obter (xs @ [y]) (length xs) = Some y"
  by (simp add: obter_def)

lemma obter_append_old [store_simps]: "i < length xs \<Longrightarrow> obter (xs @ [y]) i = obter xs i"
  by (simp add: obter_def nth_append)

lemma nth_list_update_any: "xs[i := x] ! j = (if i = j \<and> i < length xs then x else xs ! j)"
  by (cases "i < length xs") (auto simp: nth_list_update list_update_beyond)

text \<open>Sum of a list after one update, for any additive group (the library's
  \<open>sum_list_update\<close> is stated for truncated subtraction only).\<close>

lemma sum_list_update_group:
  fixes xs :: "'a::ab_group_add list"
  shows "i < length xs \<Longrightarrow> sum_list (xs[i := y]) = sum_list xs - xs ! i + y"
proof (induction xs arbitrary: i)
  case Nil
  then show ?case by simp
next
  case (Cons x xs)
  then show ?case by (cases i) (simp_all add: algebra_simps)
qed

lemma sum_list_map_update:
  fixes f :: "'b \<Rightarrow> 'a::ab_group_add"
  shows "i < length xs \<Longrightarrow> sum_list (map f (xs[i := y])) = sum_list (map f xs) - f (xs ! i) + f y"
  by (simp add: map_update sum_list_update_group)

subsection \<open>Python's \<open>min(iterable, key=f)\<close>\<close>

text \<open>CPython keeps the first element seen and replaces it only by one whose key
  is strictly smaller, so among equal keys the earliest wins.\<close>

fun min_chave :: "('a \<Rightarrow> 'b::linorder) \<Rightarrow> 'a \<Rightarrow> 'a list \<Rightarrow> 'a" where
  "min_chave f m [] = m"
| "min_chave f m (x # xs) = min_chave f (if f x < f m then x else m) xs"

lemma min_chave_mem: "min_chave f m xs \<in> set (m # xs)"
proof (induction xs arbitrary: m)
  case Nil
  then show ?case by simp
next
  case (Cons x xs)
  have "min_chave f (if f x < f m then x else m) xs \<in> set ((if f x < f m then x else m) # xs)"
    by (rule Cons.IH)
  then show ?case by (auto split: if_splits)
qed

lemma min_chave_le: "y \<in> set (m # xs) \<Longrightarrow> f (min_chave f m xs) \<le> f y"
proof (induction xs arbitrary: m y)
  case Nil
  then show ?case by simp
next
  case (Cons x xs)
  let ?m = "if f x < f m then x else m"
  have r: "f (min_chave f ?m xs) \<le> f ?m" by (rule Cons.IH) simp
  from Cons.prems consider "y = m" | "y = x" | "y \<in> set xs" by auto
  then show ?case
  proof cases
    case 1
    with r show ?thesis by (auto split: if_splits)
  next
    case 2
    with r show ?thesis by (auto split: if_splits)
  next
    case 3
    then show ?thesis using Cons.IH [of y ?m] by simp
  qed
qed

lemma min_chave_least_tie:
  "sorted (m # xs) \<Longrightarrow> y \<in> set (m # xs) \<Longrightarrow> f y = f (min_chave f m xs) \<Longrightarrow> min_chave f m xs \<le> y"
proof (induction xs arbitrary: m y)
  case Nil
  then show ?case by simp
next
  case (Cons x xs)
  let ?m = "if f x < f m then x else m"
  let ?r = "min_chave f ?m xs"
  have r: "min_chave f m (x # xs) = ?r" by simp
  have sorted': "sorted (?m # xs)" using Cons.prems(1) by auto
  have le_x: "f ?r \<le> f x" and le_m: "f ?r \<le> f m"
    using min_chave_le [where y = x and m = m and xs = "x # xs" and f = f]
      min_chave_le [where y = m and m = m and xs = "x # xs" and f = f] by simp_all
  show ?case
  proof (cases "y \<in> set (?m # xs)")
    case True
    with Cons.IH [OF sorted' True] Cons.prems(3) show ?thesis by simp
  next
    case False
    with Cons.prems(2) consider "y = m" "f x < f m" | "y = x" "\<not> f x < f m"
      by (auto split: if_splits)
    then show ?thesis
    proof cases
      case 1
      with Cons.prems(3) le_x show ?thesis by simp
    next
      case 2
      with Cons.prems(3) le_m have "f m = f ?r" by simp
      with 2 Cons.IH [OF sorted'] have "?r \<le> m" by simp
      moreover have "m \<le> x" using Cons.prems(1) by simp
      ultimately show ?thesis using 2 by simp
    qed
  qed
qed

text \<open>The first element of a sorted list that satisfies a predicate is the least
  one that does.\<close>

lemma hd_filter_sorted_least:
  "sorted ys \<Longrightarrow> k \<in> set ys \<Longrightarrow> P k \<Longrightarrow> (\<And>y. y \<in> set ys \<Longrightarrow> P y \<Longrightarrow> k \<le> y) \<Longrightarrow>
   hd (filter P ys) = (k :: 'a::linorder)"
proof (induction ys)
  case Nil
  then show ?case by simp
next
  case (Cons y ys)
  show ?case
  proof (cases "P y")
    case True
    with Cons.prems have "k \<le> y" by simp
    moreover have "y \<le> k" using Cons.prems(1,2) by auto
    ultimately show ?thesis using True by simp
  next
    case False
    with Cons.prems(2,3) have "k \<in> set ys" by auto
    with False Cons.prems Cons.IH show ?thesis by simp
  qed
qed

text \<open>Filtering the indices of a list counts what filtering the list counts.\<close>

lemma length_filter_nth:
  "length (filter (\<lambda>i. P (xs ! i)) [0..<length xs]) = length (filter P xs)"
proof -
  have "filter P xs = filter P (map ((!) xs) [0..<length xs])" by (simp add: map_nth)
  then show ?thesis by (simp add: filter_map comp_def)
qed

end
