(* ===== verification/Models.thy ===== *)
theory Models
  imports Prelude
begin

text \<open>
  The Django models of \<open>src/plataforma/models.py\<close> as HOL data: one record per
  model with the fields the game logic reads or writes (passwords, images, dates
  and display strings are left out), one datatype per \<open>choices\<close> field, and the
  whole database as the record \<open>db\<close>, one list per table. A row's primary key is
  its index. The helpers \<open>salvar_usuario\<close> and \<open>creditar\<close> are the
  read-modify-write idiom the views and \<open>Deposito.save\<close> use on a balance.
\<close>

datatype status_deposito = PENDENTE | APROVADO | REJEITADO

datatype metodo_deposito = BANCO | EXPRESS | REFERENCIA

record usuario =
  telefone :: string
  pais :: string
  convidado_por :: "pk option"
  saldo :: dinheiro

record deposito =
  dep_usuario :: pk
  metodo :: metodo_deposito
  valor :: dinheiro
  nome_depositante :: string
  status :: status_deposito

record saque =
  saque_usuario :: pk
  saque_valor :: dinheiro
  saque_status :: string

record rodada =
  numero_sorteado :: "int option"
  ativa :: bool

record aposta =
  ap_usuario :: pk
  ap_rodada :: pk
  valor_escolhido :: int
  valor_investido :: dinheiro
  ganhou :: "bool option"

record db =
  usuarios :: "usuario list"
  rodadas :: "rodada list"
  apostas :: "aposta list"
  depositos :: "deposito list"
  saques :: "saque list"

text \<open>The request methods the views test, and the errors they answer with.\<close>

datatype metodo_http = GET | POST

datatype erro =
    SaldoInsuficiente   \<comment> \<open>\<open>{'erro': 'Saldo insuficiente!'}\<close>, status 400\<close>
  | DadosInvalidos      \<comment> \<open>\<open>except (ValueError, TypeError)\<close>, status 400\<close>
  | ErroInterno         \<comment> \<open>\<open>except Exception\<close>, status 500\<close>
  | MetodoInvalido      \<comment> \<open>\<open>'Metodo invalido' (accents dropped)\<close>, status 405\<close>
  | Invalido            \<comment> \<open>\<open>'Invalido'\<close>, status 400\<close>

fun status_http :: "erro \<Rightarrow> nat" where
  "status_http SaldoInsuficiente = 400"
| "status_http DadosInvalidos = 400"
| "status_http ErroInterno = 500"
| "status_http MetodoInvalido = 405"
| "status_http Invalido = 400"

subsection \<open>Saving and crediting an account\<close>

text \<open>\<open>usuario.save()\<close> writes every field of the in-memory instance back to its row.\<close>

definition salvar_usuario :: "db \<Rightarrow> pk \<Rightarrow> usuario \<Rightarrow> db" where
  "salvar_usuario d uid u = d\<lparr>usuarios := (usuarios d)[uid := u]\<rparr>"

text \<open>\<open>x.usuario.saldo += v; x.usuario.save()\<close>: the related account is loaded
  from the database when the foreign key is followed, so the credit applies to the
  stored balance.\<close>

definition creditar :: "db \<Rightarrow> pk \<Rightarrow> dinheiro \<Rightarrow> db" where
  "creditar d uid v =
     (case obter (usuarios d) uid of
        None \<Rightarrow> d
      | Some u \<Rightarrow> salvar_usuario d uid (u\<lparr>saldo := saldo u + v\<rparr>))"

definition saldo_de :: "db \<Rightarrow> pk \<Rightarrow> dinheiro" where
  "saldo_de d uid = (case obter (usuarios d) uid of None \<Rightarrow> 0 | Some u \<Rightarrow> saldo u)"

definition total_saldos :: "db \<Rightarrow> dinheiro" where
  "total_saldos d = sum_list (map saldo (usuarios d))"

subsection \<open>Integrity of the store\<close>

text \<open>What the foreign keys of the models guarantee: every bet, deposit and
  withdrawal names an existing account, every bet an existing round, and every
  referral link an existing account.\<close>

definition integro :: "db \<Rightarrow> bool" where
  "integro d \<longleftrightarrow>
     list_all (\<lambda>a. ap_usuario a < length (usuarios d) \<and> ap_rodada a < length (rodadas d)) (apostas d) \<and>
     list_all (\<lambda>x. dep_usuario x < length (usuarios d)) (depositos d) \<and>
     list_all (\<lambda>s. saque_usuario s < length (usuarios d)) (saques d) \<and>
     list_all (\<lambda>r. case r of None \<Rightarrow> True | Some p \<Rightarrow> p < length (usuarios d)) (map convidado_por (usuarios d))"

definition saldos_nao_negativos :: "db \<Rightarrow> bool" where
  "saldos_nao_negativos d \<longleftrightarrow> list_all (\<lambda>u. 0 \<le> saldo u) (usuarios d)"

subsection \<open>Sample data\<close>

text \<open>Two accounts, the second invited by the first, and one open round: the
  starting point of the concrete runs the witnesses evaluate.\<close>

definition banca_exemplo :: db where
  "banca_exemplo =
     \<lparr>usuarios =
        [\<lparr>telefone = ''923000001'', pais = ''Angola'', convidado_por = None, saldo = 1000\<rparr>,
         \<lparr>telefone = ''923000002'', pais = ''Angola'', convidado_por = Some 0, saldo = 500\<rparr>],
      rodadas = [\<lparr>numero_sorteado = None, ativa = True\<rparr>],
      apostas = [], depositos = [], saques = []\<rparr>"

subsection \<open>Lemmas on the helpers\<close>

lemma length_usuarios_salvar [simp]: "length (usuarios (salvar_usuario d uid u)) = length (usuarios d)"
  by (simp add: salvar_usuario_def)

lemma salvar_usuario_other_tables [simp]:
  "rodadas (salvar_usuario d uid u) = rodadas d"
  "apostas (salvar_usuario d uid u) = apostas d"
  "depositos (salvar_usuario d uid u) = depositos d"
  "saques (salvar_usuario d uid u) = saques d"
  by (simp_all add: salvar_usuario_def)

lemma creditar_other_tables [simp]:
  "rodadas (creditar d uid v) = rodadas d"
  "apostas (creditar d uid v) = apostas d"
  "depositos (creditar d uid v) = depositos d"
  "saques (creditar d uid v) = saques d"
  "length (usuarios (creditar d uid v)) = length (usuarios d)"
  by (simp_all add: creditar_def split: option.split)

lemma saldo_de_creditar [store_simps]:
  "saldo_de (creditar d uid v) w = saldo_de d w + (if w = uid \<and> uid < length (usuarios d) then v else 0)"
  by (auto simp: saldo_de_def creditar_def salvar_usuario_def obter_def nth_list_update)

lemma usuario_creditar_fields [store_simps]:
  "obter (usuarios (creditar d uid v)) w = map_option (\<lambda>u. if w = uid then u\<lparr>saldo := saldo u + v\<rparr> else u) (obter (usuarios d) w)"
  by (auto simp: creditar_def salvar_usuario_def obter_def nth_list_update)

lemma total_saldos_creditar [store_simps]:
  "total_saldos (creditar d uid v) = total_saldos d + (if uid < length (usuarios d) then v else 0)"
  by (auto simp: total_saldos_def creditar_def salvar_usuario_def obter_def sum_list_map_update)

lemma total_saldos_salvar [store_simps]:
  "uid < length (usuarios d) \<Longrightarrow>
   total_saldos (salvar_usuario d uid u) = total_saldos d - saldo (usuarios d ! uid) + saldo u"
  by (simp add: total_saldos_def salvar_usuario_def sum_list_map_update)

lemma saldo_de_salvar [store_simps]:
  "saldo_de (salvar_usuario d uid u) w = (if w = uid \<and> uid < length (usuarios d) then saldo u else saldo_de d w)"
  by (auto simp: saldo_de_def salvar_usuario_def obter_def nth_list_update)

lemma convidados_creditar [simp]: "map convidado_por (usuarios (creditar d uid v)) = map convidado_por (usuarios d)"
  by (auto simp: creditar_def salvar_usuario_def obter_def map_update split: option.split)
    (metis list_update_id nth_map)

lemma integro_creditar [simp]: "integro (creditar d uid v) = integro d"
  by (simp add: integro_def cong: option.case_cong)

end
