(* ===== verification/Clock.thy ===== *)
theory Clock
  imports Prelude
begin

text \<open>
  The universal clock of \<open>home_jogo\<close> (\<open>src/plataforma/views.py\<close>): the phase
  and the seconds left are computed from \<open>int(time.time()) % 40\<close> alone, so every
  browser that asks at the same second is told the same thing. Python's \<open>%\<close>
  with a positive modulus is HOL's \<open>mod\<close> on \<^typ>\<open>int\<close>. The abstract
  specification is the countdown timer \<open>tique\<close> a client runs once per second: the
  betting phase lasts 30 seconds and the draw 10. The refinement lemma says that the
  stateless computation moves exactly as that timer does.
\<close>

datatype fase = APOSTA | SORTEIO

definition ciclo :: "int \<Rightarrow> fase \<times> int" where
  "ciclo agora =
     (let tempo_no_ciclo = agora mod 40 in
      if tempo_no_ciclo < 30 then (APOSTA, 30 - tempo_no_ciclo)
      else (SORTEIO, 40 - tempo_no_ciclo))"

subsection \<open>The countdown timer\<close>

fun proxima :: "fase \<Rightarrow> fase" where
  "proxima APOSTA = SORTEIO"
| "proxima SORTEIO = APOSTA"

fun duracao :: "fase \<Rightarrow> int" where
  "duracao APOSTA = 30"
| "duracao SORTEIO = 10"

fun tique :: "fase \<times> int \<Rightarrow> fase \<times> int" where
  "tique (f, r) = (if 1 < r then (f, r - 1) else (proxima f, duracao (proxima f)))"

subsection \<open>Lemmas\<close>

lemma mod40_succ: "(t + 1) mod 40 = (if t mod 40 = 39 then 0 else t mod 40 + 1)" for t :: int
proof -
  have "(t + 1) mod 40 = (t mod 40 + 1) mod 40" by (simp add: mod_add_left_eq)
  moreover have "0 \<le> t mod 40" "t mod 40 < 40" by simp_all
  ultimately show ?thesis by auto
qed

lemma ciclo_mod: "ciclo (t mod 40) = ciclo t"
  by (simp add: ciclo_def)

lemma ciclo_tique: "ciclo (t + 1) = tique (ciclo t)"
proof -
  have "0 \<le> t mod 40" "t mod 40 < 40" by simp_all
  then show ?thesis
    by (auto simp: ciclo_def Let_def mod40_succ)
qed

lemma ciclo_tique_n: "ciclo (t + int n) = (tique ^^ n) (ciclo t)"
proof (induction n)
  case 0
  then show ?case by simp
next
  case (Suc n)
  have "ciclo (t + int (Suc n)) = ciclo ((t + int n) + 1)" by (simp add: ac_simps)
  also have "\<dots> = tique (ciclo (t + int n))" by (rule ciclo_tique)
  finally show ?case using Suc.IH by simp
qed

lemma tique_n_countdown: "0 \<le> k \<Longrightarrow> k < r \<Longrightarrow> (tique ^^ nat k) (f, r) = (f, r - k)"
proof (induction "nat k" arbitrary: k)
  case 0
  then show ?case by simp
next
  case (Suc n)
  then have "(tique ^^ nat (k - 1)) (f, r) = (f, r - (k - 1))" by simp
  moreover have "nat k = Suc (nat (k - 1))" using Suc.hyps(2) by simp
  ultimately show ?case using Suc.prems by simp
qed

lemma ciclo_range: "ciclo t = (f, r) \<Longrightarrow> 1 \<le> r \<and> r \<le> duracao f"
proof -
  have "0 \<le> t mod 40" "t mod 40 < 40" by simp_all
  then show "ciclo t = (f, r) \<Longrightarrow> 1 \<le> r \<and> r \<le> duracao f"
    by (auto simp: ciclo_def Let_def split: if_splits)
qed

lemma ciclo_fronteira: "ciclo (40 * q) = (APOSTA, 30)"
  by (simp add: ciclo_def)

subsection \<open>Properties of the clock\<close>

text \<open>C10: every client is synchronised. At any second \<open>t\<close>, the phase and the
  seconds left that \<open>home_jogo\<close> reports are those of the countdown timer started
  with a fresh 30-second betting phase at the last multiple of 40 seconds and run for
  \<open>t mod 40\<close> ticks: the stateless computation refines the stateful timer.\<close>

theorem ciclo_sincronizado: "ciclo t = (tique ^^ nat (t mod 40)) (APOSTA, 30)"
proof -
  have "ciclo t = ciclo (40 * (t div 40) + int (nat (t mod 40)))" by simp
  also have "\<dots> = (tique ^^ nat (t mod 40)) (ciclo (40 * (t div 40)))" by (rule ciclo_tique_n)
  finally show ?thesis by (simp add: ciclo_fronteira)
qed

text \<open>C19: the countdown is consistent. If the clock shows phase \<open>f\<close> with \<open>r\<close>
  seconds left, then \<open>r\<close> lies between 1 and the phase's length, the same phase
  is shown with one second less at each of the next \<open>r - 1\<close> seconds, and exactly
  \<open>r\<close> seconds later the other phase starts with its full length.\<close>

theorem ciclo_contagem:
  assumes "ciclo t = (f, r)"
  shows "1 \<le> r \<and> r \<le> duracao f \<and>
         (\<forall>k. 0 \<le> k \<and> k < r \<longrightarrow> ciclo (t + k) = (f, r - k)) \<and>
         ciclo (t + r) = (proxima f, duracao (proxima f))"
proof -
  have r: "1 \<le> r \<and> r \<le> duracao f" using assms by (rule ciclo_range)
  have count: "ciclo (t + k) = (f, r - k)" if "0 \<le> k" "k < r" for k
  proof -
    have "ciclo (t + k) = (tique ^^ nat k) (ciclo t)"
      using ciclo_tique_n [of t "nat k"] that(1) by simp
    with assms that show ?thesis by (simp add: tique_n_countdown)
  qed
  have "ciclo (t + r) = tique (ciclo (t + (r - 1)))"
    using ciclo_tique [of "t + (r - 1)"] by simp
  also have "\<dots> = (proxima f, duracao (proxima f))"
    using count [of "r - 1"] r by simp
  finally show ?thesis using r count by blast
qed

theorem ciclo_contagem_witness:
  "ciclo 0 = (APOSTA, 30) \<and> ciclo 29 = (APOSTA, 1) \<and> ciclo 30 = (SORTEIO, 10)"
proof -
  have h: "ciclo 0 = (APOSTA, 30)" by (simp add: ciclo_def)
  from ciclo_contagem [OF h] have "ciclo (0 + 29) = (APOSTA, 30 - 29)" and "ciclo (0 + 30) = (SORTEIO, 10)"
    by auto
  with h show ?thesis by simp
qed

end
