(* ===== verification/Rounds.thy ===== *)
theory Rounds
  imports Models Clock
begin

text \<open>
  The round lifecycle. \<open>Rodada.objects.filter(ativa=True).last()\<close> returns the
  active round with the greatest primary key (the model declares no ordering, so
  \<open>last()\<close> orders by key); \<open>home_jogo\<close> and \<open>fazer_aposta\<close> create a new
  active round when there is none; \<open>fechar_rodada_lucrativa\<close> closes a round by
  storing the drawn number and clearing the flag, without checking that it was open.
  The invariant \<open>uma_ativa\<close> (at most one active round) is kept by every
  sequential use; the interleaving that breaks it is in theory \<open>Concurrency\<close>.
\<close>

definition ultima_ativa :: "rodada list \<Rightarrow> pk option" where
  "ultima_ativa rs =
     (let ativas = filter (\<lambda>i. ativa (rs ! i)) [0..<length rs]
      in if ativas = [] then None else Some (last ativas))"

definition nova_rodada :: rodada where
  "nova_rodada = \<lparr>numero_sorteado = None, ativa = True\<rparr>"

definition rodada_ativa_ou_cria :: "db \<Rightarrow> pk \<times> db" where
  "rodada_ativa_ou_cria d =
     (case ultima_ativa (rodadas d) of
        Some i \<Rightarrow> (i, d)
      | None \<Rightarrow> (length (rodadas d), d\<lparr>rodadas := rodadas d @ [nova_rodada]\<rparr>))"

definition encerrar_rodada :: "db \<Rightarrow> pk \<Rightarrow> int \<Rightarrow> db" where
  "encerrar_rodada d r v =
     d\<lparr>rodadas := (rodadas d)[r := \<lparr>numero_sorteado = Some v, ativa = False\<rparr>]\<rparr>"

text \<open>What \<open>home_jogo\<close> hands to the template: the active round, the phase and the
  seconds left of the clock, and the balance of the logged-in account.\<close>

record tela_jogo =
  tela_rodada :: pk
  tempo_inicial :: int
  fase_inicial :: fase
  saldo_exibido :: dinheiro

definition home_jogo :: "db \<Rightarrow> usuario \<Rightarrow> int \<Rightarrow> tela_jogo \<times> db" where
  "home_jogo d u agora =
     (let (rid, d') = rodada_ativa_ou_cria d;
          (f, r) = ciclo agora
      in (\<lparr>tela_rodada = rid, tempo_inicial = r, fase_inicial = f, saldo_exibido = saldo u\<rparr>, d'))"

definition uma_ativa :: "rodada list \<Rightarrow> bool" where
  "uma_ativa rs \<longleftrightarrow> length (filter ativa rs) \<le> 1"

subsection \<open>Lemmas\<close>

lemma ultima_ativa_Some: "ultima_ativa rs = Some i \<Longrightarrow> i < length rs \<and> ativa (rs ! i)"
proof -
  let ?a = "filter (\<lambda>i. ativa (rs ! i)) [0..<length rs]"
  assume "ultima_ativa rs = Some i"
  then have ne: "?a \<noteq> []" and i: "i = last ?a"
    by (simp_all add: ultima_ativa_def Let_def split: if_splits)
  from ne have "last ?a \<in> set ?a" by (rule last_in_set)
  with i show ?thesis by simp
qed

lemma ultima_ativa_None: "ultima_ativa rs = None \<longleftrightarrow> \<not> list_ex ativa rs"
proof -
  have "filter (\<lambda>i. ativa (rs ! i)) [0..<length rs] = [] \<longleftrightarrow> \<not> list_ex ativa rs"
    by (auto simp: filter_empty_conv list_ex_iff in_set_conv_nth) (metis nth_mem)
  then show ?thesis by (simp add: ultima_ativa_def Let_def)
qed

lemma ultima_ativa_snoc:
  "ultima_ativa (rs @ [r]) = (if ativa r then Some (length rs) else ultima_ativa rs)"
proof -
  have old: "filter (\<lambda>i. ativa ((rs @ [r]) ! i)) [0..<length rs] = filter (\<lambda>i. ativa (rs ! i)) [0..<length rs]"
    by (rule filter_cong) (simp_all add: nth_append)
  have "filter (\<lambda>i. ativa ((rs @ [r]) ! i)) [0..<length (rs @ [r])] =
        filter (\<lambda>i. ativa (rs ! i)) [0..<length rs] @ (if ativa r then [length rs] else [])"
    by (simp add: old)
  then show ?thesis
    by (simp add: ultima_ativa_def Let_def)
qed

lemma length_filter_ativa_0: "\<not> list_ex ativa rs \<Longrightarrow> length (filter ativa rs) = 0"
  by (simp add: list_ex_iff filter_empty_conv)

lemma rodada_ativa_ou_cria_cases:
  "rodada_ativa_ou_cria d = (i, d') \<Longrightarrow>
   (ultima_ativa (rodadas d) = Some i \<and> d' = d) \<or>
   (\<not> list_ex ativa (rodadas d) \<and> i = length (rodadas d) \<and> d' = d\<lparr>rodadas := rodadas d @ [nova_rodada]\<rparr>)"
  by (auto simp: rodada_ativa_ou_cria_def ultima_ativa_None split: option.splits)

lemma rodada_ativa_ou_cria_tables [simp]:
  "usuarios (snd (rodada_ativa_ou_cria d)) = usuarios d"
  "apostas (snd (rodada_ativa_ou_cria d)) = apostas d"
  "depositos (snd (rodada_ativa_ou_cria d)) = depositos d"
  "saques (snd (rodada_ativa_ou_cria d)) = saques d"
  by (simp_all add: rodada_ativa_ou_cria_def split: option.split)

lemma rodada_ativa_ou_cria_eq_tables:
  "rodada_ativa_ou_cria d = (i, d') \<Longrightarrow>
   usuarios d' = usuarios d \<and> apostas d' = apostas d \<and> depositos d' = depositos d \<and> saques d' = saques d"
  using rodada_ativa_ou_cria_tables [of d] by simp

lemma length_rodadas_ativa_ou_cria: "length (rodadas d) \<le> length (rodadas (snd (rodada_ativa_ou_cria d)))"
  by (simp add: rodada_ativa_ou_cria_def split: option.split)

lemma fst_rodada_ativa_ou_cria_bound: "fst (rodada_ativa_ou_cria d) < length (rodadas (snd (rodada_ativa_ou_cria d)))"
  by (auto simp: rodada_ativa_ou_cria_def dest: ultima_ativa_Some split: option.split)

lemma uma_ativa_encerrar: "uma_ativa rs \<Longrightarrow> uma_ativa (rs[r := \<lparr>numero_sorteado = Some v, ativa = False\<rparr>])"
proof -
  assume "uma_ativa rs"
  moreover have "length (filter ativa (rs[r := \<lparr>numero_sorteado = Some v, ativa = False\<rparr>])) \<le> length (filter ativa rs)"
  proof (induction rs arbitrary: r)
    case Nil
    then show ?case by simp
  next
    case (Cons x xs)
    then show ?case by (cases r) auto
  qed
  ultimately show ?thesis by (simp add: uma_ativa_def)
qed

lemma ultima_ativa_criada: "\<not> list_ex ativa rs \<Longrightarrow> ultima_ativa (rs @ [nova_rodada]) = Some (length rs)"
  by (simp add: ultima_ativa_snoc nova_rodada_def)

lemma rodada_ativa_ou_cria_ativa:
  "rodada_ativa_ou_cria d = (i, d') \<Longrightarrow> i < length (rodadas d') \<and> ativa (rodadas d' ! i)"
  by (auto simp: rodada_ativa_ou_cria_def ultima_ativa_None nova_rodada_def nth_append
      dest: ultima_ativa_Some split: option.splits)

subsection \<open>Properties of the round lifecycle\<close>

text \<open>C11: get-or-create. \<open>rodada_ativa_ou_cria\<close> always answers an existing,
  active round; asked again it answers the same round and changes nothing (the active
  round does not flicker between requests); and it writes nothing when a round was
  already active.\<close>

theorem rodada_ativa_ou_cria_correta:
  assumes "rodada_ativa_ou_cria d = (i, d')"
  shows "i < length (rodadas d') \<and> ativa (rodadas d' ! i) \<and>
         rodada_ativa_ou_cria d' = (i, d') \<and> (list_ex ativa (rodadas d) \<longrightarrow> d' = d)"
  using rodada_ativa_ou_cria_cases [OF assms]
proof
  assume a: "ultima_ativa (rodadas d) = Some i \<and> d' = d"
  then show ?thesis
    using rodada_ativa_ou_cria_ativa [OF assms] by (simp add: rodada_ativa_ou_cria_def)
next
  assume b: "\<not> list_ex ativa (rodadas d) \<and> i = length (rodadas d) \<and> d' = d\<lparr>rodadas := rodadas d @ [nova_rodada]\<rparr>"
  then have "ultima_ativa (rodadas d') = Some i" by (simp add: ultima_ativa_criada)
  with b show ?thesis
    using rodada_ativa_ou_cria_ativa [OF assms] by (simp add: rodada_ativa_ou_cria_def)
qed

text \<open>C18: after a get-or-create on a store with at most one active round, exactly
  one round is active.\<close>

theorem rodada_ativa_ou_cria_uma:
  assumes "uma_ativa (rodadas d)"
  shows "length (filter ativa (rodadas (snd (rodada_ativa_ou_cria d)))) = 1"
proof (cases "ultima_ativa (rodadas d)")
  case None
  then have "length (filter ativa (rodadas d)) = 0"
    by (simp add: ultima_ativa_None length_filter_ativa_0)
  with None show ?thesis by (simp add: rodada_ativa_ou_cria_def nova_rodada_def)
next
  case (Some i)
  then have "ativa (rodadas d ! i)" and "i < length (rodadas d)" by (simp_all add: ultima_ativa_Some)
  then have "rodadas d ! i \<in> set (filter ativa (rodadas d))" by simp
  then have "0 < length (filter ativa (rodadas d))" by (rule length_pos_if_in_set)
  moreover have "length (filter ativa (rodadas d)) \<le> 1" using assms by (simp add: uma_ativa_def)
  ultimately have "length (filter ativa (rodadas d)) = 1" by linarith
  with Some show ?thesis by (simp add: rodada_ativa_ou_cria_def)
qed

theorem rodada_ativa_ou_cria_correta_witness:
  "rodada_ativa_ou_cria banca_exemplo = (0, banca_exemplo) \<and>
   0 < length (rodadas banca_exemplo) \<and> ativa (rodadas banca_exemplo ! 0)"
proof -
  have h: "rodada_ativa_ou_cria banca_exemplo = (0, banca_exemplo)"
    by (simp add: rodada_ativa_ou_cria_def ultima_ativa_def banca_exemplo_def)
  show ?thesis using h rodada_ativa_ou_cria_correta [OF h] by simp
qed

theorem rodada_ativa_ou_cria_uma_witness:
  "uma_ativa (rodadas banca_exemplo) \<and>
   length (filter ativa (rodadas (snd (rodada_ativa_ou_cria banca_exemplo)))) = 1"
proof -
  have u: "uma_ativa (rodadas banca_exemplo)" by (simp add: uma_ativa_def banca_exemplo_def)
  show ?thesis using u rodada_ativa_ou_cria_uma [OF u] by simp
qed

end
