(* ===== verification/Ledger.thy ===== *)
theory Ledger
  imports Rounds
begin

text \<open>
  The wager ledger: \<open>fazer_aposta\<close> and \<open>sacar\<close> of \<open>src/plataforma/views.py\<close>.
  A view receives \<open>request.user\<close>, the account as it was loaded when the request
  began (\<open>u\<close> below), and writes that instance back with \<open>usuario.save()\<close>; in a
  sequential run \<open>u\<close> is the stored row (\<open>usuarios d ! uid\<close>), and theory
  \<open>Concurrency\<close> interleaves two requests that loaded the same row.

  Form fields arrive parsed: \<open>None\<close> for a value the conversion rejects.
  \<open>Decimal(...)\<close> raises \<open>decimal.InvalidOperation\<close>, an \<open>ArithmeticError\<close> and
  not a \<open>ValueError\<close>, so a malformed stake reaches \<open>except Exception\<close> (status
  500); \<open>int(...)\<close> raises \<open>ValueError\<close> or \<open>TypeError\<close> (status 400). The
  stake is read before the chosen number, so the first failure decides the answer.
\<close>

definition fazer_aposta ::
  "db \<Rightarrow> pk \<Rightarrow> usuario \<Rightarrow> metodo_http \<Rightarrow> dinheiro option \<Rightarrow> int option \<Rightarrow> erro + (pk \<times> dinheiro \<times> db)" where
  "fazer_aposta d uid u m valor_post numero_post =
     (if m \<noteq> POST then Inl MetodoInvalido
      else case valor_post of
        None \<Rightarrow> Inl ErroInterno
      | Some v \<Rightarrow>
          (case numero_post of
             None \<Rightarrow> Inl DadosInvalidos
           | Some n \<Rightarrow>
               if saldo u < v then Inl SaldoInsuficiente
               else
                 (let (rid, d1) = rodada_ativa_ou_cria d;
                      nova_aposta = \<lparr>ap_usuario = uid, ap_rodada = rid, valor_escolhido = n,
                                     valor_investido = v, ganhou = None\<rparr>;
                      d2 = d1\<lparr>apostas := apostas d1 @ [nova_aposta]\<rparr>;
                      u' = u\<lparr>saldo := saldo u - v\<rparr>
                  in Inr (length (apostas d1), saldo u', salvar_usuario d2 uid u'))))"

datatype resposta_saque = SaqueRealizado | ValorMinimo | SaldoInsuficienteSaque | FormularioSaque

definition sacar :: "db \<Rightarrow> pk \<Rightarrow> usuario \<Rightarrow> metodo_http \<Rightarrow> dinheiro option \<Rightarrow> erro + (resposta_saque \<times> db)" where
  "sacar d uid u m valor_post =
     (if m = POST then
        (case valor_post of
           None \<Rightarrow> Inl ErroInterno
         | Some v \<Rightarrow>
             if v < 2500 then Inr (ValorMinimo, d)
             else if v \<le> saldo u then
               Inr (SaqueRealizado,
                    salvar_usuario
                      (d\<lparr>saques := saques d @ [\<lparr>saque_usuario = uid, saque_valor = v, saque_status = ''PENDENTE''\<rparr>]\<rparr>)
                      uid (u\<lparr>saldo := saldo u - v\<rparr>))
             else Inr (SaldoInsuficienteSaque, d))
      else Inr (FormularioSaque, d))"

text \<open>Sample store for the withdrawal witness: the first account holds 3000 Kz.\<close>

definition banca_saque :: db where
  "banca_saque = banca_exemplo\<lparr>usuarios := [\<lparr>telefone = ''923000001'', pais = ''Angola'',
      convidado_por = None, saldo = 3000\<rparr>]\<rparr>"

lemmas exemplo_simps = banca_exemplo_def banca_saque_def rodada_ativa_ou_cria_def ultima_ativa_def
  saldo_de_def total_saldos_def obter_def salvar_usuario_def saldos_nao_negativos_def

subsection \<open>Lemmas\<close>

lemma fazer_aposta_Inr:
  "fazer_aposta d uid u m vp np = Inr (aid, s, d') \<longleftrightarrow>
   (\<exists>v n rid d1. m = POST \<and> vp = Some v \<and> np = Some n \<and> v \<le> saldo u \<and>
      rodada_ativa_ou_cria d = (rid, d1) \<and> aid = length (apostas d) \<and> s = saldo u - v \<and>
      d' = salvar_usuario (d1\<lparr>apostas := apostas d @ [\<lparr>ap_usuario = uid, ap_rodada = rid,
              valor_escolhido = n, valor_investido = v, ganhou = None\<rparr>]\<rparr>) uid (u\<lparr>saldo := saldo u - v\<rparr>))"
  by (auto simp: fazer_aposta_def not_less split: option.splits prod.splits
      dest: rodada_ativa_ou_cria_eq_tables)

lemma saldos_nao_negativos_salvar:
  "saldos_nao_negativos d \<Longrightarrow> 0 \<le> saldo u \<Longrightarrow> saldos_nao_negativos (salvar_usuario d uid u)"
  by (auto simp: saldos_nao_negativos_def salvar_usuario_def list_all_iff dest: set_update_subset_insert [THEN subsetD])

lemma saldos_nao_negativos_nth: "saldos_nao_negativos d \<Longrightarrow> uid < length (usuarios d) \<Longrightarrow> 0 \<le> saldo (usuarios d ! uid)"
  by (simp add: saldos_nao_negativos_def list_all_length)

lemma saldos_nao_negativos_tables [simp]:
  "saldos_nao_negativos (d\<lparr>apostas := a\<rparr>) = saldos_nao_negativos d"
  "saldos_nao_negativos (d\<lparr>rodadas := r\<rparr>) = saldos_nao_negativos d"
  "saldos_nao_negativos (d\<lparr>saques := s\<rparr>) = saldos_nao_negativos d"
  "saldos_nao_negativos (d\<lparr>depositos := x\<rparr>) = saldos_nao_negativos d"
  by (simp_all add: saldos_nao_negativos_def)

lemma saldos_nao_negativos_ativa_ou_cria [simp]:
  "saldos_nao_negativos (snd (rodada_ativa_ou_cria d)) = saldos_nao_negativos d"
  by (simp add: saldos_nao_negativos_def)

lemma saldo_de_tables [simp]:
  "saldo_de (d\<lparr>apostas := a\<rparr>) = saldo_de d"
  "saldo_de (d\<lparr>saques := x\<rparr>) = saldo_de d"
  "total_saldos (d\<lparr>apostas := a\<rparr>) = total_saldos d"
  "total_saldos (d\<lparr>saques := x\<rparr>) = total_saldos d"
  by (simp_all add: saldo_de_def total_saldos_def fun_eq_iff)

lemma saldo_de_nth: "uid < length (usuarios d) \<Longrightarrow> saldo_de d uid = saldo (usuarios d ! uid)"
  by (simp add: saldo_de_def obter_def)

lemma fazer_aposta_efeito:
  assumes "uid < length (usuarios d)"
    and "fazer_aposta d uid (usuarios d ! uid) m (Some v) (Some n) = Inr (aid, s, d')"
  obtains rid d1 where "rodada_ativa_ou_cria d = (rid, d1)" and "usuarios d1 = usuarios d"
    and "d' = salvar_usuario (d1\<lparr>apostas := apostas d @ [\<lparr>ap_usuario = uid, ap_rodada = rid,
              valor_escolhido = n, valor_investido = v, ganhou = None\<rparr>]\<rparr>) uid
              ((usuarios d ! uid)\<lparr>saldo := saldo (usuarios d ! uid) - v\<rparr>)"
    and "m = POST" and "v \<le> saldo (usuarios d ! uid)" and "aid = length (apostas d)"
    and "s = saldo (usuarios d ! uid) - v"
  using assms(2) unfolding fazer_aposta_Inr
  by (auto dest: rodada_ativa_ou_cria_eq_tables)

subsection \<open>Properties of the ledger\<close>

text \<open>C3: placing a bet debits the stake at once. On success the account's stored
  balance, and the balance answered to the client, is the old one minus the stake;
  no other account changes, so the sum of all balances drops by the stake; and the bet
  is stored under the answered key, unsettled, on the round that is active after the
  request.\<close>

theorem fazer_aposta_debita:
  assumes "uid < length (usuarios d)"
    and "fazer_aposta d uid (usuarios d ! uid) m (Some v) (Some n) = Inr (aid, s, d')"
  shows "saldo_de d' uid = saldo_de d uid - v \<and> s = saldo_de d' uid \<and>
         (\<forall>w. w \<noteq> uid \<longrightarrow> saldo_de d' w = saldo_de d w) \<and>
         total_saldos d' = total_saldos d - v \<and>
         (\<exists>rid. obter (apostas d') aid = Some \<lparr>ap_usuario = uid, ap_rodada = rid,
             valor_escolhido = n, valor_investido = v, ganhou = None\<rparr> \<and>
             rid < length (rodadas d') \<and> ativa (rodadas d' ! rid))"
proof -
  obtain rid d1 where r: "rodada_ativa_ou_cria d = (rid, d1)" and u: "usuarios d1 = usuarios d"
    and d': "d' = salvar_usuario (d1\<lparr>apostas := apostas d @ [\<lparr>ap_usuario = uid, ap_rodada = rid,
              valor_escolhido = n, valor_investido = v, ganhou = None\<rparr>]\<rparr>) uid
              ((usuarios d ! uid)\<lparr>saldo := saldo (usuarios d ! uid) - v\<rparr>)"
    and aid: "aid = length (apostas d)" and s: "s = saldo (usuarios d ! uid) - v"
    using fazer_aposta_efeito [OF assms] by blast
  have sd1: "saldo_de d1 = saldo_de d" "total_saldos d1 = total_saldos d"
    using u by (simp_all add: saldo_de_def total_saldos_def fun_eq_iff)
  have act: "rid < length (rodadas d1) \<and> ativa (rodadas d1 ! rid)"
    using r by (rule rodada_ativa_ou_cria_ativa)
  show ?thesis
    using assms(1) u sd1 act
    by (simp add: d' aid s saldo_de_salvar total_saldos_salvar saldo_de_nth obter_append_new)
qed

text \<open>C16: the error answers of \<open>fazer_aposta\<close>, in the order the code checks:
  a request that is not a POST gets status 405; then an unparsable stake the generic
  500 (a \<open>decimal.InvalidOperation\<close> is not caught as invalid data); then an
  unparsable number 400; then a stake above the balance \<open>Saldo insuficiente!\<close>.
  An error never changes the store: the answer carries none.\<close>

theorem fazer_aposta_erro:
  "fazer_aposta d uid u m vp np = Inl e \<longleftrightarrow>
     (m \<noteq> POST \<and> e = MetodoInvalido) \<or>
     (m = POST \<and> vp = None \<and> e = ErroInterno) \<or>
     (m = POST \<and> vp \<noteq> None \<and> np = None \<and> e = DadosInvalidos) \<or>
     (m = POST \<and> np \<noteq> None \<and> (\<exists>v. vp = Some v \<and> saldo u < v) \<and> e = SaldoInsuficiente)"
  by (auto simp: fazer_aposta_def split: option.splits prod.splits)

text \<open>The only conditions under which a bet is accepted are a POST, two
  parsable fields and a stake no larger than the balance. In particular a zero or
  negative stake, and a number outside \<open>[0, 2, 3, 4, 5, 6]\<close>, are accepted.\<close>

theorem fazer_aposta_aceita:
  "(\<exists>r. fazer_aposta d uid u m vp np = Inr r) \<longleftrightarrow>
   m = POST \<and> (\<exists>v n. vp = Some v \<and> np = Some n \<and> v \<le> saldo u)"
  by (auto simp: fazer_aposta_def not_less split: option.splits prod.splits)

text \<open>C14: placing a bet never makes a balance negative: every stored balance
  stays non-negative, whatever the stake (a positive stake above the balance is
  refused; a negative one raises the balance).\<close>

theorem fazer_aposta_nao_negativo:
  assumes "saldos_nao_negativos d" and "uid < length (usuarios d)"
    and "fazer_aposta d uid (usuarios d ! uid) m vp np = Inr (aid, s, d')"
  shows "saldos_nao_negativos d'"
proof -
  obtain v n rid d1 where r: "rodada_ativa_ou_cria d = (rid, d1)" and le: "v \<le> saldo (usuarios d ! uid)"
    and d': "d' = salvar_usuario (d1\<lparr>apostas := apostas d @ [\<lparr>ap_usuario = uid, ap_rodada = rid,
              valor_escolhido = n, valor_investido = v, ganhou = None\<rparr>]\<rparr>) uid
              ((usuarios d ! uid)\<lparr>saldo := saldo (usuarios d ! uid) - v\<rparr>)"
    using assms(3) unfolding fazer_aposta_Inr by blast
  have "saldos_nao_negativos d1"
    using assms(1) r rodada_ativa_ou_cria_eq_tables [OF r] by (simp add: saldos_nao_negativos_def)
  moreover have "0 \<le> saldo (usuarios d ! uid) - v"
    using le by simp
  ultimately show ?thesis
    unfolding d' by (intro saldos_nao_negativos_salvar) simp_all
qed

text \<open>C15: a negative stake is accepted and credits the account. For any account
  with a non-negative balance and any negative stake \<open>v\<close>, \<open>fazer_aposta\<close>
  succeeds and the stored balance grows by \<open>-v\<close>: the missing \<open>stake > 0\<close> check
  lets a client mint money.\<close>

theorem aposta_negativa_credita:
  assumes "uid < length (usuarios d)" and "0 \<le> saldo (usuarios d ! uid)" and "v < 0"
  shows "\<exists>aid d'. fazer_aposta d uid (usuarios d ! uid) POST (Some v) (Some n) = Inr (aid, saldo_de d uid - v, d') \<and>
                saldo_de d' uid = saldo_de d uid - v \<and> saldo_de d uid < saldo_de d' uid"
proof -
  obtain rid d1 where r: "rodada_ativa_ou_cria d = (rid, d1)" by (cases "rodada_ativa_ou_cria d")
  let ?d' = "salvar_usuario (d1\<lparr>apostas := apostas d @ [\<lparr>ap_usuario = uid, ap_rodada = rid,
              valor_escolhido = n, valor_investido = v, ganhou = None\<rparr>]\<rparr>) uid
              ((usuarios d ! uid)\<lparr>saldo := saldo (usuarios d ! uid) - v\<rparr>)"
  have u: "usuarios d1 = usuarios d" using rodada_ativa_ou_cria_eq_tables [OF r] by simp
  have "fazer_aposta d uid (usuarios d ! uid) POST (Some v) (Some n) = Inr (length (apostas d), saldo_de d uid - v, ?d')"
    using assms r by (simp add: fazer_aposta_Inr saldo_de_nth)
  moreover have "saldo_de ?d' uid = saldo_de d uid - v"
    using assms(1) u by (simp add: saldo_de_salvar saldo_de_nth)
  ultimately show ?thesis using assms(3) by auto
qed

text \<open>C20: a withdrawal that succeeds asked for at least the 2500 Kz minimum and at
  most the balance; the stored balance is debited at once by the amount, so it stays
  non-negative, and one pending withdrawal request is recorded.\<close>

theorem sacar_correto:
  assumes "uid < length (usuarios d)"
    and "sacar d uid (usuarios d ! uid) m vp = Inr (SaqueRealizado, d')"
  shows "\<exists>v. vp = Some v \<and> 2500 \<le> v \<and> v \<le> saldo_de d uid \<and>
             saldo_de d' uid = saldo_de d uid - v \<and> 0 \<le> saldo_de d' uid \<and>
             saques d' = saques d @ [\<lparr>saque_usuario = uid, saque_valor = v, saque_status = ''PENDENTE''\<rparr>]"
  using assms
  by (auto simp: sacar_def saldo_de_salvar saldo_de_nth not_less split: if_splits option.splits)

subsection \<open>Witnesses\<close>

theorem fazer_aposta_debita_witness:
  "0 < length (usuarios banca_exemplo) \<and>
   (\<exists>d'. fazer_aposta banca_exemplo 0 (usuarios banca_exemplo ! 0) POST (Some 200) (Some 3) = Inr (0, 800, d') \<and>
         saldo_de d' 0 = 800 \<and> total_saldos d' = 1300)"
proof -
  define d' where "d' = snd (snd (projr (fazer_aposta banca_exemplo 0 (usuarios banca_exemplo ! 0) POST (Some 200) (Some 3))))"
  have h0: "0 < length (usuarios banca_exemplo)" by (simp add: banca_exemplo_def)
  have h: "fazer_aposta banca_exemplo 0 (usuarios banca_exemplo ! 0) POST (Some 200) (Some 3) = Inr (0, 800, d')"
    by (simp add: d'_def fazer_aposta_def exemplo_simps)
  have "saldo_de banca_exemplo 0 = 1000" "total_saldos banca_exemplo = 1500"
    by (simp_all add: exemplo_simps)
  with fazer_aposta_debita [OF h0 h] h0 h show ?thesis by auto
qed

theorem fazer_aposta_erro_witness:
  "fazer_aposta banca_exemplo 0 (usuarios banca_exemplo ! 0) GET None None = Inl MetodoInvalido \<and>
   fazer_aposta banca_exemplo 0 (usuarios banca_exemplo ! 0) POST None None = Inl ErroInterno \<and>
   fazer_aposta banca_exemplo 0 (usuarios banca_exemplo ! 0) POST (Some 5000) (Some 2) = Inl SaldoInsuficiente"
  using fazer_aposta_erro [of banca_exemplo 0 "usuarios banca_exemplo ! 0"]
  by (simp add: banca_exemplo_def)

theorem fazer_aposta_aceita_witness:
  "\<exists>r. fazer_aposta banca_exemplo 0 (usuarios banca_exemplo ! 0) POST (Some 0) (Some 7) = Inr r"
  using fazer_aposta_aceita [of banca_exemplo 0 "usuarios banca_exemplo ! 0" POST "Some 0" "Some 7"]
  by (simp add: banca_exemplo_def)

theorem fazer_aposta_nao_negativo_witness:
  "saldos_nao_negativos banca_exemplo \<and> 0 < length (usuarios banca_exemplo) \<and>
   (\<exists>d'. fazer_aposta banca_exemplo 0 (usuarios banca_exemplo ! 0) POST (Some 1000) (Some 6) = Inr (0, 0, d') \<and>
         saldos_nao_negativos d')"
proof -
  define d' where "d' = snd (snd (projr (fazer_aposta banca_exemplo 0 (usuarios banca_exemplo ! 0) POST (Some 1000) (Some 6))))"
  have h1: "saldos_nao_negativos banca_exemplo" and h2: "0 < length (usuarios banca_exemplo)"
    by (simp_all add: exemplo_simps)
  have h: "fazer_aposta banca_exemplo 0 (usuarios banca_exemplo ! 0) POST (Some 1000) (Some 6) = Inr (0, 0, d')"
    by (simp add: d'_def fazer_aposta_def exemplo_simps)
  from fazer_aposta_nao_negativo [OF h1 h2 h] h1 h2 h show ?thesis by auto
qed

theorem aposta_negativa_credita_witness:
  "0 < length (usuarios banca_exemplo) \<and> 0 \<le> saldo (usuarios banca_exemplo ! 0) \<and>
   (\<exists>aid d'. fazer_aposta banca_exemplo 0 (usuarios banca_exemplo ! 0) POST (Some (-500)) (Some 2) = Inr (aid, 1500, d') \<and>
            saldo_de d' 0 = 1500)"
proof -
  have h1: "0 < length (usuarios banca_exemplo)" and h2: "0 \<le> saldo (usuarios banca_exemplo ! 0)"
    and b: "saldo_de banca_exemplo 0 = 1000"
    by (simp_all add: exemplo_simps)
  from aposta_negativa_credita [OF h1 h2, of "-500" 2] b h1 h2 show ?thesis by auto
qed

theorem sacar_correto_witness:
  "0 < length (usuarios banca_saque) \<and>
   (\<exists>d'. sacar banca_saque 0 (usuarios banca_saque ! 0) POST (Some 2500) = Inr (SaqueRealizado, d') \<and>
         saldo_de d' 0 = 500)"
proof -
  define d' where "d' = snd (projr (sacar banca_saque 0 (usuarios banca_saque ! 0) POST (Some 2500)))"
  have h0: "0 < length (usuarios banca_saque)" by (simp add: exemplo_simps)
  have h: "sacar banca_saque 0 (usuarios banca_saque ! 0) POST (Some 2500) = Inr (SaqueRealizado, d')"
    by (simp add: d'_def sacar_def exemplo_simps)
  have b: "saldo_de banca_saque 0 = 3000" by (simp add: exemplo_simps)
  from sacar_correto [OF h0 h] b h0 h show ?thesis by auto
qed

end
