(* ===== verification/Selector.thy ===== *)
theory Selector
  imports Models
begin

text \<open>
  The house-optimal draw of \<open>fechar_rodada_lucrativa\<close>
  (\<open>src/plataforma/views.py\<close>): for each option of \<open>[0, 2, 3, 4, 5, 6]\<close> the
  sum of the stakes placed on it in the round (\<open>aggregate(Sum(...)) or 0\<close>, so an
  option nobody chose costs 0), multiplied by the option except for 0, which only
  refunds; the winner is \<open>min(gastos_por_opcao, key=gastos_por_opcao.get)\<close>, the
  left-to-right scan \<open>min_chave\<close> over the dictionary's insertion order. The
  reference \<open>vencedor_ref\<close> is the specification: the least option whose exposure
  is no larger than any other's.
\<close>

definition opcoes :: "int list" where
  "opcoes = [0, 2, 3, 4, 5, 6]"

definition apostas_da_rodada :: "db \<Rightarrow> pk \<Rightarrow> aposta list" where
  "apostas_da_rodada d r = filter (\<lambda>a. ap_rodada a = r) (apostas d)"

definition total_apostado :: "db \<Rightarrow> pk \<Rightarrow> int \<Rightarrow> dinheiro" where
  "total_apostado d r opt =
     sum_list (map valor_investido (filter (\<lambda>a. valor_escolhido a = opt) (apostas_da_rodada d r)))"

definition gasto :: "db \<Rightarrow> pk \<Rightarrow> int \<Rightarrow> dinheiro" where
  "gasto d r opt =
     (let total = total_apostado d r opt in if opt = 0 then total else total * of_int opt)"

definition numero_vencedor :: "db \<Rightarrow> pk \<Rightarrow> int" where
  "numero_vencedor d r = min_chave (gasto d r) (hd opcoes) (tl opcoes)"

subsection \<open>Specification\<close>

definition vencedor_ref :: "db \<Rightarrow> pk \<Rightarrow> int" where
  "vencedor_ref d r =
     Min (set (filter (\<lambda>k. list_all (\<lambda>j. gasto d r k \<le> gasto d r j) opcoes) opcoes))"

definition apostado_na_rodada :: "db \<Rightarrow> pk \<Rightarrow> dinheiro" where
  "apostado_na_rodada d r = sum_list (map valor_investido (apostas_da_rodada d r))"

definition duas_apostas :: db where
  "duas_apostas =
     banca_exemplo\<lparr>apostas :=
       [\<lparr>ap_usuario = 0, ap_rodada = 0, valor_escolhido = 2, valor_investido = 100, ganhou = None\<rparr>,
        \<lparr>ap_usuario = 1, ap_rodada = 0, valor_escolhido = 0, valor_investido = 100, ganhou = None\<rparr>]\<rparr>"

subsection \<open>Lemmas\<close>

lemma numero_vencedor_mem: "numero_vencedor d r \<in> set opcoes"
  using min_chave_mem [of "gasto d r" "hd opcoes" "tl opcoes"]
  by (simp add: numero_vencedor_def opcoes_def)

lemma numero_vencedor_le: "j \<in> set opcoes \<Longrightarrow> gasto d r (numero_vencedor d r) \<le> gasto d r j"
  unfolding numero_vencedor_def
  by (rule min_chave_le) (simp add: opcoes_def)

lemma numero_vencedor_least_tie:
  "j \<in> set opcoes \<Longrightarrow> gasto d r j = gasto d r (numero_vencedor d r) \<Longrightarrow> numero_vencedor d r \<le> j"
  unfolding numero_vencedor_def
  by (rule min_chave_least_tie) (simp_all add: opcoes_def)

lemma sum_list_filter_le_nonneg:
  fixes f :: "'a \<Rightarrow> 'b::ordered_comm_monoid_add"
  shows "list_all (\<lambda>x. 0 \<le> f x) xs \<Longrightarrow> sum_list (map f (filter P xs)) \<le> sum_list (map f xs)"
proof (induction xs)
  case Nil
  then show ?case by simp
next
  case (Cons x xs)
  then have "sum_list (map f (filter P xs)) \<le> sum_list (map f xs)" and "0 \<le> f x" by simp_all
  then show ?case by (auto intro: add_left_mono add_increasing)
qed

lemma gasto_zero: "gasto d r 0 = total_apostado d r 0"
  by (simp add: gasto_def)

lemma gasto_nonneg:
  assumes "list_all (\<lambda>a. 0 \<le> valor_investido a) (apostas d)" and "k \<in> set opcoes"
  shows "0 \<le> gasto d r k"
proof -
  have "0 \<le> total_apostado d r k"
    using assms(1) unfolding total_apostado_def apostas_da_rodada_def
    by (intro sum_list_nonneg) (auto simp: list_all_iff)
  moreover have "0 \<le> k" using assms(2) by (auto simp: opcoes_def)
  ultimately show ?thesis by (auto simp: gasto_def Let_def)
qed

subsection \<open>Properties of the selector\<close>

text \<open>C1: the scan computes the specification. The outcome drawn by
  \<open>fechar_rodada_lucrativa\<close> is the least option of \<open>[0, 2, 3, 4, 5, 6]\<close>
  whose exposure (stakes on it times the option, or the stakes themselves for 0) is
  minimal: CPython's first-found minimum over the options in increasing order breaks
  ties towards the smallest option.\<close>

theorem numero_vencedor_ref: "numero_vencedor d r = vencedor_ref d r"
proof -
  let ?A = "set (filter (\<lambda>k. list_all (\<lambda>j. gasto d r k \<le> gasto d r j) opcoes) opcoes)"
  have mem: "numero_vencedor d r \<in> ?A"
    using numero_vencedor_mem numero_vencedor_le by (auto simp: list_all_iff)
  have least: "numero_vencedor d r \<le> k" if "k \<in> ?A" for k
  proof -
    from that have k: "k \<in> set opcoes" and "gasto d r k \<le> gasto d r (numero_vencedor d r)"
      using numero_vencedor_mem by (auto simp: list_all_iff)
    moreover have "gasto d r (numero_vencedor d r) \<le> gasto d r k"
      using k by (rule numero_vencedor_le)
    ultimately have "gasto d r k = gasto d r (numero_vencedor d r)" by (meson order.antisym)
    with k show ?thesis by (rule numero_vencedor_least_tie)
  qed
  show ?thesis unfolding vencedor_ref_def
    by (rule Min_eqI [symmetric]) (use mem least in auto)
qed

text \<open>C6: the house never pays out more than the round took in. When no stake is
  negative, the exposure of the drawn outcome is at most the sum of all stakes of the
  round, because option 0 only refunds what was bet on it.\<close>

theorem casa_nunca_perde:
  assumes "list_all (\<lambda>a. 0 \<le> valor_investido a) (apostas d)"
  shows "gasto d r (numero_vencedor d r) \<le> apostado_na_rodada d r"
proof -
  have nonneg: "list_all (\<lambda>a. 0 \<le> valor_investido a) (apostas_da_rodada d r)"
    using assms by (simp add: apostas_da_rodada_def list_all_iff)
  have "gasto d r (numero_vencedor d r) \<le> gasto d r 0"
    by (rule numero_vencedor_le) (simp add: opcoes_def)
  also have "\<dots> \<le> apostado_na_rodada d r"
    using sum_list_filter_le_nonneg [OF nonneg]
    by (simp add: gasto_zero total_apostado_def apostado_na_rodada_def)
  finally show ?thesis .
qed

text \<open>C21: an option nobody bet on costs the house nothing, so whenever one of the
  six options has no stake in the round, the drawn outcome pays nothing at all (with
  non-negative stakes): the exposure of the draw is zero, so no bet with a positive
  stake is on the drawn number.\<close>

theorem vencedor_sem_premio:
  assumes "list_all (\<lambda>a. 0 \<le> valor_investido a) (apostas d)"
    and "k \<in> set opcoes" and "total_apostado d r k = 0"
  shows "gasto d r (numero_vencedor d r) = 0"
proof -
  have "gasto d r k = 0" using assms(3) by (simp add: gasto_def)
  with numero_vencedor_le [where d = d and r = r, OF assms(2)] have "gasto d r (numero_vencedor d r) \<le> 0" by simp
  moreover have "0 \<le> gasto d r (numero_vencedor d r)"
    using assms(1) numero_vencedor_mem by (rule gasto_nonneg)
  ultimately show ?thesis by simp
qed

text \<open>The scenario of the specification with two bets of 100, one on option 2
  and one on option 0. The code does not draw 0: options 3 to 6 carry no stake and
  cost nothing, and the first of them, 3, is drawn.\<close>

theorem cenario_duas_apostas: "numero_vencedor duas_apostas 0 = 3"
  by (simp add: numero_vencedor_def opcoes_def gasto_def total_apostado_def
      apostas_da_rodada_def duas_apostas_def)

theorem vencedor_sem_premio_witness:
  "list_all (\<lambda>a. 0 \<le> valor_investido a) (apostas duas_apostas) \<and> total_apostado duas_apostas 0 3 = 0 \<and>
   gasto duas_apostas 0 (numero_vencedor duas_apostas 0) = 0"
proof -
  have h1: "list_all (\<lambda>a. 0 \<le> valor_investido a) (apostas duas_apostas)"
    by (simp add: duas_apostas_def)
  have h2: "total_apostado duas_apostas 0 3 = 0"
    by (simp add: total_apostado_def apostas_da_rodada_def duas_apostas_def)
  have h3: "(3::int) \<in> set opcoes" by (simp add: opcoes_def)
  from h1 h2 vencedor_sem_premio [OF h1 h3 h2] show ?thesis by simp
qed

theorem casa_nunca_perde_witness:
  "list_all (\<lambda>a. 0 \<le> valor_investido a) (apostas duas_apostas) \<and>
   numero_vencedor duas_apostas 0 = 3 \<and>
   gasto duas_apostas 0 (numero_vencedor duas_apostas 0) \<le> apostado_na_rodada duas_apostas 0"
proof -
  have h: "list_all (\<lambda>a. 0 \<le> valor_investido a) (apostas duas_apostas)"
    by (simp add: duas_apostas_def)
  have v: "numero_vencedor duas_apostas 0 = 3"
    by (simp add: numero_vencedor_def opcoes_def gasto_def total_apostado_def
        apostas_da_rodada_def duas_apostas_def)
  from h v casa_nunca_perde [OF h, of 0] show ?thesis by simp
qed

end
