(* ===== verification/Settlement.thy ===== *)
theory Settlement
  imports Selector Rounds
begin

text \<open>
  The two settlement paths of \<open>src/plataforma/views.py\<close>.

  \<open>fechar_rodada_lucrativa(rodada_id)\<close> loads the round (\<open>Rodada.DoesNotExist\<close>
  escapes when there is none: \<^term>\<open>None\<close> below), draws \<open>numero_vencedor\<close>,
  closes the round, then walks the queryset \<open>Aposta.objects.filter(rodada=rodada)\<close>:
  a list of (key, instance) pairs fixed when the loop starts. For each bet the
  related account is loaded afresh and credited the prize (the stake for outcome 0,
  stake times outcome otherwise) when the bet chose the drawn number; the bet instance,
  with \<open>ganhou\<close> set, is then saved whole. Nothing checks whether the round was
  already closed or the bet already settled.

  \<open>processar_resultado_final\<close> is called by the browser with the outcome it claims
  and a bet key. A bet that is missing or belongs to someone else makes
  \<open>get_object_or_404\<close> raise \<open>Http404\<close>, which the view's \<open>except Exception\<close>
  turns into a 500 answer. A bet with \<open>ganhou\<close> already set is left alone; otherwise
  it is won when its number equals the claimed one and \<open>request.user\<close> is credited
  stake times the claimed number.
\<close>

definition premio :: "int \<Rightarrow> aposta \<Rightarrow> dinheiro" where
  "premio vencedor a =
     (if vencedor = 0 then valor_investido a else valor_investido a * of_int vencedor)"

definition liquidar_aposta :: "int \<Rightarrow> db \<Rightarrow> pk \<times> aposta \<Rightarrow> db" where
  "liquidar_aposta vencedor d ia =
     (let (aid, a) = ia in
      if valor_escolhido a = vencedor then
        (let d1 = creditar d (ap_usuario a) (premio vencedor a)
         in d1\<lparr>apostas := (apostas d1)[aid := a\<lparr>ganhou := Some True\<rparr>]\<rparr>)
      else d\<lparr>apostas := (apostas d)[aid := a\<lparr>ganhou := Some False\<rparr>]\<rparr>)"

fun pagar_apostas :: "int \<Rightarrow> db \<Rightarrow> (pk \<times> aposta) list \<Rightarrow> db" where
  "pagar_apostas vencedor d [] = d"
| "pagar_apostas vencedor d (ia # ias) = pagar_apostas vencedor (liquidar_aposta vencedor d ia) ias"

definition apostas_query :: "db \<Rightarrow> pk \<Rightarrow> (pk \<times> aposta) list" where
  "apostas_query d r =
     map (\<lambda>i. (i, apostas d ! i)) (filter (\<lambda>i. ap_rodada (apostas d ! i) = r) [0..<length (apostas d)])"

definition fechar_rodada_lucrativa :: "db \<Rightarrow> pk \<Rightarrow> db option" where
  "fechar_rodada_lucrativa d r =
     (case obter (rodadas d) r of
        None \<Rightarrow> None
      | Some _ \<Rightarrow>
          (let vencedor = numero_vencedor d r;
               d1 = encerrar_rodada d r vencedor
           in Some (pagar_apostas vencedor d1 (apostas_query d1 r))))"

datatype resposta_resultado = Processado dinheiro | Confirmado bool dinheiro

fun saldo_resposta :: "resposta_resultado \<Rightarrow> dinheiro" where
  "saldo_resposta (Processado s) = s"
| "saldo_resposta (Confirmado _ s) = s"

definition processar_resultado_final ::
  "db \<Rightarrow> pk \<Rightarrow> usuario \<Rightarrow> metodo_http \<Rightarrow> int option \<Rightarrow> pk option \<Rightarrow> erro + (resposta_resultado \<times> db)" where
  "processar_resultado_final d uid u m resultado_post aposta_id =
     (if m \<noteq> POST then Inl Invalido
      else case resultado_post of
        None \<Rightarrow> Inl ErroInterno
      | Some resultado_dado \<Rightarrow>
          (case aposta_id of
             None \<Rightarrow> Inl ErroInterno
           | Some aid \<Rightarrow>
               (case obter (apostas d) aid of
                  None \<Rightarrow> Inl ErroInterno
                | Some a \<Rightarrow>
                    if ap_usuario a \<noteq> uid then Inl ErroInterno
                    else if ganhou a \<noteq> None then Inr (Processado (saldo u), d)
                    else if valor_escolhido a = resultado_dado then
                      (let u' = u\<lparr>saldo := saldo u + valor_investido a * of_int resultado_dado\<rparr>;
                           d1 = salvar_usuario d uid u'
                       in Inr (Confirmado True (saldo u'),
                               d1\<lparr>apostas := (apostas d1)[aid := a\<lparr>ganhou := Some True\<rparr>]\<rparr>))
                    else Inr (Confirmado False (saldo u),
                              d\<lparr>apostas := (apostas d)[aid := a\<lparr>ganhou := Some False\<rparr>]\<rparr>))))"

text \<open>Sample round for the witnesses: the first account bets 100 on 0, the second
  100 on each of 2 to 6, so 0 has the least exposure and is drawn.\<close>

definition rodada_cheia :: db where
  "rodada_cheia =
     banca_exemplo\<lparr>apostas :=
       \<lparr>ap_usuario = 0, ap_rodada = 0, valor_escolhido = 0, valor_investido = 100, ganhou = None\<rparr> #
       map (\<lambda>n. \<lparr>ap_usuario = 1, ap_rodada = 0, valor_escolhido = n, valor_investido = 100, ganhou = None\<rparr>)
         [2, 3, 4, 5, 6]\<rparr>"

subsection \<open>The payout loop\<close>

lemma liquidar_aposta_tables [simp]:
  "rodadas (liquidar_aposta v d ia) = rodadas d"
  "depositos (liquidar_aposta v d ia) = depositos d"
  "saques (liquidar_aposta v d ia) = saques d"
  "length (usuarios (liquidar_aposta v d ia)) = length (usuarios d)"
  "length (apostas (liquidar_aposta v d ia)) = length (apostas d)"
  by (simp_all add: liquidar_aposta_def Let_def split: prod.split)

lemma pagar_apostas_tables [simp]:
  "rodadas (pagar_apostas v d ias) = rodadas d"
  "depositos (pagar_apostas v d ias) = depositos d"
  "saques (pagar_apostas v d ias) = saques d"
  "length (usuarios (pagar_apostas v d ias)) = length (usuarios d)"
  "length (apostas (pagar_apostas v d ias)) = length (apostas d)"
  by (induction ias arbitrary: d) simp_all

lemma saldo_de_tables_apostas [simp]:
  "saldo_de (d\<lparr>apostas := x\<rparr>) = saldo_de d" "total_saldos (d\<lparr>apostas := x\<rparr>) = total_saldos d"
  by (simp_all add: saldo_de_def total_saldos_def fun_eq_iff)

lemma saldo_de_liquidar:
  "ap_usuario (snd ia) < length (usuarios d) \<Longrightarrow>
   saldo_de (liquidar_aposta v d ia) w =
   saldo_de d w + (if valor_escolhido (snd ia) = v \<and> ap_usuario (snd ia) = w then premio v (snd ia) else 0)"
  by (auto simp: liquidar_aposta_def Let_def saldo_de_creditar split: prod.split)

lemma total_saldos_liquidar:
  "ap_usuario (snd ia) < length (usuarios d) \<Longrightarrow>
   total_saldos (liquidar_aposta v d ia) =
   total_saldos d + (if valor_escolhido (snd ia) = v then premio v (snd ia) else 0)"
  by (auto simp: liquidar_aposta_def Let_def total_saldos_creditar split: prod.split)

lemma apostas_liquidar:
  "apostas (liquidar_aposta v d (i, a)) = (apostas d)[i := a\<lparr>ganhou := Some (valor_escolhido a = v)\<rparr>]"
  by (simp add: liquidar_aposta_def Let_def)

lemma saldo_de_pagar:
  "list_all (\<lambda>ia. ap_usuario (snd ia) < length (usuarios d)) ias \<Longrightarrow>
   saldo_de (pagar_apostas v d ias) w =
   saldo_de d w + sum_list (map (\<lambda>ia. if valor_escolhido (snd ia) = v \<and> ap_usuario (snd ia) = w
                                       then premio v (snd ia) else 0) ias)"
  by (induction ias arbitrary: d) (simp_all add: saldo_de_liquidar)

lemma total_saldos_pagar:
  "list_all (\<lambda>ia. ap_usuario (snd ia) < length (usuarios d)) ias \<Longrightarrow>
   total_saldos (pagar_apostas v d ias) =
   total_saldos d + sum_list (map (\<lambda>ia. if valor_escolhido (snd ia) = v then premio v (snd ia) else 0) ias)"
  by (induction ias arbitrary: d) (simp_all add: total_saldos_liquidar)

lemma apostas_pagar:
  "distinct (map fst ias) \<Longrightarrow> j < length (apostas d) \<Longrightarrow>
   apostas (pagar_apostas v d ias) ! j =
   (case map_of ias j of Some a \<Rightarrow> a\<lparr>ganhou := Some (valor_escolhido a = v)\<rparr> | None \<Rightarrow> apostas d ! j)"
proof (induction ias arbitrary: d)
  case Nil
  then show ?case by simp
next
  case (Cons ia ias)
  obtain i a where ia: "ia = (i, a)" by (cases ia)
  have "apostas (pagar_apostas v (liquidar_aposta v d ia) ias) ! j =
        (case map_of ias j of Some a \<Rightarrow> a\<lparr>ganhou := Some (valor_escolhido a = v)\<rparr>
         | None \<Rightarrow> apostas (liquidar_aposta v d ia) ! j)"
    using Cons by simp
  moreover have "i \<notin> set (map fst ias)" using Cons.prems(1) ia by simp
  then have "map_of ias i = None" by (simp add: map_of_eq_None_iff)
  ultimately show ?case
    using Cons.prems(2) by (auto simp: ia apostas_liquidar nth_list_update split: option.split)
qed

subsection \<open>The queryset of a round\<close>

lemma map_snd_apostas_query: "map snd (apostas_query d r) = apostas_da_rodada d r"
proof -
  have "map snd (apostas_query d r) =
        map ((!) (apostas d)) (filter (\<lambda>i. ap_rodada (apostas d ! i) = r) [0..<length (apostas d)])"
    by (simp add: apostas_query_def comp_def)
  also have "\<dots> = filter (\<lambda>a. ap_rodada a = r) (map ((!) (apostas d)) [0..<length (apostas d)])"
    by (simp add: filter_map comp_def)
  finally show ?thesis by (simp add: map_nth apostas_da_rodada_def)
qed

lemma distinct_apostas_query: "distinct (map fst (apostas_query d r))"
  by (simp add: apostas_query_def comp_def)

lemma map_of_apostas_query:
  "map_of (apostas_query d r) j =
   (if j < length (apostas d) \<and> ap_rodada (apostas d ! j) = r then Some (apostas d ! j) else None)"
  by (simp add: apostas_query_def map_of_map_restrict restrict_map_def)

lemma apostas_query_usuarios:
  "integro d \<Longrightarrow> list_all (\<lambda>ia. ap_usuario (snd ia) < length (usuarios d)) (apostas_query d r)"
  by (fastforce simp: apostas_query_def integro_def list_all_iff)

lemma sum_premios_gasto:
  "sum_list (map (\<lambda>ia. if valor_escolhido (snd ia) = v then premio v (snd ia) else 0) (apostas_query d r)) =
   gasto d r v"
proof -
  have "sum_list (map (\<lambda>ia. if valor_escolhido (snd ia) = v then premio v (snd ia) else 0) (apostas_query d r)) =
        sum_list (map (\<lambda>a. if valor_escolhido a = v then premio v a else 0) (map snd (apostas_query d r)))"
    by (simp add: comp_def)
  also have "\<dots> = sum_list (map (premio v) (filter (\<lambda>a. valor_escolhido a = v) (apostas_da_rodada d r)))"
    by (simp add: map_snd_apostas_query sum_list_map_filter')
  also have "\<dots> = gasto d r v"
    by (cases "v = 0") (simp_all add: premio_def [abs_def] gasto_def total_apostado_def Let_def sum_list_mult_const)
  finally show ?thesis .
qed

subsection \<open>Closing a round\<close>

lemma encerrar_rodada_tables [simp]:
  "usuarios (encerrar_rodada d r v) = usuarios d"
  "apostas (encerrar_rodada d r v) = apostas d"
  "depositos (encerrar_rodada d r v) = depositos d"
  "saques (encerrar_rodada d r v) = saques d"
  "length (rodadas (encerrar_rodada d r v)) = length (rodadas d)"
  by (simp_all add: encerrar_rodada_def)

lemma apostas_query_encerrar [simp]: "apostas_query (encerrar_rodada d r v) r' = apostas_query d r'"
  by (simp add: apostas_query_def)

lemma saldo_de_encerrar [simp]:
  "saldo_de (encerrar_rodada d r v) = saldo_de d" "total_saldos (encerrar_rodada d r v) = total_saldos d"
  by (simp_all add: saldo_de_def total_saldos_def fun_eq_iff)

lemma fechar_rodada_lucrativa_Some:
  "fechar_rodada_lucrativa d r = Some d' \<longleftrightarrow>
   r < length (rodadas d) \<and>
   d' = pagar_apostas (numero_vencedor d r) (encerrar_rodada d r (numero_vencedor d r)) (apostas_query d r)"
  by (auto simp: fechar_rodada_lucrativa_def obter_def Let_def split: if_splits)

text \<open>What the draw reads of a bet: its owner, round, number and stake. Settling a
  bet only writes \<open>ganhou\<close>, so the draw of a round is the same before and after.\<close>

definition leitura :: "db \<Rightarrow> (pk \<times> pk \<times> int \<times> dinheiro) list" where
  "leitura d = map (\<lambda>a. (ap_usuario a, ap_rodada a, valor_escolhido a, valor_investido a)) (apostas d)"

lemma leitura_ganhou:
  "length (apostas d') = length (apostas d) \<Longrightarrow>
   (\<And>j. j < length (apostas d) \<Longrightarrow> \<exists>g. apostas d' ! j = (apostas d ! j)\<lparr>ganhou := g\<rparr>) \<Longrightarrow>
   leitura d' = leitura d"
  by (fastforce simp: leitura_def intro: nth_equalityI)

lemma leitura_cong_apostas_da_rodada:
  assumes eq: "leitura d' = leitura d"
  shows "map (\<lambda>a. (ap_usuario a, valor_escolhido a, valor_investido a)) (apostas_da_rodada d' r) =
         map (\<lambda>a. (ap_usuario a, valor_escolhido a, valor_investido a)) (apostas_da_rodada d r)"
proof -
  have h: "map (\<lambda>a. (ap_usuario a, valor_escolhido a, valor_investido a)) (apostas_da_rodada x r) =
           map (\<lambda>(u, q, n, v). (u, n, v)) (filter (\<lambda>(u, q, n, v). q = r) (leitura x))" for x
    by (simp add: apostas_da_rodada_def leitura_def filter_map comp_def case_prod_beta)
  show ?thesis by (simp only: h eq)
qed

lemma sum_apostas_da_rodada_cong:
  assumes eq: "leitura d' = leitura d"
  shows "sum_list (map (\<lambda>a. f (ap_usuario a) (valor_escolhido a) (valor_investido a)) (apostas_da_rodada d' r)) =
         sum_list (map (\<lambda>a. f (ap_usuario a) (valor_escolhido a) (valor_investido a)) (apostas_da_rodada d r))"
proof -
  have h: "sum_list (map (\<lambda>a. f (ap_usuario a) (valor_escolhido a) (valor_investido a)) xs) =
           sum_list (map (\<lambda>(u, n, v). f u n v) (map (\<lambda>a. (ap_usuario a, valor_escolhido a, valor_investido a)) xs))"
    for xs :: "aposta list"
    by (simp add: comp_def)
  show ?thesis by (simp only: h leitura_cong_apostas_da_rodada [OF eq])
qed

lemma gasto_cong:
  assumes eq: "leitura d' = leitura d"
  shows "gasto d' r = gasto d r"
proof -
  have "total_apostado d' r k = total_apostado d r k" for k
    using sum_apostas_da_rodada_cong [OF eq, of "\<lambda>u n v. if n = k then v else 0" r]
    by (simp add: total_apostado_def sum_list_map_filter')
  then show ?thesis by (simp add: gasto_def fun_eq_iff)
qed

lemma numero_vencedor_cong: "leitura d' = leitura d \<Longrightarrow> numero_vencedor d' r = numero_vencedor d r"
proof -
  assume "leitura d' = leitura d"
  then have "gasto d' r = gasto d r" by (rule gasto_cong)
  then show ?thesis by (simp add: numero_vencedor_def)
qed

lemma apostas_fechar:
  assumes "fechar_rodada_lucrativa d r = Some d'" and j: "j < length (apostas d)"
  shows "apostas d' ! j =
         (if ap_rodada (apostas d ! j) = r
          then (apostas d ! j)\<lparr>ganhou := Some (valor_escolhido (apostas d ! j) = numero_vencedor d r)\<rparr>
          else apostas d ! j)"
proof -
  let ?v = "numero_vencedor d r"
  have d': "d' = pagar_apostas ?v (encerrar_rodada d r ?v) (apostas_query d r)"
    using assms(1) by (simp add: fechar_rodada_lucrativa_Some)
  have "apostas d' ! j = (case map_of (apostas_query d r) j of
          Some a \<Rightarrow> a\<lparr>ganhou := Some (valor_escolhido a = ?v)\<rparr> | None \<Rightarrow> apostas (encerrar_rodada d r ?v) ! j)"
    unfolding d' by (rule apostas_pagar) (simp_all add: distinct_apostas_query j)
  then show ?thesis using j by (simp add: map_of_apostas_query)
qed

lemma ex_ganhou: "x = (if P then a\<lparr>ganhou := g\<rparr> else a) \<Longrightarrow> \<exists>g. x = a\<lparr>ganhou := g\<rparr>"
  by (cases P) (auto intro: exI [of _ "ganhou a"])

lemma leitura_fechar:
  assumes "fechar_rodada_lucrativa d r = Some d'"
  shows "leitura d' = leitura d"
proof (rule leitura_ganhou)
  show "length (apostas d') = length (apostas d)"
    using assms by (simp add: fechar_rodada_lucrativa_Some)
next
  fix j assume "j < length (apostas d)"
  then show "\<exists>g. apostas d' ! j = (apostas d ! j)\<lparr>ganhou := g\<rparr>"
    using apostas_fechar [OF assms] by (blast intro: ex_ganhou)
qed

lemma convidados_pagar [simp]: "map convidado_por (usuarios (pagar_apostas v d ias)) = map convidado_por (usuarios d)"
proof (induction ias arbitrary: d)
  case Nil
  then show ?case by simp
next
  case (Cons ia ias)
  have "map convidado_por (usuarios (liquidar_aposta v d ia)) = map convidado_por (usuarios d)"
    by (simp add: liquidar_aposta_def Let_def split: prod.split)
  with Cons show ?case by simp
qed

lemma integro_leitura:
  "leitura d' = leitura d \<Longrightarrow> length (usuarios d') = length (usuarios d) \<Longrightarrow>
   length (rodadas d') = length (rodadas d) \<Longrightarrow> depositos d' = depositos d \<Longrightarrow> saques d' = saques d \<Longrightarrow>
   map convidado_por (usuarios d') = map convidado_por (usuarios d) \<Longrightarrow> integro d' = integro d"
proof -
  assume eq: "leitura d' = leitura d" and rest: "length (usuarios d') = length (usuarios d)"
    "length (rodadas d') = length (rodadas d)" "depositos d' = depositos d" "saques d' = saques d"
    "map convidado_por (usuarios d') = map convidado_por (usuarios d)"
  have "list_all (\<lambda>a. ap_usuario a < n \<and> ap_rodada a < m) (apostas x) =
        list_all (\<lambda>(u, q, k, v). u < n \<and> q < m) (leitura x)" for x :: db and n m
    by (simp add: leitura_def list_all_iff)
  then show ?thesis using eq rest by (simp add: integro_def cong: option.case_cong)
qed

lemma integro_fechar: "fechar_rodada_lucrativa d r = Some d' \<Longrightarrow> integro d' = integro d"
  by (rule integro_leitura) (auto simp: leitura_fechar fechar_rodada_lucrativa_Some)

lemma total_saldos_fechar:
  assumes "integro d" and "fechar_rodada_lucrativa d r = Some d'"
  shows "total_saldos d' = total_saldos d + gasto d r (numero_vencedor d r)"
proof -
  let ?v = "numero_vencedor d r"
  have d': "d' = pagar_apostas ?v (encerrar_rodada d r ?v) (apostas_query d r)"
    using assms(2) by (simp add: fechar_rodada_lucrativa_Some)
  have "list_all (\<lambda>ia. ap_usuario (snd ia) < length (usuarios (encerrar_rodada d r ?v))) (apostas_query d r)"
    using apostas_query_usuarios [OF assms(1)] by simp
  then show ?thesis by (simp add: d' total_saldos_pagar sum_premios_gasto)
qed

subsection \<open>Properties of batch settlement\<close>

text \<open>C2: batch settlement pays exactly the exposure the selector minimised. After
  \<open>fechar_rodada_lucrativa\<close> every account has gained the prizes of its bets of the
  round that chose the drawn number (the stake for 0, stake times the number
  otherwise) and nothing else, and the sum of all balances has grown by exactly the
  exposure of the drawn outcome.\<close>

theorem fechar_paga_exposicao:
  assumes "integro d" and "fechar_rodada_lucrativa d r = Some d'"
  shows "total_saldos d' = total_saldos d + gasto d r (numero_vencedor d r) \<and>
         (\<forall>w. saldo_de d' w = saldo_de d w +
              sum_list (map (\<lambda>a. if valor_escolhido a = numero_vencedor d r \<and> ap_usuario a = w
                                  then premio (numero_vencedor d r) a else 0) (apostas_da_rodada d r)))"
proof -
  let ?v = "numero_vencedor d r"
  have d': "d' = pagar_apostas ?v (encerrar_rodada d r ?v) (apostas_query d r)"
    using assms(2) by (simp add: fechar_rodada_lucrativa_Some)
  have users: "list_all (\<lambda>ia. ap_usuario (snd ia) < length (usuarios (encerrar_rodada d r ?v))) (apostas_query d r)"
    using apostas_query_usuarios [OF assms(1)] by simp
  have "saldo_de d' w = saldo_de d w +
          sum_list (map (\<lambda>a. if valor_escolhido a = ?v \<and> ap_usuario a = w then premio ?v a else 0)
            (map snd (apostas_query d r)))" for w
    using users by (simp add: d' saldo_de_pagar comp_def)
  then show ?thesis
    using total_saldos_fechar [OF assms] by (simp add: map_snd_apostas_query)
qed

text \<open>C5: batch settlement settles every bet of the round by the drawn number and
  nothing else: the bets of the round get \<open>ganhou\<close> true exactly when their number
  was drawn, the bets of other rounds are untouched, and the round is stored closed
  with the drawn number.\<close>

theorem fechar_liquida_rodada:
  assumes "fechar_rodada_lucrativa d r = Some d'"
  shows "length (apostas d') = length (apostas d) \<and>
         (\<forall>j < length (apostas d). apostas d' ! j =
            (if ap_rodada (apostas d ! j) = r
             then (apostas d ! j)\<lparr>ganhou := Some (valor_escolhido (apostas d ! j) = numero_vencedor d r)\<rparr>
             else apostas d ! j)) \<and>
         r < length (rodadas d') \<and>
         rodadas d' ! r = \<lparr>numero_sorteado = Some (numero_vencedor d r), ativa = False\<rparr>"
proof -
  have "r < length (rodadas d)" and
    d': "d' = pagar_apostas (numero_vencedor d r) (encerrar_rodada d r (numero_vencedor d r)) (apostas_query d r)"
    using assms by (simp_all add: fechar_rodada_lucrativa_Some)
  then show ?thesis
    using apostas_fechar [OF assms] by (simp add: encerrar_rodada_def)
qed

text \<open>C12: batch settlement is not idempotent. Nothing checks that the round is
  still open or that its bets are unsettled, so closing the same round a second time
  draws the same number again and pays every winning bet a second time: the sum of
  balances grows by twice the exposure.\<close>

theorem fechar_duas_vezes:
  assumes "integro d" and "fechar_rodada_lucrativa d r = Some d1" and "fechar_rodada_lucrativa d1 r = Some d2"
  shows "total_saldos d2 = total_saldos d + 2 * gasto d r (numero_vencedor d r)"
proof -
  have l: "leitura d1 = leitura d" using assms(2) by (rule leitura_fechar)
  have "integro d1" using assms(1) integro_fechar [OF assms(2)] by simp
  then have "total_saldos d2 = total_saldos d1 + gasto d1 r (numero_vencedor d1 r)"
    using assms(3) by (rule total_saldos_fechar)
  also have "\<dots> = total_saldos d1 + gasto d r (numero_vencedor d r)"
    using gasto_cong [OF l] numero_vencedor_cong [OF l] by simp
  also have "total_saldos d1 = total_saldos d + gasto d r (numero_vencedor d r)"
    using assms(1,2) by (rule total_saldos_fechar)
  finally show ?thesis by simp
qed

subsection \<open>The confirmation path\<close>

lemma processar_Inr:
  "processar_resultado_final d uid u m rp ap = Inr (x, d') \<longleftrightarrow>
   m = POST \<and> (\<exists>res aid a. rp = Some res \<and> ap = Some aid \<and> obter (apostas d) aid = Some a \<and> ap_usuario a = uid \<and>
     ((ganhou a \<noteq> None \<and> x = Processado (saldo u) \<and> d' = d) \<or>
      (ganhou a = None \<and> valor_escolhido a = res \<and>
       x = Confirmado True (saldo u + valor_investido a * of_int res) \<and>
       d' = (salvar_usuario d uid (u\<lparr>saldo := saldo u + valor_investido a * of_int res\<rparr>))
              \<lparr>apostas := (apostas d)[aid := a\<lparr>ganhou := Some True\<rparr>]\<rparr>) \<or>
      (ganhou a = None \<and> valor_escolhido a \<noteq> res \<and> x = Confirmado False (saldo u) \<and>
       d' = d\<lparr>apostas := (apostas d)[aid := a\<lparr>ganhou := Some False\<rparr>]\<rparr>)))"
  by (auto simp: processar_resultado_final_def Let_def split: option.splits if_splits)

lemma salvar_usuario_nth [simp]:
  "uid < length (usuarios d) \<Longrightarrow> usuarios (salvar_usuario d uid u) ! uid = u"
  by (simp add: salvar_usuario_def)

lemma leitura_update_ganhou:
  assumes "apostas d' = (apostas d)[i := (apostas d ! i)\<lparr>ganhou := g\<rparr>]"
  shows "leitura d' = leitura d"
proof (cases "i < length (apostas d)")
  case True
  have "leitura d' = (leitura d)[i := leitura d ! i]"
    using True by (simp add: assms leitura_def map_update)
  then show ?thesis by simp
next
  case False
  then show ?thesis by (simp add: assms leitura_def list_update_beyond)
qed

lemma leitura_processar:
  assumes "processar_resultado_final d uid u m rp ap = Inr (x, d')"
  shows "leitura d' = leitura d"
proof -
  from assms obtain aid a where a: "obter (apostas d) aid = Some a" and
    cases: "d' = d \<or> (\<exists>g v. d' = (salvar_usuario d uid v)\<lparr>apostas := (apostas d)[aid := a\<lparr>ganhou := g\<rparr>]\<rparr>) \<or>
            (\<exists>g. d' = d\<lparr>apostas := (apostas d)[aid := a\<lparr>ganhou := g\<rparr>]\<rparr>)"
    unfolding processar_Inr by blast
  from a have a': "a = apostas d ! aid" by (simp add: obter_Some_iff)
  from cases show ?thesis
    by (elim disjE exE) (simp_all add: a' leitura_update_ganhou)
qed

subsection \<open>Properties of the confirmation path\<close>

text \<open>C4: confirmation is idempotent. After a successful confirmation of a bet, the
  balance it answers is the stored balance, and confirming the same bet again, with
  any claimed outcome, answers \<open>processado\<close> with that same balance and changes
  nothing.\<close>

theorem processar_idempotente:
  assumes "uid < length (usuarios d)"
    and "processar_resultado_final d uid (usuarios d ! uid) m rp (Some aid) = Inr (x, d')"
  shows "saldo_resposta x = saldo_de d' uid \<and>
         processar_resultado_final d' uid (usuarios d' ! uid) POST (Some res') (Some aid) =
           Inr (Processado (saldo_de d' uid), d')"
proof -
  from assms(2) obtain res a where a: "obter (apostas d) aid = Some a" and own: "ap_usuario a = uid" and
    c: "(ganhou a \<noteq> None \<and> x = Processado (saldo (usuarios d ! uid)) \<and> d' = d) \<or>
        (ganhou a = None \<and> valor_escolhido a = res \<and>
         x = Confirmado True (saldo (usuarios d ! uid) + valor_investido a * of_int res) \<and>
         d' = (salvar_usuario d uid ((usuarios d ! uid)\<lparr>saldo := saldo (usuarios d ! uid) + valor_investido a * of_int res\<rparr>))
                \<lparr>apostas := (apostas d)[aid := a\<lparr>ganhou := Some True\<rparr>]\<rparr>) \<or>
        (ganhou a = None \<and> valor_escolhido a \<noteq> res \<and> x = Confirmado False (saldo (usuarios d ! uid)) \<and>
         d' = d\<lparr>apostas := (apostas d)[aid := a\<lparr>ganhou := Some False\<rparr>]\<rparr>)"
    unfolding processar_Inr by blast
  from a have aid: "aid < length (apostas d)" by (simp add: obter_Some_iff)
  from c show ?thesis
    using assms(1) a own aid
    by (elim disjE conjE) (simp_all add: processar_resultado_final_def saldo_de_def obter_def)
qed

text \<open>A bet's result flag goes from unset to set at most once. A confirmation
  leaves every bet as it was, except the bet it names when that bet was unsettled,
  which gets \<open>ganhou\<close> set and nothing else changed.\<close>

theorem processar_marca_uma_vez:
  assumes "processar_resultado_final d uid u m rp ap = Inr (x, d')"
  shows "length (apostas d') = length (apostas d) \<and>
         (\<forall>j < length (apostas d). apostas d' ! j = apostas d ! j \<or>
            (ap = Some j \<and> ganhou (apostas d ! j) = None \<and>
             (\<exists>b. apostas d' ! j = (apostas d ! j)\<lparr>ganhou := Some b\<rparr>)))"
  using assms unfolding processar_Inr
  by (auto simp: obter_Some_iff nth_list_update split: if_split_asm)

text \<open>C13: the confirmation trusts the outcome the client claims. For any unsettled
  bet of the caller, claiming the bet's own number marks it won and credits stake
  times that number, whatever the round's state or drawn number; for a bet on 0 the
  credit is 0, where batch settlement refunds the stake.\<close>

theorem processar_confia_no_cliente:
  assumes "obter (apostas d) aid = Some a" and "ap_usuario a = uid" and "ganhou a = None"
  shows "\<exists>d'. processar_resultado_final d uid u POST (Some (valor_escolhido a)) (Some aid) =
              Inr (Confirmado True (saldo u + valor_investido a * of_int (valor_escolhido a)), d')"
  using assms by (simp add: processar_resultado_final_def Let_def)

text \<open>C17: the error answers of the confirmation. Anything but a POST is answered
  \<open>Invalido\<close> (400); a missing or malformed outcome, a missing bet key, an unknown
  bet and a bet of another account are all answered with the generic 500, because
  \<open>get_object_or_404\<close> raises \<open>Http404\<close> inside the view's \<open>except Exception\<close>.\<close>

theorem processar_erro:
  "processar_resultado_final d uid u m rp ap = Inl e \<longleftrightarrow>
     (m \<noteq> POST \<and> e = Invalido) \<or>
     (m = POST \<and> e = ErroInterno \<and>
      (rp = None \<or> ap = None \<or>
       (\<exists>aid. ap = Some aid \<and> (length (apostas d) \<le> aid \<or> ap_usuario (apostas d ! aid) \<noteq> uid))))"
  by (auto simp: processar_resultado_final_def Let_def obter_def split: option.splits if_splits)

subsection \<open>Witnesses of batch settlement\<close>

lemma rodada_cheia_valores:
  "numero_vencedor rodada_cheia 0 = 0" "gasto rodada_cheia 0 0 = 100" "total_saldos rodada_cheia = 1500"
  "integro rodada_cheia" "0 < length (rodadas rodada_cheia)" "saldo_de rodada_cheia 0 = 1000"
  "sum_list (map (\<lambda>a. if valor_escolhido a = 0 \<and> ap_usuario a = 0 then premio 0 a else 0)
     (apostas_da_rodada rodada_cheia 0)) = 100"
  "length (apostas rodada_cheia) = 6" "ap_rodada (apostas rodada_cheia ! 0) = 0" "ap_rodada (apostas rodada_cheia ! 1) = 0"
  "valor_escolhido (apostas rodada_cheia ! 0) = 0" "valor_escolhido (apostas rodada_cheia ! 1) = 2"
  by code_simp+

definition fechada_uma_vez :: db where
  "fechada_uma_vez = pagar_apostas (numero_vencedor rodada_cheia 0)
      (encerrar_rodada rodada_cheia 0 (numero_vencedor rodada_cheia 0)) (apostas_query rodada_cheia 0)"

lemma fechar_rodada_cheia: "fechar_rodada_lucrativa rodada_cheia 0 = Some fechada_uma_vez"
  using rodada_cheia_valores(5) by (simp add: fechar_rodada_lucrativa_Some fechada_uma_vez_def)

theorem fechar_paga_exposicao_witness:
  "integro rodada_cheia \<and> fechar_rodada_lucrativa rodada_cheia 0 = Some fechada_uma_vez \<and>
   total_saldos fechada_uma_vez = 1600 \<and> saldo_de fechada_uma_vez 0 = 1100"
  using fechar_paga_exposicao [OF rodada_cheia_valores(4) fechar_rodada_cheia] rodada_cheia_valores fechar_rodada_cheia
  by (simp cong: if_cong)

theorem fechar_liquida_rodada_witness:
  "fechar_rodada_lucrativa rodada_cheia 0 = Some fechada_uma_vez \<and>
   ganhou (apostas fechada_uma_vez ! 0) = Some True \<and> ganhou (apostas fechada_uma_vez ! 1) = Some False \<and>
   \<not> ativa (rodadas fechada_uma_vez ! 0)"
  using fechar_liquida_rodada [OF fechar_rodada_cheia] rodada_cheia_valores fechar_rodada_cheia
  by simp

theorem fechar_duas_vezes_witness:
  "integro rodada_cheia \<and>
   (\<exists>d2. fechar_rodada_lucrativa rodada_cheia 0 = Some fechada_uma_vez \<and>
         fechar_rodada_lucrativa fechada_uma_vez 0 = Some d2 \<and> total_saldos d2 = 1700)"
proof -
  define d2 where "d2 = pagar_apostas (numero_vencedor fechada_uma_vez 0)
      (encerrar_rodada fechada_uma_vez 0 (numero_vencedor fechada_uma_vez 0)) (apostas_query fechada_uma_vez 0)"
  have h2: "fechar_rodada_lucrativa fechada_uma_vez 0 = Some d2"
    using rodada_cheia_valores(5) by (simp add: fechar_rodada_lucrativa_Some d2_def fechada_uma_vez_def)
  from fechar_duas_vezes [OF rodada_cheia_valores(4) fechar_rodada_cheia h2] rodada_cheia_valores
    fechar_rodada_cheia h2 show ?thesis by auto
qed

subsection \<open>Witnesses of the confirmation path\<close>

definition confirmada :: db where
  "confirmada = snd (projr (processar_resultado_final rodada_cheia 0 (usuarios rodada_cheia ! 0) POST (Some 0) (Some 0)))"

lemma processar_rodada_cheia:
  "processar_resultado_final rodada_cheia 0 (usuarios rodada_cheia ! 0) POST (Some 0) (Some 0) =
   Inr (Confirmado True 1000, confirmada)"
  by (simp add: confirmada_def processar_resultado_final_def Let_def rodada_cheia_def banca_exemplo_def obter_def)

theorem processar_idempotente_witness:
  "0 < length (usuarios rodada_cheia) \<and>
   processar_resultado_final rodada_cheia 0 (usuarios rodada_cheia ! 0) POST (Some 0) (Some 0) =
     Inr (Confirmado True 1000, confirmada) \<and>
   processar_resultado_final confirmada 0 (usuarios confirmada ! 0) POST (Some 5) (Some 0) =
     Inr (Processado 1000, confirmada)"
proof -
  have h0: "0 < length (usuarios rodada_cheia)" by (simp add: rodada_cheia_def banca_exemplo_def)
  from processar_idempotente [OF h0 processar_rodada_cheia, of 5] h0 processar_rodada_cheia
  show ?thesis by simp
qed

theorem processar_marca_uma_vez_witness:
  "processar_resultado_final rodada_cheia 0 (usuarios rodada_cheia ! 0) POST (Some 0) (Some 0) =
     Inr (Confirmado True 1000, confirmada) \<and>
   length (apostas confirmada) = 6 \<and> apostas confirmada ! 1 = apostas rodada_cheia ! 1"
proof -
  have "length (apostas rodada_cheia) = 6" "ap_rodada (apostas rodada_cheia ! 1) = 0"
    by (simp_all add: rodada_cheia_def)
  moreover have "apostas confirmada ! 1 = apostas rodada_cheia ! 1"
    using processar_marca_uma_vez [OF processar_rodada_cheia] by (auto simp: rodada_cheia_def)
  ultimately show ?thesis
    using processar_marca_uma_vez [OF processar_rodada_cheia] processar_rodada_cheia by simp
qed

theorem processar_confia_no_cliente_witness:
  "obter (apostas rodada_cheia) 1 = Some (apostas rodada_cheia ! 1) \<and> ap_usuario (apostas rodada_cheia ! 1) = 1 \<and>
   ganhou (apostas rodada_cheia ! 1) = None \<and>
   (\<exists>d'. processar_resultado_final rodada_cheia 1 (usuarios rodada_cheia ! 1) POST (Some 2) (Some 1) =
          Inr (Confirmado True 700, d'))"
proof -
  have h: "obter (apostas rodada_cheia) 1 = Some (apostas rodada_cheia ! 1)"
    "ap_usuario (apostas rodada_cheia ! 1) = 1" "ganhou (apostas rodada_cheia ! 1) = None"
    "valor_escolhido (apostas rodada_cheia ! 1) = 2" "valor_investido (apostas rodada_cheia ! 1) = 100"
    "saldo (usuarios rodada_cheia ! 1) = 500"
    by (simp_all add: rodada_cheia_def banca_exemplo_def obter_def)
  from processar_confia_no_cliente [OF h(1-3), of "usuarios rodada_cheia ! 1"] h show ?thesis by simp
qed

theorem processar_erro_witness:
  "processar_resultado_final rodada_cheia 0 (usuarios rodada_cheia ! 0) GET (Some 0) (Some 0) = Inl Invalido \<and>
   processar_resultado_final rodada_cheia 0 (usuarios rodada_cheia ! 0) POST (Some 2) (Some 1) = Inl ErroInterno \<and>
   processar_resultado_final rodada_cheia 0 (usuarios rodada_cheia ! 0) POST (Some 2) (Some 9) = Inl ErroInterno"
  using processar_erro [of rodada_cheia 0 "usuarios rodada_cheia ! 0"]
  by (simp add: rodada_cheia_def)

end
