(* ===== verification/Referral.thy ===== *)
theory Referral
  imports Models
begin

text \<open>
  Registration with an invitation, deposits and their approval.

  \<open>cadastro_view\<close> (\<open>views.py\<close>) refuses a phone number that is already
  registered, creates the account (\<open>create_user\<close> raises \<open>ValueError\<close>, uncaught,
  for an empty number), and links it to the account whose phone number equals the
  invitation code, looked up after the new account was saved. \<open>depositar\<close> stores a
  pending \<open>Deposito\<close>. \<open>Deposito.save\<close> (\<open>models.py\<close>) reads the stored row
  and, on the transition \<open>PENDENTE\<close> to \<open>APROVADO\<close>, credits the depositor the
  amount and the inviting account 15\<percent> of it, each account loaded afresh; then it
  writes the deposit. The admin action \<open>aprovar_deposito\<close> (\<open>admin.py\<close>) saves
  every selected pending deposit with status \<open>APROVADO\<close> and counts them.
\<close>

definition procurar_telefone :: "usuario list \<Rightarrow> string \<Rightarrow> pk option" where
  "procurar_telefone us t =
     (let is = filter (\<lambda>i. telefone (us ! i) = t) [0..<length us] in if is = [] then None else Some (hd is))"

datatype resposta_cadastro = TelefoneJaCadastrado | CadastroFeito pk | FormularioCadastro

definition cadastro_view :: "db \<Rightarrow> metodo_http \<Rightarrow> string \<Rightarrow> string \<Rightarrow> string \<Rightarrow> erro + (resposta_cadastro \<times> db)" where
  "cadastro_view d m tel pais_post invite_code =
     (if m = POST then
        if list_ex (\<lambda>u. telefone u = tel) (usuarios d) then Inr (TelefoneJaCadastrado, d)
        else if tel = [] then Inl ErroInterno
        else
          (let uid = length (usuarios d);
               user = \<lparr>telefone = tel, pais = ''Angola'', convidado_por = None, saldo = 0\<rparr>;
               d1 = d\<lparr>usuarios := usuarios d @ [user]\<rparr>;
               padrinho = (if invite_code = [] then None else procurar_telefone (usuarios d1) invite_code)
           in Inr (CadastroFeito uid, salvar_usuario d1 uid (user\<lparr>pais := pais_post, convidado_por := padrinho\<rparr>)))
      else Inr (FormularioCadastro, d))"

definition depositar :: "db \<Rightarrow> pk \<Rightarrow> metodo_http \<Rightarrow> metodo_deposito \<Rightarrow> dinheiro option \<Rightarrow> string \<Rightarrow> erro + db" where
  "depositar d uid m met valor_post nome =
     (if m = POST then
        (case valor_post of
           None \<Rightarrow> Inl ErroInterno
         | Some v \<Rightarrow> Inr (d\<lparr>depositos := depositos d @
              [\<lparr>dep_usuario = uid, metodo = met, valor = v, nome_depositante = nome, status = PENDENTE\<rparr>]\<rparr>))
      else Inr d)"

definition comissao :: "dinheiro \<Rightarrow> dinheiro" where
  "comissao v = v * (15 / 100)"

definition salvar_deposito :: "db \<Rightarrow> pk \<Rightarrow> deposito \<Rightarrow> db option" where
  "salvar_deposito d did novo =
     (case obter (depositos d) did of
        None \<Rightarrow> None
      | Some velho \<Rightarrow>
          (let d1 =
             (if status velho = PENDENTE \<and> status novo = APROVADO then
                (let d2 = creditar d (dep_usuario novo) (valor novo)
                 in case obter (usuarios d2) (dep_usuario novo) of
                      None \<Rightarrow> d2
                    | Some u \<Rightarrow>
                        (case convidado_por u of
                           None \<Rightarrow> d2
                         | Some padrinho \<Rightarrow> creditar d2 padrinho (comissao (valor novo))))
              else d)
           in Some (d1\<lparr>depositos := (depositos d1)[did := novo]\<rparr>)))"

fun aprovar_lista :: "db \<Rightarrow> (pk \<times> deposito) list \<Rightarrow> (db \<times> nat) option" where
  "aprovar_lista d [] = Some (d, 0)"
| "aprovar_lista d ((did, dep) # xs) =
     (case salvar_deposito d did (dep\<lparr>status := APROVADO\<rparr>) of
        None \<Rightarrow> None
      | Some d' \<Rightarrow> map_option (\<lambda>(d'', n). (d'', Suc n)) (aprovar_lista d' xs))"

definition aprovar_deposito :: "db \<Rightarrow> pk list \<Rightarrow> (db \<times> nat) option" where
  "aprovar_deposito d selecionados =
     aprovar_lista d
       (map (\<lambda>i. (i, depositos d ! i))
          (filter (\<lambda>i. i \<in> set selecionados \<and> status (depositos d ! i) = PENDENTE) [0..<length (depositos d)]))"

text \<open>Sample store for the witnesses: the second account, invited by the first,
  has a pending deposit of 1000 Kz.\<close>

definition banca_deposito :: db where
  "banca_deposito = banca_exemplo\<lparr>depositos :=
     [\<lparr>dep_usuario = 1, metodo = EXPRESS, valor = 1000, nome_depositante = ''Ana'', status = PENDENTE\<rparr>]\<rparr>"

text \<open>The same store after that deposit was approved: 1000 Kz credited to the
  depositor and the 150 Kz commission to the inviter.\<close>

definition banca_aprovada :: db where
  "banca_aprovada =
     \<lparr>usuarios =
        [\<lparr>telefone = ''923000001'', pais = ''Angola'', convidado_por = None, saldo = 1150\<rparr>,
         \<lparr>telefone = ''923000002'', pais = ''Angola'', convidado_por = Some 0, saldo = 1500\<rparr>],
      rodadas = [\<lparr>numero_sorteado = None, ativa = True\<rparr>], apostas = [],
      depositos = [\<lparr>dep_usuario = 1, metodo = EXPRESS, valor = 1000, nome_depositante = ''Ana'', status = APROVADO\<rparr>],
      saques = []\<rparr>"

lemmas banca_deposito_simps = banca_deposito_def banca_exemplo_def banca_aprovada_def

subsection \<open>Lemmas\<close>

lemma convidado_creditar [simp]:
  "uid < length (usuarios d) \<Longrightarrow> convidado_por (usuarios (creditar d w v) ! uid) = convidado_por (usuarios d ! uid)"
  using convidados_creditar [of d w v] by (metis length_map nth_map creditar_other_tables(5))

lemma salvar_deposito_Some:
  "salvar_deposito d did novo = Some d' \<longleftrightarrow>
   did < length (depositos d) \<and>
   d' = (let d1 = (if status (depositos d ! did) = PENDENTE \<and> status novo = APROVADO then
                     (let d2 = creditar d (dep_usuario novo) (valor novo)
                      in case obter (usuarios d2) (dep_usuario novo) of
                           None \<Rightarrow> d2
                         | Some u \<Rightarrow> (case convidado_por u of None \<Rightarrow> d2
                                       | Some padrinho \<Rightarrow> creditar d2 padrinho (comissao (valor novo))))
                   else d)
         in d1\<lparr>depositos := (depositos d1)[did := novo]\<rparr>)"
  by (auto simp: salvar_deposito_def obter_def Let_def)

lemma salvar_deposito_tables:
  "salvar_deposito d did novo = Some d' \<Longrightarrow>
   length (usuarios d') = length (usuarios d) \<and> rodadas d' = rodadas d \<and> apostas d' = apostas d \<and>
   saques d' = saques d \<and> depositos d' = (depositos d)[did := novo] \<and>
   map convidado_por (usuarios d') = map convidado_por (usuarios d)"
  by (auto simp: salvar_deposito_Some Let_def split: option.splits)

lemma saldo_de_salvar_deposito:
  assumes "integro d" and "dep_usuario novo < length (usuarios d)"
    and "salvar_deposito d did novo = Some d'"
  shows "saldo_de d' w = saldo_de d w +
           (if status (depositos d ! did) = PENDENTE \<and> status novo = APROVADO then
              (if w = dep_usuario novo then valor novo else 0) +
              (if convidado_por (usuarios d ! dep_usuario novo) = Some w then comissao (valor novo) else 0)
            else 0)"
proof -
  let ?u = "dep_usuario novo"
  have p: "p < length (usuarios d)" if "convidado_por (usuarios d ! ?u) = Some p" for p
    using assms(1,2) that by (auto simp: integro_def list_all_length)
  have "saldo_de (d\<lparr>depositos := x\<rparr>) = saldo_de d" for d x
    by (simp add: saldo_de_def fun_eq_iff)
  then show ?thesis
    using assms(2,3) p
    by (auto simp: salvar_deposito_Some Let_def saldo_de_creditar obter_def split: option.splits)
qed

lemma total_saldos_salvar_deposito:
  assumes "integro d" and "dep_usuario novo < length (usuarios d)"
    and "salvar_deposito d did novo = Some d'"
  shows "total_saldos d' = total_saldos d +
           (if status (depositos d ! did) = PENDENTE \<and> status novo = APROVADO then
              valor novo + (if convidado_por (usuarios d ! dep_usuario novo) = None then 0 else comissao (valor novo))
            else 0)"
proof -
  let ?u = "dep_usuario novo"
  have p: "p < length (usuarios d)" if "convidado_por (usuarios d ! ?u) = Some p" for p
    using assms(1,2) that by (auto simp: integro_def list_all_length)
  have "total_saldos (d\<lparr>depositos := x\<rparr>) = total_saldos d" for d x
    by (simp add: total_saldos_def)
  then show ?thesis
    using assms(2,3) p
    by (auto simp: salvar_deposito_Some Let_def total_saldos_creditar obter_def split: option.splits)
qed

lemma integro_salvar_deposito:
  "integro d \<Longrightarrow> dep_usuario novo < length (usuarios d) \<Longrightarrow> salvar_deposito d did novo = Some d' \<Longrightarrow> integro d'"
  by (drule salvar_deposito_tables)
    (auto simp: integro_def list_all_length nth_list_update_any cong: option.case_cong)

lemma aprovar_lista_Some:
  "list_all (\<lambda>x. fst x < length (depositos d)) xs \<Longrightarrow> distinct (map fst xs) \<Longrightarrow>
   \<exists>d'. aprovar_lista d xs = Some (d', length xs) \<and> length (depositos d') = length (depositos d) \<and>
        (\<forall>j < length (depositos d). depositos d' ! j =
           (case map_of xs j of Some dep \<Rightarrow> dep\<lparr>status := APROVADO\<rparr> | None \<Rightarrow> depositos d ! j))"
proof (induction xs arbitrary: d)
  case Nil
  then show ?case by simp
next
  case (Cons x xs)
  obtain did dep where x: "x = (did, dep)" by (cases x)
  have did: "did < length (depositos d)" using Cons.prems(1) x by simp
  then obtain d1 where d1: "salvar_deposito d did (dep\<lparr>status := APROVADO\<rparr>) = Some d1"
    by (simp add: salvar_deposito_def obter_def Let_def)
  have t: "depositos d1 = (depositos d)[did := dep\<lparr>status := APROVADO\<rparr>]"
    using salvar_deposito_tables [OF d1] by simp
  have "list_all (\<lambda>x. fst x < length (depositos d1)) xs" "distinct (map fst xs)"
    using Cons.prems t by simp_all
  then obtain d' where IH: "aprovar_lista d1 xs = Some (d', length xs)" "length (depositos d') = length (depositos d1)"
    "\<forall>j < length (depositos d1). depositos d' ! j =
        (case map_of xs j of Some dep \<Rightarrow> dep\<lparr>status := APROVADO\<rparr> | None \<Rightarrow> depositos d1 ! j)"
    using Cons.IH by blast
  have "map_of xs did = None" using Cons.prems(2) x by (simp add: map_of_eq_None_iff)
  then show ?case
    using IH d1 t did x by (auto simp: nth_list_update split: option.split)
qed

lemma aprovar_deposito_Some:
  "\<exists>d'. aprovar_deposito d sel =
        Some (d', length (filter (\<lambda>i. i \<in> set sel \<and> status (depositos d ! i) = PENDENTE) [0..<length (depositos d)])) \<and>
        length (depositos d') = length (depositos d) \<and>
        (\<forall>j < length (depositos d). depositos d' ! j =
           (if j \<in> set sel \<and> status (depositos d ! j) = PENDENTE then (depositos d ! j)\<lparr>status := APROVADO\<rparr>
            else depositos d ! j))"
proof -
  let ?is = "filter (\<lambda>i. i \<in> set sel \<and> status (depositos d ! i) = PENDENTE) [0..<length (depositos d)]"
  let ?xs = "map (\<lambda>i. (i, depositos d ! i)) ?is"
  have "list_all (\<lambda>x. fst x < length (depositos d)) ?xs" "distinct (map fst ?xs)"
    by (simp_all add: list_all_iff comp_def)
  from aprovar_lista_Some [OF this] obtain d' where d':
    "aprovar_lista d ?xs = Some (d', length ?xs)" "length (depositos d') = length (depositos d)"
    "\<forall>j < length (depositos d). depositos d' ! j =
        (case map_of ?xs j of Some dep \<Rightarrow> dep\<lparr>status := APROVADO\<rparr> | None \<Rightarrow> depositos d ! j)"
    by blast
  have "map_of ?xs j = (if j \<in> set ?is then Some (depositos d ! j) else None)" for j
    by (simp add: map_of_map_restrict restrict_map_def)
  with d' show ?thesis by (simp add: aprovar_deposito_def)
qed

lemma procurar_telefone_Some:
  "procurar_telefone us t = Some i \<Longrightarrow> i < length us \<and> telefone (us ! i) = t"
proof -
  let ?is = "filter (\<lambda>i. telefone (us ! i) = t) [0..<length us]"
  assume "procurar_telefone us t = Some i"
  then have ne: "?is \<noteq> []" and i: "i = hd ?is" by (simp_all add: procurar_telefone_def Let_def split: if_splits)
  from ne have "hd ?is \<in> set ?is" by (rule hd_in_set)
  with i show ?thesis by simp
qed

lemma procurar_telefone_novo:
  "\<not> list_ex (\<lambda>u. telefone u = t) us \<Longrightarrow> telefone x = t \<Longrightarrow> procurar_telefone (us @ [x]) t = Some (length us)"
proof -
  assume none: "\<not> list_ex (\<lambda>u. telefone u = t) us" and x: "telefone x = t"
  have "filter (\<lambda>i. telefone ((us @ [x]) ! i) = t) [0..<length us] = []"
    using none by (auto simp: filter_empty_conv list_ex_iff nth_append)
  then show ?thesis using x by (simp add: procurar_telefone_def nth_append)
qed

lemma cadastro_view_efeito:
  assumes "cadastro_view d m tel p conv = Inr (r, d')"
  shows "d' = d \<or> (\<exists>u. d' = d\<lparr>usuarios := usuarios d @ [u]\<rparr> \<and> telefone u = tel \<and>
             tel \<notin> set (map telefone (usuarios d)) \<and> (\<forall>q. convidado_por u = Some q \<longrightarrow> q \<le> length (usuarios d)))"
proof (cases "m = POST \<and> \<not> list_ex (\<lambda>u. telefone u = tel) (usuarios d) \<and> tel \<noteq> []")
  case False
  then have "d' = d" using assms by (auto simp: cadastro_view_def split: if_splits)
  then show ?thesis by simp
next
  case True
  let ?user = "\<lparr>telefone = tel, pais = ''Angola'', convidado_por = None, saldo = 0 :: dinheiro\<rparr>"
  let ?us = "usuarios d @ [?user]"
  let ?pad = "if conv = [] then None else procurar_telefone ?us conv"
  have "d' = salvar_usuario (d\<lparr>usuarios := ?us\<rparr>) (length (usuarios d))
                   (?user\<lparr>pais := p, convidado_por := ?pad\<rparr>)"
    using True assms by (auto simp: cadastro_view_def Let_def)
  then have d': "d' = d\<lparr>usuarios := usuarios d @ [?user\<lparr>pais := p, convidado_por := ?pad\<rparr>]\<rparr>"
    by (simp add: salvar_usuario_def)
  have pad: "q \<le> length (usuarios d)" if "?pad = Some q" for q
    using that procurar_telefone_Some [of ?us conv q] by (auto split: if_splits)
  have "tel \<notin> set (map telefone (usuarios d))" using True by (auto simp: list_ex_iff)
  then show ?thesis using d' pad by auto
qed

lemma integro_novo_usuario:
  "integro d \<Longrightarrow> (\<forall>q. convidado_por u = Some q \<longrightarrow> q \<le> length (usuarios d)) \<Longrightarrow>
   integro (d\<lparr>usuarios := usuarios d @ [u]\<rparr>)"
  by (auto simp: integro_def list_all_iff split: option.splits)

subsection \<open>Properties of deposits and referrals\<close>

text \<open>C7: approving a pending deposit credits the depositor the amount and the
  account that invited the depositor 15\<percent> of it, and nobody else; the sum of
  balances grows by the amount plus the commission when there is an inviter; the
  deposit is stored approved.\<close>

theorem deposito_aprovado_credita:
  assumes "integro d" and "did < length (depositos d)" and "status (depositos d ! did) = PENDENTE"
    and "salvar_deposito d did ((depositos d ! did)\<lparr>status := APROVADO\<rparr>) = Some d'"
  shows "(\<forall>w. saldo_de d' w = saldo_de d w
                + (if w = dep_usuario (depositos d ! did) then valor (depositos d ! did) else 0)
                + (if convidado_por (usuarios d ! dep_usuario (depositos d ! did)) = Some w
                   then comissao (valor (depositos d ! did)) else 0)) \<and>
         total_saldos d' = total_saldos d + valor (depositos d ! did) +
           (if convidado_por (usuarios d ! dep_usuario (depositos d ! did)) = None then 0
            else comissao (valor (depositos d ! did))) \<and>
         status (depositos d' ! did) = APROVADO"
proof -
  have u: "dep_usuario (depositos d ! did) < length (usuarios d)"
    using assms(1,2) by (simp add: integro_def list_all_length)
  have "dep_usuario ((depositos d ! did)\<lparr>status := APROVADO\<rparr>) < length (usuarios d)" using u by simp
  note sd = saldo_de_salvar_deposito [OF assms(1) this assms(4)]
    and td = total_saldos_salvar_deposito [OF assms(1) this assms(4)]
  have "status (depositos d' ! did) = APROVADO"
    using salvar_deposito_tables [OF assms(4)] assms(2) by simp
  then show ?thesis using sd td assms(3) by simp
qed

text \<open>C22: the approval action credits each deposit at most once. Running
  \<open>aprovar_deposito\<close> again on the same selection finds no pending deposit,
  approves nothing and changes nothing.\<close>

theorem deposito_aprovado_credita_witness:
  "\<exists>d'. salvar_deposito banca_deposito 0 ((depositos banca_deposito ! 0)\<lparr>status := APROVADO\<rparr>) = Some d' \<and>
        saldo_de d' 1 = 1500 \<and> saldo_de d' 0 = 1150 \<and> total_saldos d' = 2650"
proof -
  have "\<exists>d'. salvar_deposito banca_deposito 0 ((depositos banca_deposito ! 0)\<lparr>status := APROVADO\<rparr>) = Some d'"
    by (simp add: salvar_deposito_Some banca_deposito_simps)
  then obtain d' where s: "salvar_deposito banca_deposito 0 ((depositos banca_deposito ! 0)\<lparr>status := APROVADO\<rparr>) = Some d'" ..
  have i: "integro banca_deposito" by (simp add: integro_def banca_deposito_simps)
  have l: "0 < length (depositos banca_deposito)" and p: "status (depositos banca_deposito ! 0) = PENDENTE"
    by (simp_all add: banca_deposito_simps)
  note c = deposito_aprovado_credita [OF i l p s]
  have "saldo_de d' 1 = 1500" using spec [OF conjunct1 [OF c], of 1]
    by (simp add: banca_deposito_simps saldo_de_def comissao_def obter_def)
  moreover have "saldo_de d' 0 = 1150" using spec [OF conjunct1 [OF c], of 0]
    by (simp add: banca_deposito_simps saldo_de_def comissao_def obter_def)
  moreover have "total_saldos d' = 2650" using conjunct1 [OF conjunct2 [OF c]]
    by (simp add: banca_deposito_simps total_saldos_def comissao_def)
  ultimately show ?thesis using s by blast
qed

theorem aprovar_deposito_uma_vez:
  assumes "aprovar_deposito d sel = Some (d1, n)"
  shows "aprovar_deposito d1 sel = Some (d1, 0)"
proof -
  obtain d' where d': "aprovar_deposito d sel =
        Some (d', length (filter (\<lambda>i. i \<in> set sel \<and> status (depositos d ! i) = PENDENTE) [0..<length (depositos d)]))"
    and len: "length (depositos d') = length (depositos d)"
    and nth: "\<forall>j < length (depositos d). depositos d' ! j =
           (if j \<in> set sel \<and> status (depositos d ! j) = PENDENTE then (depositos d ! j)\<lparr>status := APROVADO\<rparr>
            else depositos d ! j)"
    using aprovar_deposito_Some [of d sel] by blast
  have "d' = d1" using d' assms by simp
  then have "filter (\<lambda>i. i \<in> set sel \<and> status (depositos d1 ! i) = PENDENTE) [0..<length (depositos d1)] = []"
    using len nth by (auto simp: filter_empty_conv)
  then show ?thesis by (simp add: aprovar_deposito_def)
qed

text \<open>C23: the at-most-once guard only compares with the stored status. An approved
  deposit that an operator sets back to \<open>PENDENTE\<close> and approves again is credited
  again, commission included.\<close>

theorem aprovar_deposito_uma_vez_witness:
  "\<exists>d1. aprovar_deposito banca_deposito [0] = Some (d1, 1) \<and> aprovar_deposito d1 [0] = Some (d1, 0)"
proof -
  obtain d1 where "aprovar_deposito banca_deposito [0] =
      Some (d1, length (filter (\<lambda>i. i \<in> set [0] \<and> status (depositos banca_deposito ! i) = PENDENTE)
                         [0..<length (depositos banca_deposito)]))"
    using aprovar_deposito_Some [of banca_deposito "[0]"] by blast
  then have a: "aprovar_deposito banca_deposito [0] = Some (d1, 1)" by (simp add: banca_deposito_simps)
  show ?thesis using a aprovar_deposito_uma_vez [OF a] by blast
qed

theorem reaprovar_credita_de_novo:
  assumes "integro d" and "did < length (depositos d)" and "status (depositos d ! did) = APROVADO"
    and "salvar_deposito d did ((depositos d ! did)\<lparr>status := PENDENTE\<rparr>) = Some d1"
    and "salvar_deposito d1 did ((depositos d ! did)\<lparr>status := APROVADO\<rparr>) = Some d2"
  shows "total_saldos d2 = total_saldos d + valor (depositos d ! did) +
           (if convidado_por (usuarios d ! dep_usuario (depositos d ! did)) = None then 0
            else comissao (valor (depositos d ! did)))"
proof -
  let ?dep = "depositos d ! did"
  have u: "dep_usuario ?dep < length (usuarios d)"
    using assms(1,2) by (simp add: integro_def list_all_length)
  have t1: "total_saldos d1 = total_saldos d"
    using total_saldos_salvar_deposito [OF assms(1) _ assms(4)] u assms(3) by simp
  have i1: "integro d1" using integro_salvar_deposito [OF assms(1) _ assms(4)] u by simp
  have tab: "length (usuarios d1) = length (usuarios d)" "depositos d1 = (depositos d)[did := ?dep\<lparr>status := PENDENTE\<rparr>]"
    "map convidado_por (usuarios d1) = map convidado_por (usuarios d)"
    using salvar_deposito_tables [OF assms(4)] by simp_all
  have c: "convidado_por (usuarios d1 ! dep_usuario ?dep) = convidado_por (usuarios d ! dep_usuario ?dep)"
    using tab(1,3) u by (metis nth_map)
  have "total_saldos d2 = total_saldos d1 + valor ?dep +
          (if convidado_por (usuarios d1 ! dep_usuario ?dep) = None then 0 else comissao (valor ?dep))"
    using total_saldos_salvar_deposito [OF i1 _ assms(5)] u tab(1,2) assms(2) by simp
  then show ?thesis using t1 c by simp
qed

text \<open>C24: registration keeps phone numbers unique and the store consistent: a new
  account's inviter, when the invitation code names one, is an existing account.\<close>

theorem reaprovar_credita_de_novo_witness:
  "\<exists>d1 d2. salvar_deposito banca_aprovada 0 ((depositos banca_aprovada ! 0)\<lparr>status := PENDENTE\<rparr>) = Some d1 \<and>
           salvar_deposito d1 0 ((depositos banca_aprovada ! 0)\<lparr>status := APROVADO\<rparr>) = Some d2 \<and>
           total_saldos d2 = total_saldos banca_aprovada + 1150"
proof -
  have "\<exists>d1. salvar_deposito banca_aprovada 0 ((depositos banca_aprovada ! 0)\<lparr>status := PENDENTE\<rparr>) = Some d1"
    by (simp add: salvar_deposito_Some banca_deposito_simps)
  then obtain d1 where s1: "salvar_deposito banca_aprovada 0 ((depositos banca_aprovada ! 0)\<lparr>status := PENDENTE\<rparr>) = Some d1" ..
  have "\<exists>d2. salvar_deposito d1 0 ((depositos banca_aprovada ! 0)\<lparr>status := APROVADO\<rparr>) = Some d2"
    using salvar_deposito_tables [OF s1] by (simp add: salvar_deposito_Some banca_deposito_simps)
  then obtain d2 where s2: "salvar_deposito d1 0 ((depositos banca_aprovada ! 0)\<lparr>status := APROVADO\<rparr>) = Some d2" ..
  have i: "integro banca_aprovada" by (simp add: integro_def banca_deposito_simps)
  have l: "0 < length (depositos banca_aprovada)" and p: "status (depositos banca_aprovada ! 0) = APROVADO"
    by (simp_all add: banca_deposito_simps)
  have "total_saldos d2 = total_saldos banca_aprovada + 1150"
    using reaprovar_credita_de_novo [OF i l p s1 s2] by (simp add: banca_deposito_simps comissao_def)
  then show ?thesis using s1 s2 by blast
qed

theorem cadastro_preserva:
  assumes "distinct (map telefone (usuarios d))" and "integro d"
    and "cadastro_view d m tel p conv = Inr (r, d')"
  shows "distinct (map telefone (usuarios d')) \<and> integro d'"
  using cadastro_view_efeito [OF assms(3)]
proof
  assume "d' = d"
  with assms(1,2) show ?thesis by simp
next
  assume "\<exists>u. d' = d\<lparr>usuarios := usuarios d @ [u]\<rparr> \<and> telefone u = tel \<and>
             tel \<notin> set (map telefone (usuarios d)) \<and> (\<forall>q. convidado_por u = Some q \<longrightarrow> q \<le> length (usuarios d))"
  then obtain u where "d' = d\<lparr>usuarios := usuarios d @ [u]\<rparr>" and "telefone u = tel"
    and "tel \<notin> set (map telefone (usuarios d))" and "\<forall>q. convidado_por u = Some q \<longrightarrow> q \<le> length (usuarios d)"
    by blast
  then show ?thesis using assms(1,2) integro_novo_usuario [of d u] by simp
qed

text \<open>C25: an account can invite itself. Registering with one's own phone number as
  invitation code links the new account to itself, because the lookup runs after the
  account was saved; every approved deposit of that account then pays it the 15\<percent>
  commission on top of the amount.\<close>

theorem cadastro_preserva_witness:
  "\<exists>r d'. cadastro_view banca_exemplo POST ''923000003'' ''Angola'' ''923000001'' = Inr (r, d') \<and>
          distinct (map telefone (usuarios d')) \<and> integro d'"
proof -
  have "\<exists>r d'. cadastro_view banca_exemplo POST ''923000003'' ''Angola'' ''923000001'' = Inr (r, d')"
    by (simp add: cadastro_view_def Let_def banca_exemplo_def)
  then obtain r d' where c: "cadastro_view banca_exemplo POST ''923000003'' ''Angola'' ''923000001'' = Inr (r, d')"
    by blast
  have "distinct (map telefone (usuarios banca_exemplo))" and "integro banca_exemplo"
    by (simp_all add: banca_exemplo_def integro_def)
  then show ?thesis using cadastro_preserva [OF _ _ c] c by blast
qed

theorem auto_convite:
  assumes "tel \<noteq> []" and "\<not> list_ex (\<lambda>u. telefone u = tel) (usuarios d)"
  shows "\<exists>d'. cadastro_view d POST tel p tel = Inr (CadastroFeito (length (usuarios d)), d') \<and>
              convidado_por (usuarios d' ! length (usuarios d)) = Some (length (usuarios d))"
  using assms procurar_telefone_novo [OF assms(2), of "\<lparr>telefone = tel, pais = ''Angola'', convidado_por = None, saldo = 0\<rparr>"]
  by (simp add: cadastro_view_def Let_def salvar_usuario_def)

theorem auto_convite_witness:
  "\<exists>d'. cadastro_view banca_exemplo POST ''923000003'' ''Angola'' ''923000003'' = Inr (CadastroFeito 2, d') \<and>
        convidado_por (usuarios d' ! 2) = Some 2"
  using auto_convite [of "''923000003''" banca_exemplo "''Angola''"] by (simp add: banca_exemplo_def numeral_2_eq_2)

end
