(* ===== verification/Payments.thy ===== *)
theory Payments
  imports Selector
begin

text \<open>Payment methods and the read-only pages around the accounts: the models
  \<open>MetodoBanco\<close>, \<open>MetodoExpress\<close>, \<open>MetodoReferencia\<close> and \<open>ConfiguracaoSistema\<close>
  (models.py), the admin column \<open>SaqueAdmin.dados_para_pagamento\<close> (admin.py), the
  context the GET branch of \<open>depositar\<close> renders, with Python's \<open>str.split(',')\<close> on
  the configured preset amounts (views.py), the invite page \<open>pagina_convite\<close> and
  the history page \<open>historico_view\<close>, and the total the bets changelist of the
  admin shows (\<open>ApostaAdmin.changelist_view\<close>). Each table is a list indexed by primary key;
  \<open>.first()\<close> is the row of least key and \<open>order_by('-id')\<close> the reverse key order.\<close>

section \<open>Payment method tables\<close>

record metodo_banco =
  nome_banco :: string
  titular :: string
  iban :: string
  banco_ativo :: bool

record metodo_express =
  nome_servico :: string
  numero_telefone :: string
  express_ativo :: bool

record metodo_referencia =
  empresa :: string
  entidade :: string
  referencia :: string
  ref_ativo :: bool

record configuracao =
  link_whatsapp :: string
  instrucoes_jogo :: string
  valores_pre_definidos :: string

record catalogo =
  bancos :: "metodo_banco list"
  expresss :: "metodo_express list"
  referencias :: "metodo_referencia list"
  configuracoes :: "configuracao list"

text \<open>\<open>queryset.first()\<close>: the row of least primary key, if any.\<close>

definition primeiro :: "'a list \<Rightarrow> 'a option" where
  "primeiro xs = (case xs of [] \<Rightarrow> None | x # _ \<Rightarrow> Some x)"

section \<open>Where to pay a withdrawal (admin column)\<close>

datatype dados_pagamento =
  PagarBanco string string string
| PagarExpress string
| CadastreUmMetodo

text \<open>\<open>dados_para_pagamento(self, obj)\<close>: the first active bank account, else the first
  active Express number, else the warning. The withdrawal \<open>obj\<close> is an argument
  the body never reads.\<close>

definition dados_para_pagamento :: "catalogo \<Rightarrow> saque \<Rightarrow> dados_pagamento" where
  "dados_para_pagamento c obj =
     (case primeiro (filter banco_ativo (bancos c)) of
        Some banco \<Rightarrow> PagarBanco (nome_banco banco) (titular banco) (iban banco)
      | None \<Rightarrow>
          (case primeiro (filter express_ativo (expresss c)) of
             Some express \<Rightarrow> PagarExpress (numero_telefone express)
           | None \<Rightarrow> CadastreUmMetodo))"

section \<open>The deposit page\<close>

text \<open>Python's \<open>s.split(sep)\<close> for a one-character separator, scanning left to right
  with the current piece reversed in an accumulator; and \<open>sep.join(parts)\<close>.\<close>

fun separar :: "char \<Rightarrow> string \<Rightarrow> string \<Rightarrow> string list" where
  "separar c acc [] = [rev acc]"
| "separar c acc (x # xs) = (if x = c then rev acc # separar c [] xs else separar c (x # acc) xs)"

definition split_py :: "char \<Rightarrow> string \<Rightarrow> string list" where
  "split_py c s = separar c [] s"

fun juntar :: "char \<Rightarrow> string list \<Rightarrow> string" where
  "juntar c [] = []"
| "juntar c [p] = p"
| "juntar c (p # ps) = p @ c # juntar c ps"

record contexto_deposito =
  ctx_config :: "configuracao option"
  ctx_bancos :: "metodo_banco list"
  ctx_express :: "metodo_express list"
  ctx_referencias :: "metodo_referencia list"
  valores_pre :: "string list"

text \<open>The GET branch of \<open>depositar\<close>: the first configuration row, the active methods
  of each kind and the preset amounts split at commas (no configuration: none).\<close>

definition contexto_depositar :: "catalogo \<Rightarrow> contexto_deposito" where
  "contexto_depositar c =
     (let config = primeiro (configuracoes c)
      in \<lparr>ctx_config = config,
          ctx_bancos = filter banco_ativo (bancos c),
          ctx_express = filter express_ativo (expresss c),
          ctx_referencias = filter ref_ativo (referencias c),
          valores_pre = (case config of None \<Rightarrow> [] | Some k \<Rightarrow> split_py CHR '','' (valores_pre_definidos k))\<rparr>)"

section \<open>Invite page and history\<close>

text \<open>\<open>pagina_convite\<close>: the accounts whose \<open>convidado_por\<close> is the caller, and their count.\<close>

definition subordinados :: "db \<Rightarrow> pk \<Rightarrow> pk list" where
  "subordinados d uid = filter (\<lambda>i. convidado_por (usuarios d ! i) = Some uid) [0..<length (usuarios d)]"

definition total_sub :: "db \<Rightarrow> pk \<Rightarrow> nat" where
  "total_sub d uid = length (subordinados d uid)"

text \<open>\<open>historico_view\<close>: the caller's bets, deposits and withdrawals, newest first.
  Bets are ordered by \<open>-id\<close>; deposits and withdrawals by their creation time, which
  \<open>auto_now_add\<close> makes increase with the key, so each list is the reverse key order.\<close>

definition historico_de :: "('a \<Rightarrow> pk) \<Rightarrow> 'a list \<Rightarrow> pk \<Rightarrow> pk list" where
  "historico_de dono xs uid = rev (filter (\<lambda>i. dono (xs ! i) = uid) [0..<length xs])"

record historico =
  hist_apostas :: "pk list"
  hist_depositos :: "pk list"
  hist_saques :: "pk list"

definition historico_view :: "db \<Rightarrow> pk \<Rightarrow> historico" where
  "historico_view d uid =
     \<lparr>hist_apostas = historico_de ap_usuario (apostas d) uid,
      hist_depositos = historico_de dep_usuario (depositos d) uid,
      hist_saques = historico_de saque_usuario (saques d) uid\<rparr>"

text \<open>\<open>ApostaAdmin.changelist_view\<close>: the sum of all stakes, or 0 when there is none
  (\<open>aggregate(Sum(...))\<close> gives \<open>None\<close> on an empty table).\<close>

definition total_entradas :: "db \<Rightarrow> dinheiro" where
  "total_entradas d = sum_list (map valor_investido (apostas d))"

text \<open>Sample catalogue: one inactive bank, one active Express number, one active
  reference method, and the configuration row with the help text's example.\<close>

definition catalogo_exemplo :: catalogo where
  "catalogo_exemplo =
     \<lparr>bancos = [\<lparr>nome_banco = ''BAI'', titular = ''Jogo'', iban = ''AO06'', banco_ativo = False\<rparr>],
      expresss = [\<lparr>nome_servico = ''Express'', numero_telefone = ''923111222'', express_ativo = True\<rparr>],
      referencias = [\<lparr>empresa = ''Jogo'', entidade = ''00123'', referencia = ''987'', ref_ativo = True\<rparr>],
      configuracoes = [\<lparr>link_whatsapp = '''', instrucoes_jogo = '''', valores_pre_definidos = ''1000, 2000, 5000''\<rparr>]\<rparr>"

definition saque_exemplo :: saque where
  "saque_exemplo = \<lparr>saque_usuario = 0, saque_valor = 2500, saque_status = ''PENDENTE''\<rparr>"

section \<open>Lemmas\<close>

lemma primeiro_None: "primeiro xs = None \<longleftrightarrow> xs = []"
  by (simp add: primeiro_def split: list.split)

lemma primeiro_Some: "primeiro xs = Some y \<Longrightarrow> y \<in> set xs"
  by (auto simp: primeiro_def split: list.splits)

lemma primeiro_filter:
  "primeiro (filter P xs) = None \<longleftrightarrow> \<not> list_ex P xs"
  by (simp add: primeiro_None filter_empty_conv list_ex_iff)

lemma primeiro_filter_Some:
  "primeiro (filter P xs) = Some y \<Longrightarrow> y \<in> set xs \<and> P y"
  using primeiro_Some [of "filter P xs" y] by simp

lemma separar_juntar:
  "juntar c (separar c acc s) = rev acc @ s"
proof (induction s arbitrary: acc)
  case Nil
  then show ?case by simp
next
  case (Cons x xs)
  have ne: "separar c acc' ys \<noteq> []" for acc' ys
    by (induction ys arbitrary: acc') auto
  show ?case
  proof (cases "x = c")
    case True
    then obtain p ps where "separar c [] xs = p # ps" using ne by (cases "separar c [] xs") auto
    then show ?thesis using True Cons.IH [of "[]"] by simp
  next
    case False
    then show ?thesis using Cons.IH [of "x # acc"] by simp
  qed
qed

lemma separar_partes:
  "c \<notin> set acc \<Longrightarrow> list_all (\<lambda>p. c \<notin> set p) (separar c acc s) \<and>
     length (separar c acc s) = count_list s c + 1"
  by (induction s arbitrary: acc) auto

lemma historico_de_props:
  "distinct (historico_de dono xs uid) \<and> sorted_wrt (>) (historico_de dono xs uid) \<and>
   set (historico_de dono xs uid) = {i. i < length xs \<and> dono (xs ! i) = uid}"
  by (auto simp: historico_de_def sorted_wrt_rev sorted_wrt_filter)

lemma sum_subordinados_aux:
  "(\<Sum>q\<in>{0..<n::nat}. length (filter (\<lambda>i. f i = Some q) xs)) =
   length (filter (\<lambda>i. \<exists>q<n. f i = Some q) xs)"
proof (induction xs)
  case Nil
  then show ?case by simp
next
  case (Cons x xs)
  have "(\<Sum>q\<in>{0..<n}. (if f x = Some q then 1 else 0 :: nat)) = (if \<exists>q<n. f x = Some q then 1 else 0)"
    by (cases "f x") (simp_all add: sum.delta')
  moreover have "length (filter (\<lambda>i. f i = Some q) (x # xs)) =
      (if f x = Some q then 1 else 0) + length (filter (\<lambda>i. f i = Some q) xs)" for q
    by simp
  ultimately show ?case using Cons.IH by (simp add: sum.distrib)
qed

lemma sum_por_rodada:
  "list_all (\<lambda>a. ap_rodada a < n) xs \<Longrightarrow>
   sum_list (map valor_investido xs) =
   (\<Sum>r\<in>{0..<n}. sum_list (map valor_investido (filter (\<lambda>a. ap_rodada a = r) xs)))"
proof (induction xs)
  case Nil
  then show ?case by simp
next
  case (Cons x xs)
  have "(\<Sum>r\<in>{0..<n}. (if ap_rodada x = r then valor_investido x else 0)) = valor_investido x"
    using Cons.prems by (subst sum.delta') simp_all
  moreover have "sum_list (map valor_investido (filter (\<lambda>a. ap_rodada a = r) (x # xs))) =
      (if ap_rodada x = r then valor_investido x else 0) +
      sum_list (map valor_investido (filter (\<lambda>a. ap_rodada a = r) xs))" for r
    by simp
  ultimately show ?case using Cons by (simp add: sum.distrib)
qed

text \<open>The changelist total is the sum over the rounds of what each round took in.\<close>

lemma total_entradas_rodadas:
  "integro d \<Longrightarrow>
   total_entradas d = (\<Sum>r\<in>{0..<length (rodadas d)}. sum_list (map valor_investido (apostas_da_rodada d r)))"
  unfolding total_entradas_def apostas_da_rodada_def
  by (rule sum_por_rodada) (auto simp: integro_def list_all_iff)

section \<open>Properties\<close>

text \<open>\<open>'sep'.join(s.split('sep'))\<close> gives \<open>s\<close> back.\<close>

lemma split_py_roundtrip:
  "juntar c (split_py c s) = s"
  using separar_juntar [of c "[]" s] by (simp add: split_py_def)

lemma dados_para_pagamento_ignora:
  "dados_para_pagamento c s = dados_para_pagamento (c\<lparr>referencias := rs\<rparr>) s'"
  by (simp add: dados_para_pagamento_def split: option.split)

lemma dados_para_pagamento_prioridade:
  "(dados_para_pagamento c s = CadastreUmMetodo \<longleftrightarrow>
      \<not> list_ex banco_ativo (bancos c) \<and> \<not> list_ex express_ativo (expresss c)) \<and>
   (list_ex banco_ativo (bancos c) \<longrightarrow> (\<exists>b\<in>set (bancos c). banco_ativo b \<and>
      dados_para_pagamento c s = PagarBanco (nome_banco b) (titular b) (iban b)))"
proof (cases "primeiro (filter banco_ativo (bancos c))")
  case None
  have nb: "\<not> list_ex banco_ativo (bancos c)" using primeiro_filter [of banco_ativo "bancos c"] None by simp
  show ?thesis using primeiro_filter [of express_ativo "expresss c"]
    by (cases "primeiro (filter express_ativo (expresss c))") (simp_all add: dados_para_pagamento_def None nb)
next
  case (Some b)
  then have b: "b \<in> set (bancos c) \<and> banco_ativo b" by (rule primeiro_filter_Some)
  then have "list_ex banco_ativo (bancos c)" by (auto simp: list_ex_iff)
  moreover have "dados_para_pagamento c s = PagarBanco (nome_banco b) (titular b) (iban b)"
    using Some by (simp add: dados_para_pagamento_def)
  ultimately show ?thesis using b by auto
qed


text \<open>C26: the admin column "Onde Pagar" of a withdrawal never reads the withdrawal and
  never offers a reference method: it is the same for every withdrawal and whatever
  the reference-method table holds. It asks the operator to register a method exactly
  when there is no active bank account and no active Express number, and an active
  bank account takes precedence over Express.\<close>

theorem dados_para_pagamento_sem_metodo:
  "dados_para_pagamento c s = dados_para_pagamento (c\<lparr>referencias := rs\<rparr>) s' \<and>
   (dados_para_pagamento c s = CadastreUmMetodo \<longleftrightarrow>
      \<not> list_ex banco_ativo (bancos c) \<and> \<not> list_ex express_ativo (expresss c)) \<and>
   (list_ex banco_ativo (bancos c) \<longrightarrow> (\<exists>b\<in>set (bancos c). banco_ativo b \<and>
      dados_para_pagamento c s = PagarBanco (nome_banco b) (titular b) (iban b)))"
  using dados_para_pagamento_ignora [of c s rs s'] dados_para_pagamento_prioridade [of c s] by simp

theorem dados_para_pagamento_sem_metodo_witness:
  "dados_para_pagamento catalogo_exemplo saque_exemplo = PagarExpress ''923111222'' \<and>
   \<not> list_ex banco_ativo (bancos catalogo_exemplo)"
proof -
  have "\<not> list_ex banco_ativo (bancos catalogo_exemplo)" by (simp add: catalogo_exemplo_def)
  moreover have "dados_para_pagamento catalogo_exemplo saque_exemplo = PagarExpress ''923111222''"
    by (simp add: dados_para_pagamento_def catalogo_exemplo_def primeiro_def)
  ultimately show ?thesis
    using dados_para_pagamento_sem_metodo [of catalogo_exemplo saque_exemplo "[]" saque_exemplo] by simp
qed

end
