(* ===== verification/Concurrency.thy ===== *)
theory Concurrency
  imports Ledger Settlement Referral
begin

text \<open>Concurrent requests. Every view decorated with \<open>login_required\<close> reads
  \<open>request.user\<close> when the request arrives and writes that object back with \<open>save()\<close>
  when the view finishes; between the two, other requests may run. A \<open>sistema\<close> is the
  store with the list of requests in flight, each holding the snapshot of its account
  taken on arrival. The step relation \<open>passo\<close> lets a request arrive, lets any
  request in flight finish (in any order), and runs the views that do not hold a
  snapshot (registration, deposit submission), the admin deposit actions and the
  withdrawal status the admin edits in the changelist (\<open>list_editable\<close>) in one
  step. \<open>home_jogo\<close> is split at its read of the active round, since its
  \<open>filter(ativa=True).last()\<close> and \<open>Rodada.objects.create()\<close> are separate queries,
  and \<open>processar_resultado_final\<close> at its read of the bet (\<open>le_resultado\<close>), since
  \<open>get_object_or_404\<close> and \<open>aposta.save()\<close> are separate queries too; a
  confirmation may also finish right after its arrival, read and write together.
  The batch settlement \<open>fechar_rodada_lucrativa\<close> is not a step: no URL or admin
  action calls it.\<close>

section \<open>Requests in flight\<close>

datatype pedido =
  PedAposta pk usuario "dinheiro option" "int option"
| PedSaque pk usuario "dinheiro option"
| PedResultado pk usuario "int option" "pk option"
| PedResultadoLido pk usuario "int option" "pk option" "aposta option"
| PedJogo "pk option"

record sistema =
  banco :: db
  em_curso :: "pedido list"

definition remover :: "nat \<Rightarrow> 'a list \<Rightarrow> 'a list" where
  "remover i xs = take i xs @ drop (Suc i) xs"

text \<open>The part of \<open>processar_resultado_final\<close> after its read of the bet
  (views.py 162): the checks and writes run on the bet object \<open>la\<close> as it was read,
  and \<open>aposta.save()\<close> writes that object back with its new flag, whatever other
  requests did to the row in between.\<close>

definition processar_lido ::
  "db \<Rightarrow> pk \<Rightarrow> usuario \<Rightarrow> int option \<Rightarrow> pk option \<Rightarrow> aposta option \<Rightarrow> erro + (resposta_resultado \<times> db)" where
  "processar_lido d uid u resultado_post aposta_id la =
     (case resultado_post of
        None \<Rightarrow> Inl ErroInterno
      | Some resultado_dado \<Rightarrow>
          (case aposta_id of
             None \<Rightarrow> Inl ErroInterno
           | Some aid \<Rightarrow>
               (case la of
                  None \<Rightarrow> Inl ErroInterno
                | Some a \<Rightarrow>
                    if ap_usuario a \<noteq> uid then Inl ErroInterno
                    else if ganhou a \<noteq> None then Inr (Processado (saldo u), d)
                    else if valor_escolhido a = resultado_dado then
                      (let u' = u\<lparr>saldo := saldo u + valor_investido a * of_int resultado_dado\<rparr>;
                           d1 = salvar_usuario d uid u'
                       in Inr (Confirmado True (saldo u'),
                               d1\<lparr>apostas := (apostas d1)[aid := a\<lparr>ganhou := Some True\<rparr>]\<rparr>))
                    else Inr (Confirmado False (saldo u),
                              d\<lparr>apostas := (apostas d)[aid := a\<lparr>ganhou := Some False\<rparr>]\<rparr>))))"

text \<open>The end of a request: the view runs on the current store with the snapshot
  taken on arrival. An error response writes nothing.\<close>

fun executar :: "db \<Rightarrow> pedido \<Rightarrow> db" where
  "executar d (PedAposta uid u vp np) =
     (case fazer_aposta d uid u POST vp np of Inl _ \<Rightarrow> d | Inr (_, _, d') \<Rightarrow> d')"
| "executar d (PedSaque uid u vp) =
     (case sacar d uid u POST vp of Inl _ \<Rightarrow> d | Inr (_, d') \<Rightarrow> d')"
| "executar d (PedResultado uid u rp ap) =
     (case processar_resultado_final d uid u POST rp ap of Inl _ \<Rightarrow> d | Inr (_, d') \<Rightarrow> d')"
| "executar d (PedResultadoLido uid u rp ap la) =
     (case processar_lido d uid u rp ap la of Inl _ \<Rightarrow> d | Inr (_, d') \<Rightarrow> d')"
| "executar d (PedJogo lida) =
     (case lida of Some _ \<Rightarrow> d | None \<Rightarrow> d\<lparr>rodadas := rodadas d @ [nova_rodada]\<rparr>)"

inductive passo :: "sistema \<Rightarrow> sistema \<Rightarrow> bool" where
  chega_aposta: "uid < length (usuarios (banco s)) \<Longrightarrow>
     passo s (s\<lparr>em_curso := em_curso s @ [PedAposta uid (usuarios (banco s) ! uid) vp np]\<rparr>)"
| chega_saque: "uid < length (usuarios (banco s)) \<Longrightarrow>
     passo s (s\<lparr>em_curso := em_curso s @ [PedSaque uid (usuarios (banco s) ! uid) vp]\<rparr>)"
| chega_resultado: "uid < length (usuarios (banco s)) \<Longrightarrow>
     passo s (s\<lparr>em_curso := em_curso s @ [PedResultado uid (usuarios (banco s) ! uid) rp ap]\<rparr>)"
| le_resultado: "i < length (em_curso s) \<Longrightarrow> em_curso s ! i = PedResultado uid u rp ap \<Longrightarrow>
     passo s (s\<lparr>em_curso := (em_curso s)[i := PedResultadoLido uid u rp ap
                 (case ap of None \<Rightarrow> None | Some aid \<Rightarrow> obter (apostas (banco s)) aid)]\<rparr>)"
| chega_jogo: "passo s (s\<lparr>em_curso := em_curso s @ [PedJogo (ultima_ativa (rodadas (banco s)))]\<rparr>)"
| conclui: "i < length (em_curso s) \<Longrightarrow>
     passo s \<lparr>banco = executar (banco s) (em_curso s ! i), em_curso = remover i (em_curso s)\<rparr>"
| cadastro: "cadastro_view (banco s) m tel p conv = Inr (r, d') \<Longrightarrow> passo s (s\<lparr>banco := d'\<rparr>)"
| deposito: "uid < length (usuarios (banco s)) \<Longrightarrow>
     depositar (banco s) uid m met vp nome = Inr d' \<Longrightarrow> passo s (s\<lparr>banco := d'\<rparr>)"
| admin_aprova: "aprovar_deposito (banco s) sel = Some (d', n) \<Longrightarrow> passo s (s\<lparr>banco := d'\<rparr>)"
| admin_edita: "did < length (depositos (banco s)) \<Longrightarrow>
     salvar_deposito (banco s) did ((depositos (banco s) ! did)\<lparr>status := st\<rparr>) = Some d' \<Longrightarrow>
     passo s (s\<lparr>banco := d'\<rparr>)"
| admin_saque: "i < length (saques (banco s)) \<Longrightarrow>
     passo s (s\<lparr>banco := (banco s)\<lparr>saques := (saques (banco s))[i := (saques (banco s) ! i)\<lparr>saque_status := st\<rparr>]\<rparr>\<rparr>)"

section \<open>Well-formed systems\<close>

definition convidado_ok :: "db \<Rightarrow> usuario \<Rightarrow> bool" where
  "convidado_ok d u = (case convidado_por u of None \<Rightarrow> True | Some q \<Rightarrow> q < length (usuarios d))"

fun pedido_ok :: "db \<Rightarrow> pedido \<Rightarrow> bool" where
  "pedido_ok d (PedAposta uid u _ _) = (uid < length (usuarios d) \<and> convidado_ok d u)"
| "pedido_ok d (PedSaque uid u _) = (uid < length (usuarios d) \<and> convidado_ok d u)"
| "pedido_ok d (PedResultado uid u _ _) = (uid < length (usuarios d) \<and> convidado_ok d u)"
| "pedido_ok d (PedResultadoLido uid u _ ap la) =
     (uid < length (usuarios d) \<and> convidado_ok d u \<and>
      (case la of
         None \<Rightarrow> True
       | Some a \<Rightarrow> (case ap of None \<Rightarrow> False | Some aid \<Rightarrow> aid < length (apostas d)) \<and>
                   ap_usuario a < length (usuarios d) \<and> ap_rodada a < length (rodadas d)))"
| "pedido_ok d (PedJogo _) = True"

definition sistema_ok :: "sistema \<Rightarrow> bool" where
  "sistema_ok s \<longleftrightarrow> integro (banco s) \<and> list_all (pedido_ok (banco s)) (em_curso s)"

definition cresce :: "db \<Rightarrow> db \<Rightarrow> bool" where
  "cresce d d' \<longleftrightarrow> length (usuarios d) \<le> length (usuarios d') \<and> length (rodadas d) \<le> length (rodadas d') \<and>
     length (apostas d) \<le> length (apostas d')"

section \<open>Lemmas\<close>

lemma cresce_refl [simp]: "cresce d d"
  by (simp add: cresce_def)

lemma pedido_ok_cresce: "pedido_ok d p \<Longrightarrow> cresce d d' \<Longrightarrow> pedido_ok d' p"
  by (cases p) (auto simp: cresce_def convidado_ok_def split: option.splits)

lemma set_remover: "set (remover i xs) \<subseteq> set xs"
  by (auto simp: remover_def dest: in_set_takeD in_set_dropD)

lemma integro_salvar_usuario:
  "integro d \<Longrightarrow> uid < length (usuarios d) \<Longrightarrow> convidado_ok d u \<Longrightarrow> integro (salvar_usuario d uid u)"
  by (auto simp: integro_def salvar_usuario_def convidado_ok_def list_all_length nth_list_update_any
      split: option.splits)

lemma convidado_ok_saldo [simp]: "convidado_ok d (u\<lparr>saldo := x\<rparr>) = convidado_ok d u"
  by (simp add: convidado_ok_def)

lemma convidado_ok_tables [simp]:
  "convidado_ok (d\<lparr>apostas := a\<rparr>) = convidado_ok d"
  "convidado_ok (d\<lparr>rodadas := r\<rparr>) = convidado_ok d"
  "convidado_ok (d\<lparr>saques := x\<rparr>) = convidado_ok d"
  by (simp_all add: convidado_ok_def fun_eq_iff split: option.split)

lemma integro_ativa_ou_cria_aposta:
  assumes "integro d" and "rodada_ativa_ou_cria d = (rid, d1)" and "uid < length (usuarios d)"
  shows "integro (d1\<lparr>apostas := apostas d @ [\<lparr>ap_usuario = uid, ap_rodada = rid,
            valor_escolhido = n, valor_investido = v, ganhou = None\<rparr>]\<rparr>) \<and> cresce d d1 \<and> usuarios d1 = usuarios d"
  using rodada_ativa_ou_cria_cases [OF assms(2)] assms(1,3) ultima_ativa_Some [of "rodadas d" rid]
  by (auto simp: integro_def cresce_def list_all_iff cong: option.case_cong)

lemma integro_aposta_update:
  "integro d \<Longrightarrow> aid < length (apostas d) \<Longrightarrow>
   integro (d\<lparr>apostas := (apostas d)[aid := (apostas d ! aid)\<lparr>ganhou := g\<rparr>]\<rparr>)"
  by (auto simp: integro_def list_all_length nth_list_update_any cong: option.case_cong)

lemma cresce_trans: "cresce d d1 \<Longrightarrow> cresce d1 d2 \<Longrightarrow> cresce d d2"
  by (auto simp: cresce_def)

lemma cresce_salvar [simp]: "cresce d (salvar_usuario d uid u)"
  by (simp add: cresce_def)

lemma executar_aposta_ok:
  assumes "integro d" and "uid < length (usuarios d)" and "convidado_ok d u"
  shows "integro (executar d (PedAposta uid u vp np)) \<and> cresce d (executar d (PedAposta uid u vp np))"
proof (cases "fazer_aposta d uid u POST vp np")
  case (Inl e)
  then show ?thesis using assms by simp
next
  case (Inr r)
  obtain aid x d' where r: "r = (aid, x, d')" by (cases r)
  with Inr have "fazer_aposta d uid u POST vp np = Inr (aid, x, d')" by simp
  then obtain v n rid d1 where rc: "rodada_ativa_ou_cria d = (rid, d1)"
    and d': "d' = salvar_usuario (d1\<lparr>apostas := apostas d @ [\<lparr>ap_usuario = uid, ap_rodada = rid,
              valor_escolhido = n, valor_investido = v, ganhou = None\<rparr>]\<rparr>) uid (u\<lparr>saldo := saldo u - v\<rparr>)"
    unfolding fazer_aposta_Inr by blast
  note i = integro_ativa_ou_cria_aposta [OF assms(1) rc assms(2), of n v]
  from i have "usuarios d1 = usuarios d" by simp
  then have "convidado_ok d1 u" using assms(3) by (simp add: convidado_ok_def cong: option.case_cong)
  then have "integro d'" using i assms(2) by (simp add: d' integro_salvar_usuario)
  moreover have "cresce d d'" using i by (simp add: d' cresce_def)
  ultimately show ?thesis using Inr r by simp
qed

lemma executar_saque_ok:
  assumes "integro d" and "uid < length (usuarios d)" and "convidado_ok d u"
  shows "integro (executar d (PedSaque uid u vp)) \<and> cresce d (executar d (PedSaque uid u vp))"
proof -
  have "integro (d\<lparr>saques := saques d @ [\<lparr>saque_usuario = uid, saque_valor = v, saque_status = st\<rparr>]\<rparr>)" for v st
    using assms(1,2) by (simp add: integro_def cong: option.case_cong)
  then show ?thesis using assms
    by (auto simp: sacar_def integro_salvar_usuario cresce_def split: option.split)
qed

lemma executar_resultado_ok:
  assumes "integro d" and "uid < length (usuarios d)" and "convidado_ok d u"
  shows "integro (executar d (PedResultado uid u rp ap)) \<and> cresce d (executar d (PedResultado uid u rp ap))"
proof (cases "processar_resultado_final d uid u POST rp ap")
  case (Inl e)
  then show ?thesis using assms by simp
next
  case (Inr r)
  obtain x d' where r: "r = (x, d')" by (cases r)
  with Inr have p: "processar_resultado_final d uid u POST rp ap = Inr (x, d')" by simp
  have s: "integro (salvar_usuario d uid (u\<lparr>saldo := y\<rparr>))" for y
    using assms by (simp add: integro_salvar_usuario)
  have "integro d' \<and> cresce d d'"
    using p unfolding processar_Inr
    using assms(1) integro_aposta_update [OF assms(1)] integro_aposta_update [OF s]
    by (auto simp: obter_Some_iff cresce_def)
  then show ?thesis using Inr r by simp
qed

lemma integro_aposta_set:
  "integro d \<Longrightarrow> aid < length (apostas d) \<Longrightarrow> ap_usuario a < length (usuarios d) \<Longrightarrow>
   ap_rodada a < length (rodadas d) \<Longrightarrow> integro (d\<lparr>apostas := (apostas d)[aid := a]\<rparr>)"
  by (auto simp: integro_def list_all_length nth_list_update_any cong: option.case_cong)

lemma executar_lido_ok:
  assumes "integro d" and "pedido_ok d (PedResultadoLido uid u rp ap la)"
  shows "integro (executar d (PedResultadoLido uid u rp ap la)) \<and>
         cresce d (executar d (PedResultadoLido uid u rp ap la))"
proof (cases "processar_lido d uid u rp ap la")
  case (Inl e)
  then show ?thesis using assms by simp
next
  case (Inr r)
  obtain x d' where r: "r = (x, d')" by (cases r)
  with Inr have p: "processar_lido d uid u rp ap la = Inr (x, d')" by simp
  have ok: "uid < length (usuarios d)" "convidado_ok d u" using assms(2) by simp_all
  have s: "integro (salvar_usuario d uid (u\<lparr>saldo := y\<rparr>))" for y
    using assms(1) ok by (simp add: integro_salvar_usuario)
  have "integro d' \<and> cresce d d'"
  proof (cases "d' = d")
    case False
    then obtain aid a g y where a: "ap = Some aid" "la = Some a"
      and d': "d' = d\<lparr>apostas := (apostas d)[aid := a\<lparr>ganhou := g\<rparr>]\<rparr> \<or>
               d' = (salvar_usuario d uid (u\<lparr>saldo := y\<rparr>))\<lparr>apostas := (apostas d)[aid := a\<lparr>ganhou := g\<rparr>]\<rparr>"
      using p by (auto simp: processar_lido_def Let_def split: option.splits if_splits)
    have fk: "aid < length (apostas d)" "ap_usuario a < length (usuarios d)" "ap_rodada a < length (rodadas d)"
      using assms(2) a by simp_all
    show ?thesis
      using d' integro_aposta_set [OF assms(1) fk(1), of "a\<lparr>ganhou := g\<rparr>"] integro_aposta_set [OF s [of y], of aid "a\<lparr>ganhou := g\<rparr>"] fk
      by (auto simp: cresce_def)
  qed (simp add: assms(1))
  then show ?thesis using Inr r by simp
qed

lemma executar_ok:
  assumes "integro d" and "pedido_ok d p"
  shows "integro (executar d p) \<and> cresce d (executar d p)"
proof (cases p)
  case (PedAposta uid u vp np)
  then show ?thesis using assms executar_aposta_ok [OF assms(1), of uid u vp np] by (simp del: executar.simps)
next
  case (PedSaque uid u vp)
  then show ?thesis using assms executar_saque_ok [OF assms(1), of uid u vp] by (simp del: executar.simps)
next
  case (PedResultado uid u rp ap)
  then show ?thesis using assms executar_resultado_ok [OF assms(1), of uid u rp ap] by (simp del: executar.simps)
next
  case (PedResultadoLido uid u rp ap la)
  then show ?thesis using assms executar_lido_ok [OF assms(1)] by (simp del: executar.simps pedido_ok.simps)
next
  case (PedJogo lida)
  then show ?thesis using assms(1)
    by (auto simp: integro_def cresce_def list_all_iff split: option.split cong: option.case_cong)
qed

lemma convidado_ok_nth: "integro d \<Longrightarrow> uid < length (usuarios d) \<Longrightarrow> convidado_ok d (usuarios d ! uid)"
  by (auto simp: integro_def convidado_ok_def list_all_length split: option.split)

lemma aprovar_lista_integro:
  "aprovar_lista d xs = Some (d', n) \<Longrightarrow> integro d \<Longrightarrow>
   list_all (\<lambda>x. dep_usuario (snd x) < length (usuarios d)) xs \<Longrightarrow>
   integro d' \<and> length (usuarios d') = length (usuarios d) \<and> rodadas d' = rodadas d"
proof (induction xs arbitrary: d n)
  case Nil
  then show ?case by simp
next
  case (Cons x xs)
  obtain did dep where x: "x = (did, dep)" by (cases x)
  from Cons.prems(1) x obtain d1 m where s: "salvar_deposito d did (dep\<lparr>status := APROVADO\<rparr>) = Some d1"
    and r: "aprovar_lista d1 xs = Some (d', m)"
    by (auto split: option.splits)
  have t: "length (usuarios d1) = length (usuarios d) \<and> rodadas d1 = rodadas d"
    using salvar_deposito_tables [OF s] by simp
  have "integro d1" using integro_salvar_deposito [OF Cons.prems(2) _ s] Cons.prems(3) x by simp
  then show ?case using Cons.IH [OF r] Cons.prems(3) t by simp
qed

lemma aprovar_lista_apostas: "aprovar_lista d xs = Some (d', n) \<Longrightarrow> apostas d' = apostas d"
proof (induction xs arbitrary: d n)
  case (Cons x xs)
  then show ?case by (cases x) (auto split: option.splits dest!: salvar_deposito_tables)
qed simp

lemma aprovar_deposito_integro:
  assumes "aprovar_deposito d sel = Some (d', n)" and "integro d"
  shows "integro d' \<and> cresce d d'"
proof -
  have "list_all (\<lambda>x. dep_usuario (snd x) < length (usuarios d))
          (map (\<lambda>i. (i, depositos d ! i)) (filter (\<lambda>i. i \<in> set sel \<and> status (depositos d ! i) = PENDENTE) [0..<length (depositos d)]))"
    using assms(2) by (auto simp: integro_def list_all_iff)
  then show ?thesis using aprovar_lista_integro [OF assms(1) [unfolded aprovar_deposito_def] assms(2)]
      aprovar_lista_apostas [OF assms(1) [unfolded aprovar_deposito_def]]
    by (simp add: cresce_def)
qed

lemma passo_ok: "passo s s' \<Longrightarrow> sistema_ok s \<Longrightarrow> sistema_ok s'"
proof (induction rule: passo.induct)
  case (conclui i s)
  have ok: "integro (banco s)" "pedido_ok (banco s) (em_curso s ! i)"
    using conclui by (auto simp: sistema_ok_def list_all_length)
  note e = executar_ok [OF ok]
  have "list_all (pedido_ok (executar (banco s) (em_curso s ! i))) (remover i (em_curso s))"
    using conclui.prems e set_remover [of i "em_curso s"]
    by (auto simp: sistema_ok_def list_all_iff intro: pedido_ok_cresce)
  then show ?case using e by (simp add: sistema_ok_def)
next
  case (cadastro s m tel p conv r d')
  have "integro d' \<and> cresce (banco s) d'"
    using cadastro_view_efeito [OF cadastro.hyps] cadastro.prems integro_novo_usuario [of "banco s"]
    by (auto simp: sistema_ok_def cresce_def)
  then show ?case using cadastro.prems by (auto simp: sistema_ok_def list_all_iff intro: pedido_ok_cresce)
next
  case (deposito uid s m met vp nome d')
  then have "integro d' \<and> cresce (banco s) d'"
    by (auto simp: depositar_def sistema_ok_def integro_def cresce_def split: if_splits option.splits
        cong: option.case_cong)
  then show ?case using deposito.prems by (auto simp: sistema_ok_def list_all_iff intro: pedido_ok_cresce)
next
  case (admin_aprova s sel d' n)
  then have "integro d' \<and> cresce (banco s) d'" using aprovar_deposito_integro by (simp add: sistema_ok_def)
  then show ?case using admin_aprova.prems by (auto simp: sistema_ok_def list_all_iff intro: pedido_ok_cresce)
next
  case (admin_edita did s st d')
  have u: "dep_usuario ((depositos (banco s) ! did)\<lparr>status := st\<rparr>) < length (usuarios (banco s))"
    using admin_edita by (simp add: sistema_ok_def integro_def list_all_length)
  have "integro d' \<and> cresce (banco s) d'"
    using integro_salvar_deposito [OF _ u admin_edita.hyps(2)] salvar_deposito_tables [OF admin_edita.hyps(2)]
      admin_edita.prems by (simp add: sistema_ok_def cresce_def)
  then show ?case using admin_edita.prems by (auto simp: sistema_ok_def list_all_iff intro: pedido_ok_cresce)
next
  case (admin_saque i s st)
  let ?d = "(banco s)\<lparr>saques := (saques (banco s))[i := (saques (banco s) ! i)\<lparr>saque_status := st\<rparr>]\<rparr>"
  have "integro ?d" using admin_saque
    by (auto simp: sistema_ok_def integro_def list_all_length nth_list_update_any cong: option.case_cong)
  moreover have "cresce (banco s) ?d" by (simp add: cresce_def)
  ultimately show ?case using admin_saque.prems
    by (auto simp: sistema_ok_def list_all_iff intro: pedido_ok_cresce)
next
  case (le_resultado i s uid u rp ap)
  have ok: "integro (banco s)" "pedido_ok (banco s) (PedResultado uid u rp ap)"
    using le_resultado by (auto simp: sistema_ok_def list_all_length)
  have "pedido_ok (banco s) (PedResultadoLido uid u rp ap
          (case ap of None \<Rightarrow> None | Some aid \<Rightarrow> obter (apostas (banco s)) aid))"
    using ok by (auto simp: integro_def list_all_length obter_def split: option.split)
  then show ?case using le_resultado.prems
    by (auto simp: sistema_ok_def list_all_length nth_list_update_any)
qed (auto simp: sistema_ok_def convidado_ok_nth)

lemma executar_aposta_aceita:
  "v \<le> saldo u \<Longrightarrow>
   executar d (PedAposta uid u (Some v) (Some n)) =
     salvar_usuario ((snd (rodada_ativa_ou_cria d))\<lparr>apostas := apostas d @
        [\<lparr>ap_usuario = uid, ap_rodada = fst (rodada_ativa_ou_cria d), valor_escolhido = n,
          valor_investido = v, ganhou = None\<rparr>]\<rparr>) uid (u\<lparr>saldo := saldo u - v\<rparr>)"
  by (auto simp: fazer_aposta_def not_less split: prod.split dest: rodada_ativa_ou_cria_eq_tables)

lemma passos_4:
  "passo a b \<Longrightarrow> passo b c \<Longrightarrow> passo c e \<Longrightarrow> passo e f \<Longrightarrow> passo\<^sup>*\<^sup>* a f"
  by (meson r_into_rtranclp rtranclp_trans)

section \<open>Properties of interleaved requests\<close>

text \<open>C8: whatever requests arrive and in whatever order they finish, the store keeps
  its foreign keys valid (every bet, deposit and withdrawal names an existing account,
  every bet an existing round, every inviter an existing account) and every request in
  flight names an existing account.\<close>

theorem alcancavel_ok:
  assumes "passo\<^sup>*\<^sup>* s s'" and "sistema_ok s"
  shows "sistema_ok s'"
  using assms by (induction rule: rtranclp_induct) (auto intro: passo_ok)

text \<open>C9: lost update. Two bets of the same account that arrive before either has
  finished both pass the balance check against the same snapshot; both are stored, but
  the second \<open>save()\<close> writes the snapshot minus its own stake over the first debit, so
  the account pays only the second stake.\<close>

theorem aposta_concorrente_perde_debito:
  assumes "uid < length (usuarios d)"
    and "v1 \<le> saldo (usuarios d ! uid)" and "v2 \<le> saldo (usuarios d ! uid)"
  shows "\<exists>d'. passo\<^sup>*\<^sup>* \<lparr>banco = d, em_curso = []\<rparr> \<lparr>banco = d', em_curso = []\<rparr> \<and>
            saldo_de d' uid = saldo_de d uid - v2 \<and>
            map (\<lambda>a. (ap_usuario a, valor_investido a)) (drop (length (apostas d)) (apostas d')) =
              [(uid, v1), (uid, v2)]"
proof -
  let ?u = "usuarios d ! uid"
  let ?a1 = "PedAposta uid ?u (Some v1) (Some n1)" and ?a2 = "PedAposta uid ?u (Some v2) (Some n2)"
  define d1 where "d1 = executar d ?a1"
  define d2 where "d2 = executar d1 ?a2"
  have e1: "d1 = salvar_usuario ((snd (rodada_ativa_ou_cria d))\<lparr>apostas := apostas d @
        [\<lparr>ap_usuario = uid, ap_rodada = fst (rodada_ativa_ou_cria d), valor_escolhido = n1,
          valor_investido = v1, ganhou = None\<rparr>]\<rparr>) uid (?u\<lparr>saldo := saldo ?u - v1\<rparr>)"
    unfolding d1_def using assms(2) by (rule executar_aposta_aceita)
  have e2: "d2 = salvar_usuario ((snd (rodada_ativa_ou_cria d1))\<lparr>apostas := apostas d1 @
        [\<lparr>ap_usuario = uid, ap_rodada = fst (rodada_ativa_ou_cria d1), valor_escolhido = n2,
          valor_investido = v2, ganhou = None\<rparr>]\<rparr>) uid (?u\<lparr>saldo := saldo ?u - v2\<rparr>)"
    unfolding d2_def using assms(3) by (rule executar_aposta_aceita)
  have l1: "length (usuarios d1) = length (usuarios d)" by (simp add: e1)
  have p1: "passo \<lparr>banco = d, em_curso = []\<rparr> \<lparr>banco = d, em_curso = [?a1]\<rparr>"
    using passo.chega_aposta [of uid "\<lparr>banco = d, em_curso = []\<rparr>" "Some v1" "Some n1"] assms(1) by simp
  have p2: "passo \<lparr>banco = d, em_curso = [?a1]\<rparr> \<lparr>banco = d, em_curso = [?a1, ?a2]\<rparr>"
    using passo.chega_aposta [of uid "\<lparr>banco = d, em_curso = [?a1]\<rparr>" "Some v2" "Some n2"] assms(1) by simp
  have p3: "passo \<lparr>banco = d, em_curso = [?a1, ?a2]\<rparr> \<lparr>banco = d1, em_curso = [?a2]\<rparr>"
    using passo.conclui [of 0 "\<lparr>banco = d, em_curso = [?a1, ?a2]\<rparr>"] by (simp add: d1_def remover_def del: executar.simps)
  have p4: "passo \<lparr>banco = d1, em_curso = [?a2]\<rparr> \<lparr>banco = d2, em_curso = []\<rparr>"
    using passo.conclui [of 0 "\<lparr>banco = d1, em_curso = [?a2]\<rparr>"] by (simp add: d2_def remover_def del: executar.simps)
  have "saldo_de d2 uid = saldo_de d uid - v2"
    using assms(1) l1 by (simp add: e2 saldo_de_nth)
  moreover have "apostas d2 = apostas d @
      [\<lparr>ap_usuario = uid, ap_rodada = fst (rodada_ativa_ou_cria d), valor_escolhido = n1, valor_investido = v1, ganhou = None\<rparr>,
       \<lparr>ap_usuario = uid, ap_rodada = fst (rodada_ativa_ou_cria d1), valor_escolhido = n2, valor_investido = v2, ganhou = None\<rparr>]"
    by (simp add: e2 e1)
  ultimately show ?thesis using passos_4 [OF p1 p2 p3 p4] by auto
qed

text \<open>C27: duplicate active round. When no round is active, two visits of the game page
  that both read the active round before either creates one each create a round, and
  the store ends with two active rounds, which \<open>rodada_ativa_ou_cria\<close> run alone never
  produces.\<close>

theorem rodada_duplicada:
  assumes "\<not> list_ex ativa (rodadas d)"
  shows "\<exists>d'. passo\<^sup>*\<^sup>* \<lparr>banco = d, em_curso = []\<rparr> \<lparr>banco = d', em_curso = []\<rparr> \<and>
            \<not> uma_ativa (rodadas d') \<and> length (filter ativa (rodadas d')) = 2"
proof -
  have n: "ultima_ativa (rodadas d) = None" using assms by (simp add: ultima_ativa_None)
  let ?j = "PedJogo None"
  define d1 where "d1 = executar d ?j"
  define d2 where "d2 = executar d1 ?j"
  have p1: "passo \<lparr>banco = d, em_curso = []\<rparr> \<lparr>banco = d, em_curso = [?j]\<rparr>"
    using passo.chega_jogo [of "\<lparr>banco = d, em_curso = []\<rparr>"] n by simp
  have p2: "passo \<lparr>banco = d, em_curso = [?j]\<rparr> \<lparr>banco = d, em_curso = [?j, ?j]\<rparr>"
    using passo.chega_jogo [of "\<lparr>banco = d, em_curso = [?j]\<rparr>"] n by simp
  have p3: "passo \<lparr>banco = d, em_curso = [?j, ?j]\<rparr> \<lparr>banco = d1, em_curso = [?j]\<rparr>"
    using passo.conclui [of 0 "\<lparr>banco = d, em_curso = [?j, ?j]\<rparr>"] by (simp add: d1_def remover_def del: executar.simps)
  have p4: "passo \<lparr>banco = d1, em_curso = [?j]\<rparr> \<lparr>banco = d2, em_curso = []\<rparr>"
    using passo.conclui [of 0 "\<lparr>banco = d1, em_curso = [?j]\<rparr>"] by (simp add: d2_def remover_def del: executar.simps)
  have "filter ativa (rodadas d) = []" using assms by (simp add: filter_empty_conv list_ex_iff)
  then have "filter ativa (rodadas d2) = [nova_rodada, nova_rodada]"
    by (simp add: d1_def d2_def nova_rodada_def)
  then show ?thesis using passos_4 [OF p1 p2 p3 p4] by (auto simp: uma_ativa_def)
qed

text \<open>C28: double confirmation. The confirmation view reads the bet (views.py 162)
  and saves it (178) in separate queries with no lock. Two overlapping confirmations
  of one unsettled bet, the first claiming the bet's own number and the second
  another outcome, both read the flag unset: the first credits the prize and marks
  the bet won, the second then writes the bet back as lost. The bet ends recorded as
  lost while its prize stays paid.\<close>

theorem confirmacao_concorrente:
  assumes "uid < length (usuarios d)" and "aid < length (apostas d)"
    and "ap_usuario (apostas d ! aid) = uid" and "ganhou (apostas d ! aid) = None"
    and "valor_escolhido (apostas d ! aid) = n" and "m \<noteq> n"
  shows "\<exists>d'. passo\<^sup>*\<^sup>* \<lparr>banco = d, em_curso = []\<rparr> \<lparr>banco = d', em_curso = []\<rparr> \<and>
            saldo_de d' uid = saldo_de d uid + valor_investido (apostas d ! aid) * of_int n \<and>
            ganhou (apostas d' ! aid) = Some False"
proof -
  let ?u = "usuarios d ! uid" and ?a = "apostas d ! aid"
  let ?A = "PedResultado uid ?u (Some n) (Some aid)" and ?B = "PedResultado uid ?u (Some m) (Some aid)"
  let ?LA = "PedResultadoLido uid ?u (Some n) (Some aid) (Some ?a)"
  let ?LB = "PedResultadoLido uid ?u (Some m) (Some aid) (Some ?a)"
  define d1 where "d1 = executar d ?LA"
  define d2 where "d2 = executar d1 ?LB"
  have o: "obter (apostas d) aid = Some ?a" using assms(2) by (simp add: obter_def)
  have p1: "passo \<lparr>banco = d, em_curso = []\<rparr> \<lparr>banco = d, em_curso = [?A]\<rparr>"
    using passo.chega_resultado [of uid "\<lparr>banco = d, em_curso = []\<rparr>" "Some n" "Some aid"] assms(1) by simp
  have p2: "passo \<lparr>banco = d, em_curso = [?A]\<rparr> \<lparr>banco = d, em_curso = [?A, ?B]\<rparr>"
    using passo.chega_resultado [of uid "\<lparr>banco = d, em_curso = [?A]\<rparr>" "Some m" "Some aid"] assms(1) by simp
  have p3: "passo \<lparr>banco = d, em_curso = [?A, ?B]\<rparr> \<lparr>banco = d, em_curso = [?LA, ?B]\<rparr>"
    using passo.le_resultado [of 0 "\<lparr>banco = d, em_curso = [?A, ?B]\<rparr>" uid ?u "Some n" "Some aid"] o by simp
  have p4: "passo \<lparr>banco = d, em_curso = [?LA, ?B]\<rparr> \<lparr>banco = d, em_curso = [?LA, ?LB]\<rparr>"
    using passo.le_resultado [of 1 "\<lparr>banco = d, em_curso = [?LA, ?B]\<rparr>" uid ?u "Some m" "Some aid"] o by simp
  have p5: "passo \<lparr>banco = d, em_curso = [?LA, ?LB]\<rparr> \<lparr>banco = d1, em_curso = [?LB]\<rparr>"
    using passo.conclui [of 0 "\<lparr>banco = d, em_curso = [?LA, ?LB]\<rparr>"]
    by (simp add: d1_def remover_def del: executar.simps)
  have p6: "passo \<lparr>banco = d1, em_curso = [?LB]\<rparr> \<lparr>banco = d2, em_curso = []\<rparr>"
    using passo.conclui [of 0 "\<lparr>banco = d1, em_curso = [?LB]\<rparr>"]
    by (simp add: d2_def remover_def del: executar.simps)
  have e1: "d1 = (salvar_usuario d uid (?u\<lparr>saldo := saldo ?u + valor_investido ?a * of_int n\<rparr>))
                  \<lparr>apostas := (apostas d)[aid := ?a\<lparr>ganhou := Some True\<rparr>]\<rparr>"
    using assms(3-5) by (simp add: d1_def processar_lido_def Let_def)
  have e2: "d2 = d1\<lparr>apostas := (apostas d1)[aid := ?a\<lparr>ganhou := Some False\<rparr>]\<rparr>"
    using assms(3-6) by (simp add: d2_def processar_lido_def)
  have "saldo_de d2 uid = saldo_de d uid + valor_investido ?a * of_int n"
    using assms(1) by (simp add: e2 e1 saldo_de_nth)
  moreover have "ganhou (apostas d2 ! aid) = Some False"
    using assms(2) by (simp add: e2 e1)
  moreover have "passo\<^sup>*\<^sup>* \<lparr>banco = d, em_curso = []\<rparr> \<lparr>banco = d2, em_curso = []\<rparr>"
    using passos_4 [OF p1 p2 p3 p4] p5 p6 by (meson rtranclp.rtrancl_into_rtrancl)
  ultimately show ?thesis by blast
qed

theorem alcancavel_ok_witness:
  "sistema_ok \<lparr>banco = banca_exemplo, em_curso = [PedJogo (Some 0)]\<rparr>"
proof -
  have "passo \<lparr>banco = banca_exemplo, em_curso = []\<rparr> \<lparr>banco = banca_exemplo, em_curso = [PedJogo (Some 0)]\<rparr>"
    using passo.chega_jogo [of "\<lparr>banco = banca_exemplo, em_curso = []\<rparr>"]
    by (simp add: banca_exemplo_def ultima_ativa_def)
  moreover have "sistema_ok \<lparr>banco = banca_exemplo, em_curso = []\<rparr>"
    by (simp add: sistema_ok_def integro_def banca_exemplo_def)
  ultimately show ?thesis using alcancavel_ok [OF r_into_rtranclp] by blast
qed

theorem aposta_concorrente_perde_debito_witness:
  "\<exists>d'. passo\<^sup>*\<^sup>* \<lparr>banco = banca_exemplo, em_curso = []\<rparr> \<lparr>banco = d', em_curso = []\<rparr> \<and>
        saldo_de d' 0 = 200 \<and>
        map (\<lambda>a. (ap_usuario a, valor_investido a)) (apostas d') = [(0, 800), (0, 800)]"
  using aposta_concorrente_perde_debito [of 0 banca_exemplo 800 800]
  by (simp add: banca_exemplo_def saldo_de_def obter_def)

theorem rodada_duplicada_witness:
  "\<exists>d'. passo\<^sup>*\<^sup>* \<lparr>banco = banca_exemplo\<lparr>rodadas := []\<rparr>, em_curso = []\<rparr> \<lparr>banco = d', em_curso = []\<rparr> \<and>
        \<not> uma_ativa (rodadas d')"
  using rodada_duplicada [of "banca_exemplo\<lparr>rodadas := []\<rparr>"] by auto

theorem confirmacao_concorrente_witness:
  "\<exists>d'. passo\<^sup>*\<^sup>* \<lparr>banco = rodada_cheia, em_curso = []\<rparr> \<lparr>banco = d', em_curso = []\<rparr> \<and>
        saldo_de d' 1 = saldo_de rodada_cheia 1 + 200 \<and> ganhou (apostas d' ! 1) = Some False"
  using confirmacao_concorrente [of 1 rodada_cheia 1 2 3]
  by (simp add: rodada_cheia_def banca_exemplo_def)

text \<open>C31: a rejected withdrawal is not refunded. The balance is debited when the
  request is made; when the admin then sets the withdrawal's status to
  \<open>REJEITADO\<close> in the changelist, only the row changes, and the amount stays taken
  from the account and from the sum of balances.\<close>

theorem saque_rejeitado_sem_estorno:
  assumes "uid < length (usuarios d)" and "2500 \<le> v" and "v \<le> saldo (usuarios d ! uid)"
  shows "\<exists>d'. passo\<^sup>*\<^sup>* \<lparr>banco = d, em_curso = []\<rparr> \<lparr>banco = d', em_curso = []\<rparr> \<and>
            saques d' = saques d @ [\<lparr>saque_usuario = uid, saque_valor = v, saque_status = ''REJEITADO''\<rparr>] \<and>
            saldo_de d' uid = saldo_de d uid - v \<and> total_saldos d' = total_saldos d - v"
proof -
  let ?u = "usuarios d ! uid"
  let ?q = "PedSaque uid ?u (Some v)"
  let ?sq = "\<lparr>saque_usuario = uid, saque_valor = v, saque_status = ''PENDENTE''\<rparr>"
  define d1 where "d1 = executar d ?q"
  have e1: "d1 = salvar_usuario (d\<lparr>saques := saques d @ [?sq]\<rparr>) uid (?u\<lparr>saldo := saldo ?u - v\<rparr>)"
    using assms(2,3) by (simp add: d1_def sacar_def)
  define d2 where "d2 = d1\<lparr>saques := (saques d1)[length (saques d) := (saques d1 ! length (saques d))\<lparr>saque_status := ''REJEITADO''\<rparr>]\<rparr>"
  have p1: "passo \<lparr>banco = d, em_curso = []\<rparr> \<lparr>banco = d, em_curso = [?q]\<rparr>"
    using passo.chega_saque [of uid "\<lparr>banco = d, em_curso = []\<rparr>" "Some v"] assms(1) by simp
  have p2: "passo \<lparr>banco = d, em_curso = [?q]\<rparr> \<lparr>banco = d1, em_curso = []\<rparr>"
    using passo.conclui [of 0 "\<lparr>banco = d, em_curso = [?q]\<rparr>"] by (simp add: d1_def remover_def del: executar.simps)
  have p3: "passo \<lparr>banco = d1, em_curso = []\<rparr> \<lparr>banco = d2, em_curso = []\<rparr>"
    using passo.admin_saque [of "length (saques d)" "\<lparr>banco = d1, em_curso = []\<rparr>" "''REJEITADO''"]
    by (simp add: d2_def e1)
  have "saques d2 = saques d @ [\<lparr>saque_usuario = uid, saque_valor = v, saque_status = ''REJEITADO''\<rparr>]"
    by (simp add: d2_def e1)
  moreover have "saldo_de d2 uid = saldo_de d uid - v"
    using assms(1) by (simp add: d2_def e1 saldo_de_nth store_simps)
  moreover have "total_saldos d2 = total_saldos d1" by (simp add: d2_def total_saldos_def)
  then have "total_saldos d2 = total_saldos d - v"
    using assms(1) by (simp add: e1 store_simps)
  ultimately show ?thesis using p1 p2 p3 by (meson r_into_rtranclp rtranclp_trans)
qed

theorem saque_rejeitado_sem_estorno_witness:
  "\<exists>d'. passo\<^sup>*\<^sup>* \<lparr>banco = banca_saque, em_curso = []\<rparr> \<lparr>banco = d', em_curso = []\<rparr> \<and>
        saldo_de d' 0 = 500 \<and> map saque_status (saques d') = [''REJEITADO'']"
proof -
  have "0 < length (usuarios banca_saque)" and "(2500::dinheiro) \<le> 2500"
    and "2500 \<le> saldo (usuarios banca_saque ! 0)" by (simp_all add: exemplo_simps)
  from saque_rejeitado_sem_estorno [OF this] obtain d' where
    a: "passo\<^sup>*\<^sup>* \<lparr>banco = banca_saque, em_curso = []\<rparr> \<lparr>banco = d', em_curso = []\<rparr>"
    and b: "saques d' = saques banca_saque @ [\<lparr>saque_usuario = 0, saque_valor = 2500, saque_status = ''REJEITADO''\<rparr>]"
    and c: "saldo_de d' 0 = saldo_de banca_saque 0 - 2500" by blast
  have "saldo_de banca_saque 0 = 3000" and "saques banca_saque = []" by (simp_all add: exemplo_simps)
  then show ?thesis using a b c by auto
qed

end
