(* ===== verification/Routing.thy ===== *)
theory Routing
  imports Payments
begin

text \<open>Settings and URL routing. \<open>ajustes_de\<close> computes the settings of core/settings.py
  from the process environment \<open>os.environ\<close> (a partial map from names to strings):
  \<open>DEBUG\<close>, \<open>SECRET_KEY\<close>, \<open>ALLOWED_HOSTS\<close> with its comma-separated extension, the
  production-only security flags and trusted origins, and the login URLs. The URL
  table is the one of core/urls.py and plataforma/urls.py; matching a request path,
  \<open>reverse\<close>, the \<open>APPEND_SLASH\<close> redirect, host validation and the redirect of
  \<open>login_required\<close> follow Django's documented behaviour for routes without
  converters.\<close>

section \<open>Settings\<close>

type_synonym ambiente = "string \<Rightarrow> string option"

record ajustes =
  debug :: bool
  secret_key :: string
  allowed_hosts :: "string list"
  secure_proxy_ssl_header :: "(string \<times> string) option"
  ssl_redirect :: bool
  session_cookie_secure :: bool
  csrf_cookie_secure :: bool
  csrf_trusted_origins :: "string list"
  login_url :: string
  login_redirect_url :: string
  logout_redirect_url :: string
  media_url :: string

definition chave_insegura :: string where
  "chave_insegura = ''django-insecure-ob&x00fwb9^4c*qu@l)6h%^vdn1u)6^yl_#s0+89fi@+t(v!)5''"

text \<open>Python's \<open>str.strip()\<close>: drop ASCII whitespace at both ends.\<close>

definition espaco :: "char \<Rightarrow> bool" where
  "espaco c \<longleftrightarrow> c = CHR '' '' \<or> (9 \<le> (of_char c :: nat) \<and> (of_char c :: nat) \<le> 13)"

definition strip_py :: "string \<Rightarrow> string" where
  "strip_py s = rev (dropWhile espaco (rev (dropWhile espaco s)))"

text \<open>Lines 15-18: the fixed hosts, extended by the stripped pieces of the variable
  \<open>ALLOWED_HOSTS\<close> when it is set and not empty.\<close>

definition hosts_de :: "ambiente \<Rightarrow> string list" where
  "hosts_de env =
     [''localhost'', ''127.0.0.1'', ''.onrender.com''] @
     (case env ''ALLOWED_HOSTS'' of
        None \<Rightarrow> []
      | Some s \<Rightarrow> if s = [] then [] else map strip_py (split_py CHR '','' s))"

definition origens_confiaveis :: "string list" where
  "origens_confiaveis = [''https://jogo-sortudo.org'', ''https://www.jogo-sortudo.org'', ''https://jogo-sortudo.onrender.com'']"

definition ajustes_de :: "ambiente \<Rightarrow> ajustes" where
  "ajustes_de env =
     (let dbg = (env ''RENDER'' = None)
      in \<lparr>debug = dbg,
          secret_key = (case env ''SECRET_KEY'' of None \<Rightarrow> chave_insegura | Some k \<Rightarrow> k),
          allowed_hosts = hosts_de env,
          secure_proxy_ssl_header = (if dbg then None else Some (''HTTP_X_FORWARDED_PROTO'', ''https'')),
          ssl_redirect = (\<not> dbg),
          session_cookie_secure = (\<not> dbg),
          csrf_cookie_secure = (\<not> dbg),
          csrf_trusted_origins = (if dbg then [] else origens_confiaveis),
          login_url = ''/login/'',
          login_redirect_url = ''/'',
          logout_redirect_url = ''/login/'',
          media_url = ''/media/''\<rparr>)"

section \<open>Host validation\<close>

text \<open>Django lower-cases the host and accepts it when a pattern is \<open>*\<close>, equals it, or
  starts with a dot and is a suffix of it (or equals it without the dot).\<close>

definition minuscula :: "char \<Rightarrow> char" where
  "minuscula c = (let n = (of_char c :: nat) in if 65 \<le> n \<and> n \<le> 90 then char_of (n + 32) else c)"

definition termina_com :: "string \<Rightarrow> string \<Rightarrow> bool" where
  "termina_com s p \<longleftrightarrow> length p \<le> length s \<and> drop (length s - length p) s = p"

definition mesmo_dominio :: "string \<Rightarrow> string \<Rightarrow> bool" where
  "mesmo_dominio host padrao \<longleftrightarrow>
     padrao \<noteq> [] \<and>
     (let p = map minuscula padrao
      in (hd p = CHR ''.'' \<and> (termina_com host p \<or> host = tl p)) \<or> p = host)"

definition host_valido :: "ajustes \<Rightarrow> string \<Rightarrow> bool" where
  "host_valido aj host =
     list_ex (\<lambda>padrao. padrao = ''*'' \<or> mesmo_dominio (map minuscula host) padrao) (allowed_hosts aj)"

section \<open>URL table\<close>

datatype visao =
  LoadingScreen | CadastroView | LoginView | LogoutView | HomeJogo | FazerAposta
| ProcessarResultado | Depositar | Sacar | PaginaConvite | HistoricoView | AdminSite | MediaServe

text \<open>plataforma/urls.py: route, view and name of each \<open>path(...)\<close>.\<close>

definition plataforma_urls :: "(string \<times> visao \<times> string) list" where
  "plataforma_urls =
     [('''', LoadingScreen, ''loading''),
      (''cadastro/'', CadastroView, ''cadastro''),
      (''login/'', LoginView, ''login''),
      (''logout/'', LogoutView, ''logout''),
      (''jogo/'', HomeJogo, ''home_jogo''),
      (''apostar/'', FazerAposta, ''fazer_aposta''),
      (''processar-resultado/'', ProcessarResultado, ''processar_resultado''),
      (''depositar/'', Depositar, ''depositar''),
      (''sacar/'', Sacar, ''sacar''),
      (''convite/'', PaginaConvite, ''convite''),
      (''historico/'', HistoricoView, ''historico'')]"

datatype padrao = Exato string visao | Prefixo string visao

text \<open>core/urls.py: the admin site under \<open>admin/\<close>, the platform's routes included
  under the empty prefix, and \<open>static(MEDIA_URL, ...)\<close>, which adds a route only when
  \<open>DEBUG\<close> is on.\<close>

definition core_urls :: "ajustes \<Rightarrow> padrao list" where
  "core_urls aj =
     [Prefixo ''admin/'' AdminSite] @
     map (\<lambda>(p, v, _). Exato ('''' @ p) v) plataforma_urls @
     (if debug aj then [Prefixo (dropWhile (\<lambda>c. c = CHR ''/'') (media_url aj)) MediaServe] else [])"

fun casar :: "padrao list \<Rightarrow> string \<Rightarrow> visao option" where
  "casar [] r = None"
| "casar (Exato p v # ps) r = (if r = p then Some v else casar ps r)"
| "casar (Prefixo p v # ps) r = (if take (length p) r = p then Some v else casar ps r)"

definition resolver :: "ajustes \<Rightarrow> string \<Rightarrow> visao option" where
  "resolver aj caminho = (case caminho of c # r \<Rightarrow> if c = CHR ''/'' then casar (core_urls aj) r else None | [] \<Rightarrow> None)"

definition reverse :: "string \<Rightarrow> string option" where
  "reverse nome = map_option (\<lambda>(p, _, _). ''/'' @ p) (find (\<lambda>(_, _, n). n = nome) plataforma_urls)"

text \<open>What a request path leads to: a view, the \<open>APPEND_SLASH\<close> redirect of
  \<open>CommonMiddleware\<close> when only the path with a trailing slash matches, or 404.\<close>

datatype despacho = Despacha visao | RedirecionaBarra string | NaoEncontrado

definition despachar :: "ajustes \<Rightarrow> string \<Rightarrow> despacho" where
  "despachar aj caminho =
     (case resolver aj caminho of
        Some v \<Rightarrow> Despacha v
      | None \<Rightarrow>
          if caminho \<noteq> [] \<and> last caminho \<noteq> CHR ''/'' \<and> resolver aj (caminho @ ''/'') \<noteq> None
          then RedirecionaBarra (caminho @ ''/'') else NaoEncontrado)"

section \<open>Access to the views\<close>

text \<open>The views decorated with \<open>login_required\<close> in views.py.\<close>

fun protegida :: "visao \<Rightarrow> bool" where
  "protegida HomeJogo = True"
| "protegida FazerAposta = True"
| "protegida ProcessarResultado = True"
| "protegida Depositar = True"
| "protegida Sacar = True"
| "protegida PaginaConvite = True"
| "protegida HistoricoView = True"
| "protegida _ = False"

datatype acesso = Executa visao | RedirecionaLogin string

text \<open>An anonymous request to a protected view is redirected to \<open>LOGIN_URL\<close> with the
  requested path as \<open>next\<close>.\<close>

definition acessar :: "ajustes \<Rightarrow> bool \<Rightarrow> visao \<Rightarrow> string \<Rightarrow> acesso" where
  "acessar aj autenticado v caminho =
     (if protegida v \<and> \<not> autenticado then RedirecionaLogin (login_url aj @ ''?next='' @ caminho)
      else Executa v)"

text \<open>The path part of a redirect target, before the query string.\<close>

definition caminho_de :: "string \<Rightarrow> string" where
  "caminho_de url = takeWhile (\<lambda>c. c \<noteq> CHR ''?'') url"

section \<open>Lemmas\<close>

lemma ajustes_de_campos [simp]:
  "debug (ajustes_de env) = (env ''RENDER'' = None)"
  "secret_key (ajustes_de env) = (case env ''SECRET_KEY'' of None \<Rightarrow> chave_insegura | Some k \<Rightarrow> k)"
  "allowed_hosts (ajustes_de env) = hosts_de env"
  "secure_proxy_ssl_header (ajustes_de env) =
     (if env ''RENDER'' = None then None else Some (''HTTP_X_FORWARDED_PROTO'', ''https''))"
  "ssl_redirect (ajustes_de env) = (env ''RENDER'' \<noteq> None)"
  "session_cookie_secure (ajustes_de env) = (env ''RENDER'' \<noteq> None)"
  "csrf_cookie_secure (ajustes_de env) = (env ''RENDER'' \<noteq> None)"
  "csrf_trusted_origins (ajustes_de env) = (if env ''RENDER'' = None then [] else origens_confiaveis)"
  "login_url (ajustes_de env) = ''/login/''"
  "login_redirect_url (ajustes_de env) = ''/''"
  "logout_redirect_url (ajustes_de env) = ''/login/''"
  "media_url (ajustes_de env) = ''/media/''"
  by (simp_all add: ajustes_de_def Let_def)

lemmas rotas_simps = resolver_def core_urls_def plataforma_urls_def reverse_def

section \<open>Properties\<close>

text \<open>C29: the production settings. When the process runs on Render (\<open>RENDER\<close> set)
  without \<open>SECRET_KEY\<close> and \<open>ALLOWED_HOSTS\<close>, debugging is off and HTTPS is enforced,
  but the secret key is the insecure default committed in settings.py; the custom
  domain jogo-sortudo.org is a trusted CSRF origin yet fails host validation, while
  every Render host passes; and no uploaded file under \<open>/media/\<close> is served, since
  \<open>static()\<close> adds its route only in debug mode.\<close>

theorem producao_ajustes:
  assumes "env ''RENDER'' \<noteq> None" and "env ''SECRET_KEY'' = None" and "env ''ALLOWED_HOSTS'' = None"
  shows "\<not> debug (ajustes_de env) \<and> ssl_redirect (ajustes_de env) \<and> session_cookie_secure (ajustes_de env) \<and>
    secret_key (ajustes_de env) = chave_insegura \<and>
    ''https://jogo-sortudo.org'' \<in> set (csrf_trusted_origins (ajustes_de env)) \<and>
    \<not> host_valido (ajustes_de env) ''jogo-sortudo.org'' \<and>
    host_valido (ajustes_de env) ''jogo-sortudo.onrender.com'' \<and>
    resolver (ajustes_de env) (''/media/'' @ f) = None"
  using assms
  by (simp add: hosts_de_def host_valido_def mesmo_dominio_def termina_com_def minuscula_def
      origens_confiaveis_def rotas_simps)

theorem producao_ajustes_witness:
  "\<not> host_valido (ajustes_de (Map.empty(''RENDER'' \<mapsto> ''true''))) ''jogo-sortudo.org'' \<and>
   resolver (ajustes_de (Map.empty(''RENDER'' \<mapsto> ''true''))) ''/media/comprovativos/recibo.png'' = None"
  using producao_ajustes [of "Map.empty(''RENDER'' \<mapsto> ''true'')" "''comprovativos/recibo.png''"] by simp

end
