(* ===== verification/Auth.thy ===== *)
theory Auth
  imports Referral
begin

text \<open>Accounts and login. \<open>Usuario\<close> extends Django's \<open>AbstractUser\<close>; the fields the
  authentication reads (the password, \<open>is_active\<close>, \<open>is_staff\<close>, \<open>is_superuser\<close>) are
  kept in a table \<open>credenciais\<close> indexed like \<open>usuarios\<close>. A password is stored as
  \<open>Some p\<close>, or \<open>None\<close> for the unusable password \<open>set_password(None)\<close> installs; the
  hash is abstracted to the password itself, so \<open>check_password\<close> is equality.
  \<open>criar_usuario\<close> is \<open>UsuarioManager.create_user\<close> (models.py 8-13),
  \<open>criar_superusuario\<close> its \<open>create_superuser\<close> (15-18), \<open>autenticar\<close> the
  \<open>ModelBackend\<close> that \<open>authenticate(request, telefone=..., password=...)\<close> runs, and
  \<open>login_view\<close> the view of views.py 51-63.\<close>

record credencial =
  senha :: "string option"
  is_staff :: bool
  is_superuser :: bool
  is_active :: bool

text \<open>\<open>create_user\<close>: an empty phone raises \<open>ValueError\<close>; the \<open>unique=True\<close> phone
  column makes a second account with the same phone an \<open>IntegrityError\<close>; both are
  500s. Otherwise the row is added with the model defaults and the password set.\<close>

definition criar_usuario ::
  "db \<Rightarrow> credencial list \<Rightarrow> string \<Rightarrow> string option \<Rightarrow> bool \<Rightarrow> erro + (pk \<times> db \<times> credencial list)" where
  "criar_usuario d cs tel pw staff =
     (if tel = [] then Inl ErroInterno
      else if list_ex (\<lambda>u. telefone u = tel) (usuarios d) then Inl ErroInterno
      else Inr (length (usuarios d),
                d\<lparr>usuarios := usuarios d @ [\<lparr>telefone = tel, pais = ''Angola'', convidado_por = None, saldo = 0\<rparr>]\<rparr>,
                cs @ [\<lparr>senha = pw, is_staff = staff, is_superuser = staff, is_active = True\<rparr>]))"

definition criar_superusuario ::
  "db \<Rightarrow> credencial list \<Rightarrow> string \<Rightarrow> string option \<Rightarrow> erro + (pk \<times> db \<times> credencial list)" where
  "criar_superusuario d cs tel pw = criar_usuario d cs tel pw True"

text \<open>\<open>ModelBackend.authenticate\<close>: no phone, an unknown phone, a wrong or unusable
  password, or an inactive account give no user.\<close>

definition autenticar :: "db \<Rightarrow> credencial list \<Rightarrow> string option \<Rightarrow> string option \<Rightarrow> pk option" where
  "autenticar d cs tel pw =
     (case tel of
        None \<Rightarrow> None
      | Some t \<Rightarrow>
          (case procurar_telefone (usuarios d) t of
             None \<Rightarrow> None
           | Some uid \<Rightarrow>
               (let c = cs ! uid
                in if pw \<noteq> None \<and> senha c = pw \<and> is_active c then Some uid else None)))"

datatype resposta_login = LoginFeito pk | LoginFalhou | FormularioLogin

definition login_view ::
  "db \<Rightarrow> credencial list \<Rightarrow> metodo_http \<Rightarrow> string option \<Rightarrow> string option \<Rightarrow> resposta_login" where
  "login_view d cs m tel_post senha_post =
     (if m = POST then
        (case autenticar d cs tel_post senha_post of
           Some uid \<Rightarrow> LoginFeito uid
         | None \<Rightarrow> LoginFalhou)
      else FormularioLogin)"

text \<open>Registration with its password: \<open>cadastro_view\<close> on the account table, and the
  row \<open>create_user\<close> writes into the credentials table when an account is created.\<close>

definition registrar ::
  "db \<Rightarrow> credencial list \<Rightarrow> string \<Rightarrow> string \<Rightarrow> string \<Rightarrow> string \<Rightarrow> erro + (resposta_cadastro \<times> db \<times> credencial list)" where
  "registrar d cs tel pw p conv =
     (case cadastro_view d POST tel p conv of
        Inl e \<Rightarrow> Inl e
      | Inr (CadastroFeito uid, d') \<Rightarrow>
          Inr (CadastroFeito uid, d', cs @ [\<lparr>senha = Some pw, is_staff = False, is_superuser = False, is_active = True\<rparr>])
      | Inr (r, d') \<Rightarrow> Inr (r, d', cs))"

definition credenciais_exemplo :: "credencial list" where
  "credenciais_exemplo =
     [\<lparr>senha = Some ''admin123'', is_staff = True, is_superuser = True, is_active = True\<rparr>,
      \<lparr>senha = Some ''ana2024'', is_staff = False, is_superuser = False, is_active = True\<rparr>]"

text \<open>\<open>AUTH_PASSWORD_VALIDATORS\<close> (settings.py 72-77) as \<open>validate_password\<close> would
  apply them: \<open>MinimumLengthValidator\<close> (8 characters), \<open>NumericPasswordValidator\<close>
  (not \<open>str.isdigit()\<close>, which is false on the empty string) and
  \<open>CommonPasswordValidator\<close> against its list (lower-cased), a parameter here. The
  similarity validator is left out, so this predicate accepts at least what Django
  accepts and a password it refuses is refused by Django too.\<close>

definition minuscula_senha :: "char \<Rightarrow> char" where
  "minuscula_senha c =
     (let n = (of_char c :: nat) in if 65 \<le> n \<and> n \<le> 90 then char_of (n + 32) else c)"

definition validar_senha :: "string list \<Rightarrow> string \<Rightarrow> bool" where
  "validar_senha comuns pw \<longleftrightarrow>
     8 \<le> length pw \<and> \<not> (pw \<noteq> [] \<and> list_all digito pw) \<and> map minuscula_senha pw \<notin> set comuns"

section \<open>Lemmas\<close>

lemma cadastro_view_feito:
  assumes "cadastro_view d m tel p conv = Inr (CadastroFeito uid, d')"
  shows "uid = length (usuarios d) \<and> \<not> list_ex (\<lambda>u. telefone u = tel) (usuarios d) \<and>
         (\<exists>u. usuarios d' = usuarios d @ [u] \<and> telefone u = tel)"
  using assms by (auto simp: cadastro_view_def Let_def salvar_usuario_def split: if_splits)

lemma registrar_feito:
  assumes "registrar d cs tel pw p conv = Inr (CadastroFeito uid, d', cs')"
  shows "cadastro_view d POST tel p conv = Inr (CadastroFeito uid, d') \<and>
         cs' = cs @ [\<lparr>senha = Some pw, is_staff = False, is_superuser = False, is_active = True\<rparr>]"
  using assms
  by (auto simp: registrar_def split: sum.splits prod.splits resposta_cadastro.splits)

text \<open>Registration never consults the validators: \<open>cadastro_view\<close> hands the posted
  password to \<open>create_user\<close>, so an account is created with the one-character
  password \<open>1\<close>, which the configured validators refuse, and logs in with it.\<close>

theorem senha_fraca_aceita:
  "\<not> validar_senha comuns ''1'' \<and>
   (\<exists>d' cs'. registrar banca_exemplo credenciais_exemplo ''923000003'' ''1'' ''Angola'' '''' =
              Inr (CadastroFeito 2, d', cs') \<and>
            login_view d' cs' POST (Some ''923000003'') (Some ''1'') = LoginFeito 2)"
  by (simp add: validar_senha_def digito_def registrar_def cadastro_view_def Let_def banca_exemplo_def
      credenciais_exemplo_def login_view_def autenticar_def salvar_usuario_def procurar_telefone_def nth_append)

section \<open>Properties\<close>

text \<open>C30: an account registered through the platform can log in with its phone and
  password and gets its own key; any other password, or a request without the
  phone field, is refused.\<close>

theorem login_apos_cadastro:
  assumes "length cs = length (usuarios d)"
    and "registrar d cs tel pw p conv = Inr (CadastroFeito uid, d', cs')"
  shows "login_view d' cs' POST (Some tel) (Some pw) = LoginFeito uid \<and>
         (pw' \<noteq> pw \<longrightarrow> login_view d' cs' POST (Some tel) (Some pw') = LoginFalhou) \<and>
         login_view d' cs' POST None (Some pw) = LoginFalhou"
proof -
  note r = registrar_feito [OF assms(2)]
  obtain u where u: "usuarios d' = usuarios d @ [u]" "telefone u = tel"
    and uid: "uid = length (usuarios d)" and novo: "\<not> list_ex (\<lambda>u. telefone u = tel) (usuarios d)"
    using cadastro_view_feito [OF conjunct1 [OF r]] by blast
  have "procurar_telefone (usuarios d') tel = Some uid"
    using procurar_telefone_novo [OF novo u(2)] u(1) uid by simp
  moreover have "cs' ! uid = \<lparr>senha = Some pw, is_staff = False, is_superuser = False, is_active = True\<rparr>"
    using r assms(1) uid by (simp add: nth_append)
  ultimately show ?thesis by (auto simp: login_view_def autenticar_def)
qed

theorem login_apos_cadastro_witness:
  "\<exists>d' cs'. registrar banca_exemplo credenciais_exemplo ''923000003'' ''segredo'' ''Angola'' '''' =
              Inr (CadastroFeito 2, d', cs') \<and>
            login_view d' cs' POST (Some ''923000003'') (Some ''segredo'') = LoginFeito 2 \<and>
            login_view d' cs' POST (Some ''923000003'') (Some ''ana2024'') = LoginFalhou"
proof -
  have "\<exists>d' cs'. registrar banca_exemplo credenciais_exemplo ''923000003'' ''segredo'' ''Angola'' '''' =
              Inr (CadastroFeito 2, d', cs')"
    by (simp add: registrar_def cadastro_view_def Let_def banca_exemplo_def)
  then obtain d' cs' where r: "registrar banca_exemplo credenciais_exemplo ''923000003'' ''segredo'' ''Angola'' '''' =
              Inr (CadastroFeito 2, d', cs')" by blast
  have l: "length credenciais_exemplo = length (usuarios banca_exemplo)"
    by (simp add: credenciais_exemplo_def banca_exemplo_def)
  show ?thesis using login_apos_cadastro [OF l r, of "''ana2024''"] r by simp
qed

end
