(* ===== verification/Admin.thy ===== *)
theory Admin
  imports Prelude
begin

text \<open>The admin site's configuration and its typing against the models. Each
  \<open>@admin.register\<close> of admin.py is a record \<open>registro_admin\<close> holding the
  \<open>ModelAdmin\<close>'s options (\<open>list_display\<close>, \<open>list_display_links\<close> at Django's
  default \<open>()\<close>, \<open>list_editable\<close>, \<open>list_filter\<close>, \<open>search_fields\<close>, \<open>actions\<close>) and the
  names of the methods its class defines. Each model class of models.py is its
  field table: the declared fields, the implicit primary key \<open>id\<close>, the fields
  \<open>Usuario\<close> inherits from \<open>AbstractUser\<close> (without \<open>username\<close>, which it sets to
  \<open>None\<close>), and the reverse relations the foreign keys create. The checks are the
  ones Django runs on these options: the system checks \<open>admin.E108\<close>, \<open>E109\<close>,
  \<open>E116\<close>, \<open>E121\<close>-\<open>E125\<close> and \<open>E130\<close> at start-up, \<open>AlreadyRegistered\<close> at import, and
  the lookup a search term makes at request time, whose failure is a
  \<open>FieldError\<close>.\<close>

datatype tipo_campo =
    CAuto | CChar | CTexto | CUrl | CEmail | CImagem | CDecimal | CInteiro | CBool | CDataHora
  | CChave string | CMuitos string | CReverso string

record campo =
  nome_campo :: string
  tipo :: tipo_campo
  editavel :: bool

type_synonym modelos = "(string \<times> campo list) list"

record registro_admin =
  modelo :: string
  list_display :: "string list"
  list_display_links :: "string list"
  list_editable :: "string list"
  list_filter :: "string list"
  search_fields :: "string list"
  actions :: "string list"
  metodos_admin :: "string list"

datatype erro_admin =
    E108 string string | E109 string string | E116 string string
  | E121 string string | E122 string string | E123 string string | E124 string string
  | E125 string string | E130 string | AcaoInexistente string string
  | BuscaInvalida string string | ModeloInexistente string | AlreadyRegistered string

text \<open>A field the developer declares is editable; \<open>auto_now_add=True\<close> makes it
  \<open>editable=False\<close>, as do the reverse relations.\<close>

definition campo_ed :: "string \<Rightarrow> tipo_campo \<Rightarrow> campo" where
  "campo_ed n t = \<lparr>nome_campo = n, tipo = t, editavel = True\<rparr>"

definition campo_fixo :: "string \<Rightarrow> tipo_campo \<Rightarrow> campo" where
  "campo_fixo n t = \<lparr>nome_campo = n, tipo = t, editavel = False\<rparr>"

definition id_auto :: campo where
  "id_auto = campo_ed ''id'' CAuto"

subsection \<open>Field tables of models.py\<close>

definition campos_usuario :: "campo list" where
  "campos_usuario =
     [id_auto, campo_ed ''password'' CChar, campo_ed ''last_login'' CDataHora,
      campo_ed ''is_superuser'' CBool, campo_ed ''groups'' (CMuitos ''Group''),
      campo_ed ''user_permissions'' (CMuitos ''Permission''), campo_ed ''first_name'' CChar,
      campo_ed ''last_name'' CChar, campo_ed ''email'' CEmail, campo_ed ''is_staff'' CBool,
      campo_ed ''is_active'' CBool, campo_ed ''date_joined'' CDataHora,
      campo_ed ''telefone'' CChar, campo_ed ''pais'' CChar, campo_ed ''codigo_convite'' CChar,
      campo_ed ''convidado_por'' (CChave ''Usuario''), campo_ed ''saldo'' CDecimal,
      campo_fixo ''subordinados'' (CReverso ''Usuario''), campo_fixo ''deposito'' (CReverso ''Deposito''),
      campo_fixo ''saque'' (CReverso ''Saque''), campo_fixo ''aposta'' (CReverso ''Aposta'')]"

definition campos_metodo_banco :: "campo list" where
  "campos_metodo_banco =
     [id_auto, campo_ed ''nome_banco'' CChar, campo_ed ''titular'' CChar,
      campo_ed ''iban'' CChar, campo_ed ''ativo'' CBool]"

definition campos_metodo_express :: "campo list" where
  "campos_metodo_express =
     [id_auto, campo_ed ''nome_servico'' CChar, campo_ed ''numero_telefone'' CChar,
      campo_ed ''ativo'' CBool]"

definition campos_metodo_referencia :: "campo list" where
  "campos_metodo_referencia =
     [id_auto, campo_ed ''empresa'' CChar, campo_ed ''entidade'' CChar,
      campo_ed ''referencia'' CChar, campo_ed ''ativo'' CBool]"

definition campos_deposito :: "campo list" where
  "campos_deposito =
     [id_auto, campo_ed ''usuario'' (CChave ''Usuario''), campo_ed ''metodo'' CChar,
      campo_ed ''valor'' CDecimal, campo_ed ''comprovativo'' CImagem,
      campo_ed ''nome_depositante'' CChar, campo_fixo ''data_criacao'' CDataHora,
      campo_ed ''status'' CChar]"

definition campos_saque :: "campo list" where
  "campos_saque =
     [id_auto, campo_ed ''usuario'' (CChave ''Usuario''), campo_ed ''valor'' CDecimal,
      campo_ed ''status'' CChar, campo_fixo ''data_pedido'' CDataHora]"

definition campos_rodada :: "campo list" where
  "campos_rodada =
     [id_auto, campo_ed ''numero_sorteado'' CInteiro, campo_ed ''ativa'' CBool,
      campo_fixo ''data_inicio'' CDataHora, campo_fixo ''apostas'' (CReverso ''Aposta'')]"

definition campos_aposta :: "campo list" where
  "campos_aposta =
     [id_auto, campo_ed ''usuario'' (CChave ''Usuario''), campo_ed ''rodada'' (CChave ''Rodada''),
      campo_ed ''valor_escolhido'' CInteiro, campo_ed ''valor_investido'' CDecimal,
      campo_ed ''ganhou'' CBool]"

definition campos_configuracao :: "campo list" where
  "campos_configuracao =
     [id_auto, campo_ed ''link_whatsapp'' CUrl, campo_ed ''instrucoes_jogo'' CTexto,
      campo_ed ''valores_pre_definidos'' CChar]"

definition modelos_plataforma :: modelos where
  "modelos_plataforma =
     [(''Usuario'', campos_usuario), (''MetodoBanco'', campos_metodo_banco),
      (''MetodoExpress'', campos_metodo_express), (''MetodoReferencia'', campos_metodo_referencia),
      (''Deposito'', campos_deposito), (''Saque'', campos_saque), (''Rodada'', campos_rodada),
      (''Aposta'', campos_aposta), (''ConfiguracaoSistema'', campos_configuracao)]"

subsection \<open>Registrations of admin.py\<close>

definition registro :: "string \<Rightarrow> string list \<Rightarrow> registro_admin" where
  "registro m ld = \<lparr>modelo = m, list_display = ld, list_display_links = [], list_editable = [],
                    list_filter = [], search_fields = [], actions = [], metodos_admin = []\<rparr>"

definition metodo_banco_admin :: registro_admin where
  "metodo_banco_admin =
     (registro ''MetodoBanco'' [''nome_banco'', ''titular'', ''iban'', ''ativo''])\<lparr>list_editable := [''ativo'']\<rparr>"

definition metodo_express_admin :: registro_admin where
  "metodo_express_admin =
     (registro ''MetodoExpress'' [''nome_servico'', ''numero_telefone'', ''ativo''])\<lparr>list_editable := [''ativo'']\<rparr>"

definition metodo_referencia_admin :: registro_admin where
  "metodo_referencia_admin =
     (registro ''MetodoReferencia'' [''empresa'', ''entidade'', ''referencia'', ''ativo''])\<lparr>list_editable := [''ativo'']\<rparr>"

definition configuracao_admin :: registro_admin where
  "configuracao_admin = registro ''ConfiguracaoSistema'' [''link_whatsapp'', ''valores_pre_definidos'']"

definition usuario_admin :: registro_admin where
  "usuario_admin =
     (registro ''Usuario'' [''telefone'', ''saldo'', ''convidado_por'', ''pais''])\<lparr>search_fields := [''telefone'']\<rparr>"

definition deposito_admin :: registro_admin where
  "deposito_admin =
     (registro ''Deposito'' [''usuario'', ''valor'', ''metodo'', ''status'', ''data_criacao''])
       \<lparr>list_filter := [''status'', ''metodo''], actions := [''aprovar_deposito''],
        metodos_admin := [''aprovar_deposito'']\<rparr>"

definition aposta_admin :: registro_admin where
  "aposta_admin =
     (registro ''Aposta'' [''usuario'', ''rodada'', ''valor_investido'', ''valor_escolhido'', ''ganhou''])
       \<lparr>list_filter := [''ganhou'', ''rodada''], metodos_admin := [''changelist_view'']\<rparr>"

definition rodada_admin :: registro_admin where
  "rodada_admin = registro ''Rodada'' [''id'', ''numero_sorteado'', ''ativa'', ''data_inicio'']"

definition saque_admin :: registro_admin where
  "saque_admin =
     (registro ''Saque'' [''usuario'', ''valor'', ''dados_para_pagamento'', ''status'', ''data_pedido''])
       \<lparr>list_filter := [''status''], list_editable := [''status''], search_fields := [''usuario__telefone''],
        metodos_admin := [''dados_para_pagamento'']\<rparr>"

definition admin_plataforma :: "registro_admin list" where
  "admin_plataforma =
     [metodo_banco_admin, metodo_express_admin, metodo_referencia_admin, configuracao_admin,
      usuario_admin, deposito_admin, aposta_admin, rodada_admin, saque_admin]"

subsection \<open>Django's checks of the options\<close>

text \<open>\<open>_meta.get_field(name)\<close> on a model of the table.\<close>

definition campo_de :: "modelos \<Rightarrow> string \<Rightarrow> string \<Rightarrow> campo option" where
  "campo_de ms m n =
     (case map_of ms m of
        None \<Rightarrow> None
      | Some fs \<Rightarrow> find (\<lambda>f. nome_campo f = n) fs)"

text \<open>The model a relation leads to (\<open>get_model_from_relation\<close>), and the relations
  \<open>admin.E109\<close> refuses in \<open>list_display\<close>: many-to-many fields and reverse
  foreign keys.\<close>

fun alvo :: "tipo_campo \<Rightarrow> string option" where
  "alvo (CChave m) = Some m"
| "alvo (CMuitos m) = Some m"
| "alvo (CReverso m) = Some m"
| "alvo _ = None"

fun multiplo :: "tipo_campo \<Rightarrow> bool" where
  "multiplo (CMuitos _) = True"
| "multiplo (CReverso _) = True"
| "multiplo _ = False"

text \<open>\<open>path.split(LOOKUP_SEP)\<close>, Python's \<open>str.split('__')\<close>, scanning left to right.\<close>

fun dividir_lookup :: "string \<Rightarrow> string \<Rightarrow> string list" where
  "dividir_lookup acc [] = [rev acc]"
| "dividir_lookup acc [c] = [rev (c # acc)]"
| "dividir_lookup acc (c # d # r) =
     (if c = CHR ''_'' \<and> d = CHR ''_'' then rev acc # dividir_lookup [] r
      else dividir_lookup (c # acc) (d # r))"

text \<open>\<open>get_fields_from_path\<close>: every piece but the last must be a relation, and
  the next piece is looked up on the model it leads to.\<close>

fun caminho :: "modelos \<Rightarrow> string \<Rightarrow> string list \<Rightarrow> campo option" where
  "caminho ms m [] = None"
| "caminho ms m [n] = campo_de ms m n"
| "caminho ms m (n # n' # ns) =
     (case campo_de ms m n of
        None \<Rightarrow> None
      | Some f \<Rightarrow> (case alvo (tipo f) of None \<Rightarrow> None | Some m' \<Rightarrow> caminho ms m' (n' # ns)))"

text \<open>\<open>construct_search\<close>: a leading \<open>^\<close>, \<open>=\<close> or \<open>@\<close> selects the lookup and is
  dropped; the rest gets \<open>__icontains\<close>, which fails unless the path ends on a
  field that is not a relation.\<close>

definition termo_busca :: "string \<Rightarrow> string" where
  "termo_busca s = (case s of [] \<Rightarrow> [] | c # r \<Rightarrow> if c \<in> set ''^=@'' then r else s)"

definition erros_display :: "modelos \<Rightarrow> registro_admin \<Rightarrow> erro_admin list" where
  "erros_display ms r =
     concat (map (\<lambda>i. if i \<in> set (metodos_admin r) then []
                      else (case campo_de ms (modelo r) i of
                              None \<Rightarrow> [E108 (modelo r) i]
                            | Some f \<Rightarrow> if multiplo (tipo f) then [E109 (modelo r) i] else []))
                 (list_display r))"

definition erros_editable :: "modelos \<Rightarrow> registro_admin \<Rightarrow> erro_admin list" where
  "erros_editable ms r =
     concat (map (\<lambda>i. case campo_de ms (modelo r) i of
                        None \<Rightarrow> [E121 (modelo r) i]
                      | Some f \<Rightarrow>
                          if i \<notin> set (list_display r) then [E122 (modelo r) i]
                          else if list_display_links r \<noteq> [] \<and> i \<in> set (list_display_links r) then [E123 (modelo r) i]
                          else if list_display_links r = [] \<and> hd (list_display r) = i then [E124 (modelo r) i]
                          else if \<not> editavel f \<or> tipo f = CAuto then [E125 (modelo r) i]
                          else [])
                 (list_editable r))"

definition erros_filtro :: "modelos \<Rightarrow> registro_admin \<Rightarrow> erro_admin list" where
  "erros_filtro ms r =
     concat (map (\<lambda>i. if caminho ms (modelo r) (dividir_lookup [] i) = None then [E116 (modelo r) i] else [])
                 (list_filter r))"

definition erros_busca :: "modelos \<Rightarrow> registro_admin \<Rightarrow> erro_admin list" where
  "erros_busca ms r =
     concat (map (\<lambda>s. case caminho ms (modelo r) (dividir_lookup [] (termo_busca s)) of
                        Some f \<Rightarrow> if alvo (tipo f) = None then [] else [BuscaInvalida (modelo r) s]
                      | None \<Rightarrow> [BuscaInvalida (modelo r) s])
                 (search_fields r))"

text \<open>\<open>_get_base_actions\<close>: the site-wide \<open>delete_selected\<close> first, then each name
  of \<open>actions\<close> that the class defines or the site registers; a name that is
  neither is dropped without a word, which the check \<open>AcaoInexistente\<close> reports.
  \<open>admin.E130\<close> refuses two actions with the same name.\<close>

definition acoes_efetivas :: "registro_admin \<Rightarrow> string list" where
  "acoes_efetivas r =
     ''delete_selected'' # filter (\<lambda>a. a \<in> set (metodos_admin r) \<or> a = ''delete_selected'') (actions r)"

definition erros_acoes :: "registro_admin \<Rightarrow> erro_admin list" where
  "erros_acoes r =
     map (AcaoInexistente (modelo r))
         (filter (\<lambda>a. a \<notin> set (metodos_admin r) \<and> a \<noteq> ''delete_selected'') (actions r)) @
     (if distinct (acoes_efetivas r) then [] else [E130 (modelo r)])"

definition erros_registro :: "modelos \<Rightarrow> registro_admin \<Rightarrow> erro_admin list" where
  "erros_registro ms r =
     (if map_of ms (modelo r) = None then [ModeloInexistente (modelo r)]
      else erros_display ms r @ erros_editable ms r @ erros_filtro ms r @ erros_busca ms r @ erros_acoes r)"

text \<open>\<open>admin.site.register\<close> in import order: registering a model twice raises
  \<open>AlreadyRegistered\<close> and the import stops there.\<close>

fun registrar_modelos :: "string list \<Rightarrow> registro_admin list \<Rightarrow> erro_admin list" where
  "registrar_modelos vistos [] = []"
| "registrar_modelos vistos (r # rs) =
     (if modelo r \<in> set vistos then [AlreadyRegistered (modelo r)]
      else registrar_modelos (modelo r # vistos) rs)"

definition verificar_admin :: "modelos \<Rightarrow> registro_admin list \<Rightarrow> erro_admin list" where
  "verificar_admin ms rs =
     (case registrar_modelos [] rs of
        [] \<Rightarrow> concat (map (erros_registro ms) rs)
      | e \<Rightarrow> e)"

section \<open>Lemmas\<close>

text \<open>What passing the checks guarantees for the pages the admin renders: every
  column of the change list is a method of the \<open>ModelAdmin\<close> or a single-valued
  field of the model, every column edited in place is an editable field that is
  not the primary key, is shown and is not the link column, and every search term
  reaches a plain field through foreign keys.\<close>

lemma concat_map_Nil_item: "concat (map f xs) = [] \<Longrightarrow> x \<in> set xs \<Longrightarrow> f x = []"
  by simp

lemma erros_registro_partes:
  "erros_registro ms r = [] \<longleftrightarrow> map_of ms (modelo r) \<noteq> None \<and> erros_display ms r = [] \<and>
     erros_editable ms r = [] \<and> erros_filtro ms r = [] \<and> erros_busca ms r = [] \<and> erros_acoes r = []"
  by (simp add: erros_registro_def)

lemma erros_display_coluna:
  assumes "erros_display ms r = []" and "i \<in> set (list_display r)"
  shows "i \<in> set (metodos_admin r) \<or> (\<exists>f. campo_de ms (modelo r) i = Some f \<and> \<not> multiplo (tipo f))"
  using concat_map_Nil_item [OF assms(1) [unfolded erros_display_def] assms(2)]
  by (simp split: if_splits option.splits)

lemma erros_editable_coluna:
  assumes "erros_editable ms r = []" and "list_display_links r = []" and "i \<in> set (list_editable r)"
  shows "\<exists>f. campo_de ms (modelo r) i = Some f \<and> editavel f \<and> tipo f \<noteq> CAuto \<and>
             i \<in> set (list_display r) \<and> i \<noteq> hd (list_display r)"
  using concat_map_Nil_item [OF assms(1) [unfolded erros_editable_def] assms(3)] assms(2)
  by (simp split: if_splits option.splits)

lemma erros_busca_termo:
  assumes "erros_busca ms r = []" and "s \<in> set (search_fields r)"
  shows "\<exists>f. caminho ms (modelo r) (dividir_lookup [] (termo_busca s)) = Some f \<and> alvo (tipo f) = None"
  using concat_map_Nil_item [OF assms(1) [unfolded erros_busca_def] assms(2)]
  by (simp split: if_splits option.splits)

lemma registrar_modelos_vazio:
  "registrar_modelos vistos rs = [] \<longleftrightarrow> distinct (map modelo rs) \<and> set (map modelo rs) \<inter> set vistos = {}"
  by (induction vistos rs rule: registrar_modelos.induct) auto

lemma verificar_admin_vazio:
  "verificar_admin ms rs = [] \<longleftrightarrow> distinct (map modelo rs) \<and> (\<forall>r\<in>set rs. erros_registro ms r = [])"
proof (cases "registrar_modelos [] rs")
  case Nil
  then show ?thesis using registrar_modelos_vazio [of "[]" rs] by (simp add: verificar_admin_def)
next
  case (Cons e es)
  then show ?thesis using registrar_modelos_vazio [of "[]" rs] by (simp add: verificar_admin_def)
qed

end
