(* ===== verification/Middleware.thy ===== *)
theory Middleware
  imports Routing
begin

text \<open>The request pipeline. \<open>MIDDLEWARE\<close> of core/settings.py (lines 32-41) puts
  \<open>SecurityMiddleware\<close> first, then WhiteNoise, the session, \<open>CommonMiddleware\<close>, CSRF
  and authentication. \<open>tratar\<close> runs them in that order on a request: the HTTPS
  redirect of \<open>SECURE_SSL_REDIRECT\<close>, the static files WhiteNoise answers itself, host
  validation by \<open>request.get_host()\<close>, URL resolution with the \<open>APPEND_SLASH\<close>
  redirect, \<open>CsrfViewMiddleware.process_view\<close> on unsafe methods, and last the view
  wrapped in \<open>login_required\<close>. The behaviour of each middleware is Django's and
  WhiteNoise's documented one; the session is the account id it carries.
  \<open>navegar\<close> is the browser following the redirects the pipeline answers.\<close>

record requisicao =
  metodo_req :: metodo_http
  caminho_req :: string
  https_wsgi :: bool
  meta :: "string \<Rightarrow> string option"
  token_csrf_ok :: bool
  sessao :: "pk option"

datatype resposta_http =
    Redireciona string | Http400 | Http403 | Http404 | Http405 | Http500
  | ArquivoEstatico string | Vista visao "pk option"

text \<open>\<open>request.is_secure()\<close>: with \<open>SECURE_PROXY_SSL_HEADER\<close> set and the header
  present, its first comma-separated value decides; otherwise the WSGI scheme.\<close>

definition seguro :: "ajustes \<Rightarrow> requisicao \<Rightarrow> bool" where
  "seguro aj r =
     (case secure_proxy_ssl_header aj of
        None \<Rightarrow> https_wsgi r
      | Some (h, v) \<Rightarrow>
          (case meta r h of
             None \<Rightarrow> https_wsgi r
           | Some x \<Rightarrow> strip_py (takeWhile (\<lambda>c. c \<noteq> CHR '','') x) = v))"

text \<open>\<open>split_domain_port\<close>: the lower-cased host must match
  \<open>host_validation_re\<close>, letters, digits, dots and hyphens with an optional numeric
  port (bracketed IPv6 hosts are not modelled); the domain loses a trailing dot.\<close>

definition char_host :: "char \<Rightarrow> bool" where
  "char_host c \<longleftrightarrow>
     (97 \<le> (of_char c :: nat) \<and> (of_char c :: nat) \<le> 122) \<or> digito c \<or> c = CHR ''.'' \<or> c = CHR ''-''"

definition dividir_host :: "string \<Rightarrow> string option" where
  "dividir_host h =
     (let l = map minuscula h;
          d = takeWhile (\<lambda>c. c \<noteq> CHR '':'') l;
          p = dropWhile (\<lambda>c. c \<noteq> CHR '':'') l
      in if d \<noteq> [] \<and> list_all char_host d \<and> (p = [] \<or> (tl p \<noteq> [] \<and> list_all digito (tl p)))
         then Some (if last d = CHR ''.'' then butlast d else d) else None)"

text \<open>\<open>request.get_host()\<close>: \<open>HTTP_HOST\<close>, else \<open>SERVER_NAME\<close>; its domain must pass
  \<open>ALLOWED_HOSTS\<close>, or \<open>DisallowedHost\<close> is raised (a 400).\<close>

definition obter_host :: "ajustes \<Rightarrow> requisicao \<Rightarrow> string option" where
  "obter_host aj r =
     (let h = (case meta r ''HTTP_HOST'' of
                 Some h \<Rightarrow> h
               | None \<Rightarrow> (case meta r ''SERVER_NAME'' of Some s \<Rightarrow> s | None \<Rightarrow> []))
      in case dividir_host h of
           Some dm \<Rightarrow> if dm \<noteq> [] \<and> host_valido aj dm then Some h else None
         | None \<Rightarrow> None)"

text \<open>The scheme and network location of a URL, as \<open>urlsplit\<close> reads them.\<close>

definition sem_prefixo :: "string \<Rightarrow> string \<Rightarrow> string option" where
  "sem_prefixo p s = (if take (length p) s = p then Some (drop (length p) s) else None)"

definition netloc :: "string \<Rightarrow> string" where
  "netloc url =
     (case sem_prefixo ''https://'' url of
        Some r \<Rightarrow> takeWhile (\<lambda>c. c \<noteq> CHR ''/'') r
      | None \<Rightarrow> (case sem_prefixo ''http://'' url of
                   Some r \<Rightarrow> takeWhile (\<lambda>c. c \<noteq> CHR ''/'') r
                 | None \<Rightarrow> []))"

text \<open>\<open>_origin_verified\<close>: the \<open>Origin\<close> header equals the request's own origin or one
  of \<open>CSRF_TRUSTED_ORIGINS\<close>.\<close>

definition origem_ok :: "ajustes \<Rightarrow> requisicao \<Rightarrow> string \<Rightarrow> string \<Rightarrow> bool" where
  "origem_ok aj r h org \<longleftrightarrow>
     org = (if seguro aj r then ''https://'' else ''http://'') @ h \<or> org \<in> set (csrf_trusted_origins aj)"

text \<open>\<open>_check_referer\<close>, run on secure requests without \<open>Origin\<close>: the referer is
  present, uses HTTPS, and its host is the request's host or the host of a trusted
  origin.\<close>

definition referer_ok :: "ajustes \<Rightarrow> string \<Rightarrow> string option \<Rightarrow> bool" where
  "referer_ok aj h ref =
     (case ref of
        None \<Rightarrow> False
      | Some u \<Rightarrow> sem_prefixo ''https://'' u \<noteq> None \<and> netloc u \<noteq> [] \<and>
                  list_ex (mesmo_dominio (netloc u)) (h # map netloc (csrf_trusted_origins aj)))"

text \<open>\<open>CsrfViewMiddleware.process_view\<close> for a POST: the origin check when the
  header is sent, else the referer check on HTTPS, then the token.\<close>

definition csrf_ok :: "ajustes \<Rightarrow> requisicao \<Rightarrow> string \<Rightarrow> bool" where
  "csrf_ok aj r h \<longleftrightarrow>
     (case meta r ''HTTP_ORIGIN'' of
        Some org \<Rightarrow> origem_ok aj r h org
      | None \<Rightarrow> \<not> seguro aj r \<or> referer_ok aj h (meta r ''HTTP_REFERER'')) \<and>
     token_csrf_ok r"

text \<open>WhiteNoise answers a request for a collected file under \<open>STATIC_URL\<close> before
  any later middleware runs, and refuses methods other than GET.\<close>

definition estatico :: "string list \<Rightarrow> string \<Rightarrow> bool" where
  "estatico arquivos p = (\<exists>f\<in>set arquivos. p = ''/static/'' @ f)"

text \<open>The pipeline, in the order of \<open>MIDDLEWARE\<close>. A POST to a path that only
  resolves with a trailing slash raises \<open>RuntimeError\<close> in debug mode, as
  \<open>CommonMiddleware\<close> cannot redirect it without losing the body.\<close>

definition tratar :: "ajustes \<Rightarrow> string list \<Rightarrow> requisicao \<Rightarrow> resposta_http" where
  "tratar aj arquivos r =
     (if ssl_redirect aj \<and> \<not> seguro aj r then
        (case obter_host aj r of
           None \<Rightarrow> Http400
         | Some h \<Rightarrow> Redireciona (''https://'' @ h @ caminho_req r))
      else if estatico arquivos (caminho_req r) then
        (if metodo_req r = GET then ArquivoEstatico (caminho_req r) else Http405)
      else
        (case obter_host aj r of
           None \<Rightarrow> Http400
         | Some h \<Rightarrow>
             (case despachar aj (caminho_req r) of
                NaoEncontrado \<Rightarrow> Http404
              | RedirecionaBarra p \<Rightarrow> if debug aj \<and> metodo_req r = POST then Http500 else Redireciona p
              | Despacha v \<Rightarrow>
                  if metodo_req r = POST \<and> \<not> csrf_ok aj r h then Http403
                  else (case acessar aj (sessao r \<noteq> None) v (caminho_req r) of
                          RedirecionaLogin u \<Rightarrow> Redireciona u
                        | Executa v' \<Rightarrow> Vista v' (sessao r)))))"

text \<open>The browser following a redirect: it sends a GET (a redirected POST becomes a
  GET) for the path of the target, before its query string; an absolute
  \<open>https://\<close> target reaches the proxy over TLS, which sets
  \<open>X-Forwarded-Proto: https\<close>, with the target's host as \<open>Host\<close>. A request path
  as Django sees it, \<open>request.path\<close>, is absolute and carries no query.\<close>

definition caminho_http :: "string \<Rightarrow> bool" where
  "caminho_http p \<longleftrightarrow> take 1 p = ''/'' \<and> CHR ''?'' \<notin> set p"

definition seguinte :: "requisicao \<Rightarrow> string \<Rightarrow> requisicao" where
  "seguinte r u =
     (case sem_prefixo ''https://'' u of
        Some resto \<Rightarrow>
          r\<lparr>metodo_req := GET, caminho_req := caminho_de (dropWhile (\<lambda>c. c \<noteq> CHR ''/'') resto),
            meta := (meta r)(''HTTP_HOST'' \<mapsto> takeWhile (\<lambda>c. c \<noteq> CHR ''/'') resto,
                             ''HTTP_X_FORWARDED_PROTO'' \<mapsto> ''https'')\<rparr>
      | None \<Rightarrow> r\<lparr>metodo_req := GET, caminho_req := caminho_de u\<rparr>)"

text \<open>Following redirects until a response that is not one. Nothing bounds the
  number of hops a priori, so the loop is a partial function: \<open>None\<close> is a loop
  that never ends.\<close>

partial_function (option) navegar :: "ajustes \<Rightarrow> string list \<Rightarrow> requisicao \<Rightarrow> resposta_http option" where
  "navegar aj fs r = (case tratar aj fs r of Redireciona u \<Rightarrow> navegar aj fs (seguinte r u) | resp \<Rightarrow> Some resp)"

text \<open>An anonymous visit of the game page typed without scheme or trailing slash,
  as it reaches Render: plain HTTP at the proxy.\<close>

definition req_jogo :: requisicao where
  "req_jogo =
     \<lparr>metodo_req = GET, caminho_req = ''/jogo'', https_wsgi = False,
      meta = Map.empty(''HTTP_HOST'' \<mapsto> ''jogo-sortudo.onrender.com'', ''HTTP_X_FORWARDED_PROTO'' \<mapsto> ''http''),
      token_csrf_ok = False, sessao = None\<rparr>"

text \<open>A bet posted from the platform's own page on Render: HTTPS at the proxy, the
  Render host, its own origin, a valid token and a session of account 1.\<close>

definition req_aposta :: requisicao where
  "req_aposta =
     \<lparr>metodo_req = POST, caminho_req = ''/apostar/'', https_wsgi = False,
      meta = Map.empty(''HTTP_HOST'' \<mapsto> ''jogo-sortudo.onrender.com'', ''HTTP_X_FORWARDED_PROTO'' \<mapsto> ''https'',
                       ''HTTP_ORIGIN'' \<mapsto> ''https://jogo-sortudo.onrender.com''),
      token_csrf_ok = True, sessao = Some 1\<rparr>"

section \<open>Lemmas\<close>

text \<open>What a request that reaches a view has passed, in any settings.\<close>

lemma tratar_Vista:
  assumes "tratar aj fs r = Vista v s"
  shows "(ssl_redirect aj \<longrightarrow> seguro aj r) \<and> \<not> estatico fs (caminho_req r) \<and>
         (\<exists>h. obter_host aj r = Some h \<and> (metodo_req r = POST \<longrightarrow> csrf_ok aj r h)) \<and>
         despachar aj (caminho_req r) = Despacha v \<and> s = sessao r \<and> (protegida v \<longrightarrow> s \<noteq> None)"
  using assms
  by (auto simp: tratar_def acessar_def split: if_splits option.splits despacho.splits acesso.splits)

lemma obter_host_Some:
  "obter_host aj r = Some h \<Longrightarrow> \<exists>dm. dividir_host h = Some dm \<and> dm \<noteq> [] \<and> host_valido aj dm"
  by (auto simp: obter_host_def Let_def split: if_splits option.splits)

lemmas pedido_simps = tratar_def seguro_def obter_host_def dividir_host_def char_host_def digito_def
  host_valido_def hosts_de_def
  mesmo_dominio_def termina_com_def minuscula_def despachar_def rotas_simps csrf_ok_def origem_ok_def
  acessar_def estatico_def strip_py_def espaco_def

lemma tratar_req_aposta:
  "tratar (ajustes_de (Map.empty(''RENDER'' \<mapsto> ''true''))) [] req_aposta = Vista FazerAposta (Some 1)"
  by (simp add: pedido_simps req_aposta_def)

text \<open>The redirect loop: a final response ends it, a redirect is one more
  request; the stages of the chain each end it or hand it to a later stage.\<close>

lemma navegar_final:
  "(\<And>u. tratar aj fs r \<noteq> Redireciona u) \<Longrightarrow> navegar aj fs r = Some (tratar aj fs r)"
  by (subst navegar.simps) (cases "tratar aj fs r"; auto)

lemma navegar_passo:
  "tratar aj fs r = Redireciona u \<Longrightarrow> navegar aj fs r = navegar aj fs (seguinte r u)"
  by (subst navegar.simps) simp

lemmas seguinte_simps = seguinte_def sem_prefixo_def caminho_de_def

lemma dividir_host_barra:
  assumes "dividir_host h = Some d"
  shows "CHR ''/'' \<notin> set h"
proof
  assume "CHR ''/'' \<in> set h"
  then have b: "CHR ''/'' \<in> set (map minuscula h)"
    by (force simp: minuscula_def)
  let ?l = "map minuscula h"
  have ok: "list_all char_host (takeWhile (\<lambda>c. c \<noteq> CHR '':'') ?l)"
    and p: "dropWhile (\<lambda>c. c \<noteq> CHR '':'') ?l = [] \<or>
            list_all digito (tl (dropWhile (\<lambda>c. c \<noteq> CHR '':'') ?l))"
    using assms by (auto simp: dividir_host_def Let_def split: if_splits)
  have "CHR ''/'' \<in> set (takeWhile (\<lambda>c. c \<noteq> CHR '':'') ?l) \<or>
        CHR ''/'' \<in> set (dropWhile (\<lambda>c. c \<noteq> CHR '':'') ?l)"
    using b takeWhile_dropWhile_id [of "\<lambda>c. c \<noteq> CHR '':''" ?l]
    by (metis Un_iff set_append)
  moreover have "\<not> char_host (CHR ''/'')" and d: "\<not> digito (CHR ''/'')"
    by (simp_all add: char_host_def digito_def)
  moreover have "CHR ''/'' \<notin> set (dropWhile (\<lambda>c. c \<noteq> CHR '':'') ?l)"
  proof (cases "dropWhile (\<lambda>c. c \<noteq> CHR '':'') ?l")
    case (Cons y ys)
    then have "y = CHR '':''" by (auto simp: dropWhile_eq_Cons_conv)
    then show ?thesis using Cons p d by (auto simp: list_all_iff)
  next
    case Nil
    then show ?thesis by (simp only: list.set empty_iff not_False_eq_True)
  qed
  ultimately show False
    using ok by (auto simp: list_all_iff)
qed

lemma seguro_redirecionado [simp]:
  "seguro aj (r\<lparr>metodo_req := m, caminho_req := c\<rparr>) = seguro aj r"
  by (simp add: seguro_def split: option.split prod.split)

lemma caminho_de_sem_query: "CHR ''?'' \<notin> set p \<Longrightarrow> caminho_de p = p"
  by (auto simp: caminho_de_def takeWhile_eq_all_conv)

lemma tratar_Redireciona_pronto:
  assumes "\<not> (ssl_redirect aj \<and> \<not> seguro aj r)" and "tratar aj fs r = Redireciona u"
  shows "despachar aj (caminho_req r) = RedirecionaBarra u \<or>
         (\<exists>v. despachar aj (caminho_req r) = Despacha v \<and> u = login_url aj @ ''?next='' @ caminho_req r)"
  using assms
  by (auto simp: tratar_def acessar_def split: if_splits option.splits despacho.splits acesso.splits)

lemma navegar_login:
  assumes "\<not> (ssl_redirect (ajustes_de env) \<and> \<not> seguro (ajustes_de env) r)"
    and "caminho_req r = ''/login/''"
  shows "\<exists>resp. navegar (ajustes_de env) fs r = Some resp"
proof -
  have "despachar (ajustes_de env) ''/login/'' = Despacha LoginView"
    by (simp add: despachar_def rotas_simps)
  moreover have "\<not> estatico fs ''/login/''" by (auto simp: estatico_def)
  ultimately have "tratar (ajustes_de env) fs r \<noteq> Redireciona u" for u
    using assms by (auto simp: tratar_def acessar_def split: option.splits)
  then show ?thesis using navegar_final by blast
qed

lemma navegar_despacha:
  assumes "\<not> (ssl_redirect (ajustes_de env) \<and> \<not> seguro (ajustes_de env) r)"
    and "despachar (ajustes_de env) (caminho_req r) = Despacha v"
  shows "\<exists>resp. navegar (ajustes_de env) fs r = Some resp"
proof (cases "\<exists>u. tratar (ajustes_de env) fs r = Redireciona u")
  case True
  then obtain u where t: "tratar (ajustes_de env) fs r = Redireciona u" by blast
  then have u: "u = ''/login/?next='' @ caminho_req r"
    using tratar_Redireciona_pronto [OF assms(1) t] assms(2) by auto
  let ?r' = "r\<lparr>metodo_req := GET, caminho_req := ''/login/''\<rparr>"
  have "seguinte r u = ?r'" by (simp add: u seguinte_simps)
  moreover have "\<exists>resp. navegar (ajustes_de env) fs ?r' = Some resp"
    using assms(1) by (intro navegar_login) simp_all
  ultimately show ?thesis using navegar_passo [OF t] by simp
next
  case False
  then show ?thesis using navegar_final by blast
qed

lemma navegar_pronto:
  assumes "\<not> (ssl_redirect (ajustes_de env) \<and> \<not> seguro (ajustes_de env) r)"
    and "caminho_http (caminho_req r)"
  shows "\<exists>resp. navegar (ajustes_de env) fs r = Some resp"
proof (cases "\<exists>u. tratar (ajustes_de env) fs r = Redireciona u")
  case True
  then obtain u where t: "tratar (ajustes_de env) fs r = Redireciona u" by blast
  show ?thesis
  proof (cases "despachar (ajustes_de env) (caminho_req r) = RedirecionaBarra u")
    case True
    then have u: "u = caminho_req r @ ''/''" and res: "resolver (ajustes_de env) u \<noteq> None"
      by (auto simp: despachar_def split: option.splits if_splits)
    obtain p where p: "caminho_req r = CHR ''/'' # p" "CHR ''?'' \<notin> set p"
      using assms(2) by (cases "caminho_req r") (auto simp: caminho_http_def)
    let ?r' = "r\<lparr>metodo_req := GET, caminho_req := u\<rparr>"
    have "seguinte r u = ?r'"
      using p by (simp add: u seguinte_def sem_prefixo_def caminho_de_sem_query)
    moreover have "\<exists>resp. navegar (ajustes_de env) fs ?r' = Some resp"
      using assms(1) res
      by (intro navegar_despacha [where v = "the (resolver (ajustes_de env) u)"])
         (auto simp: despachar_def)
    ultimately show ?thesis using navegar_passo [OF t] by simp
  next
    case False
    then obtain v where "despachar (ajustes_de env) (caminho_req r) = Despacha v"
      using tratar_Redireciona_pronto [OF assms(1) t] by blast
    then show ?thesis using navegar_despacha assms(1) by blast
  qed
next
  case False
  then show ?thesis using navegar_final by blast
qed

text \<open>The anonymous visit of \<open>http://.../jogo\<close> takes three hops, HTTPS, trailing
  slash and login, and ends on the login page.\<close>

lemma navegar_req_jogo:
  "navegar (ajustes_de (Map.empty(''RENDER'' \<mapsto> ''true''))) [] req_jogo = Some (Vista LoginView None)"
proof -
  let ?aj = "ajustes_de (Map.empty(''RENDER'' \<mapsto> ''true''))"
  have 1: "tratar ?aj [] req_jogo = Redireciona ''https://jogo-sortudo.onrender.com/jogo''"
    by (simp add: pedido_simps req_jogo_def)
  let ?r1 = "seguinte req_jogo ''https://jogo-sortudo.onrender.com/jogo''"
  have 2: "tratar ?aj [] ?r1 = Redireciona ''/jogo/''"
    by (simp add: pedido_simps seguinte_simps req_jogo_def)
  let ?r2 = "seguinte ?r1 ''/jogo/''"
  have 3: "tratar ?aj [] ?r2 = Redireciona ''/login/?next=/jogo/''"
    by (simp add: pedido_simps seguinte_simps req_jogo_def)
  let ?r3 = "seguinte ?r2 ''/login/?next=/jogo/''"
  have 4: "tratar ?aj [] ?r3 = Vista LoginView None"
    by (simp add: pedido_simps seguinte_simps req_jogo_def)
  show ?thesis
    using navegar_passo [OF 1] navegar_passo [OF 2] navegar_passo [OF 3] navegar_final [of ?aj "[]" ?r3] 4
    by simp
qed

text \<open>The custom domain in production without the variable \<open>ALLOWED_HOSTS\<close>: every
  request naming it is refused with 400 by the host check, before any view, except
  a static file over HTTPS, which WhiteNoise answers before the check runs.\<close>

theorem dominio_proprio_recusado:
  assumes "env ''RENDER'' \<noteq> None" and "env ''ALLOWED_HOSTS'' = None"
    and "meta r ''HTTP_HOST'' = Some ''jogo-sortudo.org''"
  shows "tratar (ajustes_de env) fs r \<in> {Http400, Http405} \<union> range ArquivoEstatico"
proof -
  have "obter_host (ajustes_de env) r = None"
    using assms
    by (simp add: obter_host_def dividir_host_def char_host_def digito_def host_valido_def hosts_de_def
        mesmo_dominio_def termina_com_def minuscula_def)
  then show ?thesis using assms(1) by (auto simp: tratar_def)
qed

section \<open>Properties\<close>

text \<open>C32: in production (\<open>RENDER\<close> set) the middleware stack guards every view. A
  request reaches a view only when the proxy reports HTTPS in
  \<open>X-Forwarded-Proto\<close> (or, without that header, the connection itself is HTTPS),
  its \<open>Host\<close> is well formed and its domain passes \<open>ALLOWED_HOSTS\<close>, a POST carries
  a valid CSRF token and an \<open>Origin\<close>, if any, that is the request's own HTTPS origin
  or one of the three trusted origins of settings.py, the path resolves to that
  view, and the seven views views.py decorates with \<open>login_required\<close> run only with
  a session.\<close>

theorem producao_protege_vistas:
  assumes "env ''RENDER'' \<noteq> None" and "tratar (ajustes_de env) fs r = Vista v s"
  shows "(case meta r ''HTTP_X_FORWARDED_PROTO'' of
            Some x \<Rightarrow> strip_py (takeWhile (\<lambda>c. c \<noteq> CHR '','') x) = ''https''
          | None \<Rightarrow> https_wsgi r) \<and>
         (\<exists>h dm. obter_host (ajustes_de env) r = Some h \<and> dividir_host h = Some dm \<and>
            host_valido (ajustes_de env) dm \<and>
            (metodo_req r = POST \<longrightarrow> token_csrf_ok r \<and>
               (\<forall>org. meta r ''HTTP_ORIGIN'' = Some org \<longrightarrow>
                  org = ''https://'' @ h \<or> org \<in> set origens_confiaveis))) \<and>
         resolver (ajustes_de env) (caminho_req r) = Some v \<and>
         (v \<in> {HomeJogo, FazerAposta, ProcessarResultado, Depositar, Sacar, PaginaConvite, HistoricoView} \<longrightarrow>
            s = sessao r \<and> s \<noteq> None)"
proof -
  note t = tratar_Vista [OF assms(2)]
  have sec: "seguro (ajustes_de env) r" using t assms(1) by simp
  then have p: "case meta r ''HTTP_X_FORWARDED_PROTO'' of
            Some x \<Rightarrow> strip_py (takeWhile (\<lambda>c. c \<noteq> CHR '','') x) = ''https''
          | None \<Rightarrow> https_wsgi r"
    using assms(1) by (simp add: seguro_def)
  have "resolver (ajustes_de env) (caminho_req r) = Some v"
    using t by (auto simp: despachar_def split: option.splits if_splits)
  moreover obtain h where h: "obter_host (ajustes_de env) r = Some h"
    and c: "metodo_req r = POST \<longrightarrow> csrf_ok (ajustes_de env) r h" using t by blast
  moreover have "metodo_req r = POST \<longrightarrow> token_csrf_ok r \<and>
      (\<forall>org. meta r ''HTTP_ORIGIN'' = Some org \<longrightarrow> org = ''https://'' @ h \<or> org \<in> set origens_confiaveis)"
    using c sec assms(1) by (auto simp: csrf_ok_def origem_ok_def)
  moreover obtain dm where "dividir_host h = Some dm" "host_valido (ajustes_de env) dm"
    using obter_host_Some [OF h] by blast
  ultimately show ?thesis using t p by auto
qed

theorem producao_protege_vistas_witness:
  "resolver (ajustes_de (Map.empty(''RENDER'' \<mapsto> ''true''))) ''/apostar/'' = Some FazerAposta \<and>
   token_csrf_ok req_aposta"
  using producao_protege_vistas [of "Map.empty(''RENDER'' \<mapsto> ''true'')", OF _ tratar_req_aposta]
  by (simp add: req_aposta_def)

text \<open>C33: following redirects terminates. From any request whose path is a
  request path (absolute, no query), in any environment, the browser that follows
  the redirects of the pipeline reaches a response that is not a redirect: at most
  the HTTPS redirect, then the trailing-slash redirect, then the redirect of
  \<open>login_required\<close> to the login page, which is not protected and ends the chain.\<close>

theorem redirecionamentos_terminam:
  assumes "caminho_http (caminho_req r)"
  shows "\<exists>resp. navegar (ajustes_de env) fs r = Some resp"
proof (cases "ssl_redirect (ajustes_de env) \<and> \<not> seguro (ajustes_de env) r")
  case False
  then show ?thesis using navegar_pronto assms by blast
next
  case True
  show ?thesis
  proof (cases "obter_host (ajustes_de env) r")
    case None
    then have "tratar (ajustes_de env) fs r = Http400" using True by (simp add: tratar_def)
    then show ?thesis using navegar_final [of "ajustes_de env" fs r] by simp
  next
    case (Some h)
    then have t: "tratar (ajustes_de env) fs r = Redireciona (''https://'' @ h @ caminho_req r)"
      using True by (simp add: tratar_def)
    have nb: "CHR ''/'' \<notin> set h" using obter_host_Some [OF Some] dividir_host_barra by blast
    obtain p where p: "caminho_req r = CHR ''/'' # p" "CHR ''?'' \<notin> set p"
      using assms by (cases "caminho_req r") (auto simp: caminho_http_def)
    let ?r' = "r\<lparr>metodo_req := GET, caminho_req := caminho_req r,
                 meta := (meta r)(''HTTP_HOST'' \<mapsto> h, ''HTTP_X_FORWARDED_PROTO'' \<mapsto> ''https'')\<rparr>"
    have "takeWhile (\<lambda>c. c \<noteq> CHR ''/'') (h @ caminho_req r) = h"
      and "dropWhile (\<lambda>c. c \<noteq> CHR ''/'') (h @ caminho_req r) = caminho_req r"
      using nb p(1) by (induction h) auto
    then have "seguinte r (''https://'' @ h @ caminho_req r) = ?r'"
      using p by (simp add: seguinte_def sem_prefixo_def caminho_de_sem_query)
    moreover have "seguro (ajustes_de env) ?r'"
      using True by (auto simp: seguro_def strip_py_def espaco_def)
    then have "\<exists>resp. navegar (ajustes_de env) fs ?r' = Some resp"
      using assms by (intro navegar_pronto) simp_all
    ultimately show ?thesis using navegar_passo [OF t] by simp
  qed
qed

theorem redirecionamentos_terminam_witness:
  "caminho_http (caminho_req req_jogo) \<and>
   (\<exists>resp. navegar (ajustes_de (Map.empty(''RENDER'' \<mapsto> ''true''))) [] req_jogo = Some resp)"
  using redirecionamentos_terminam [of req_jogo "Map.empty(''RENDER'' \<mapsto> ''true'')" "[]"]
  by (simp add: req_jogo_def caminho_http_def)

end
