(* ===== verification/Spec2Isabelle.thy ===== *)
theory Spec2Isabelle
  imports Ledger Settlement Referral Payments Concurrency Routing Auth Admin Middleware
begin

text \<open>
  \<^bold>\<open>A verification model of the betting platform \<open>jogo-sortudo\<close>.\<close>

  The program is a Django application (\<open>src/plataforma\<close>, configured by
  \<open>src/core\<close>). Its core is the round and balance engine: a stateless 40-second
  clock that tells every client whether bets are open (\<open>home_jogo\<close>), the single
  active round (\<open>Rodada\<close>), bet placement with an immediate debit
  (\<open>fazer_aposta\<close>), the house-optimal draw and batch payout
  (\<open>fechar_rodada_lucrativa\<close>), the per-bet confirmation called by the browser
  (\<open>processar_resultado_final\<close>), withdrawals (\<open>sacar\<close>), and the deposit approval
  with its 15\<percent> referral commission (\<open>Deposito.save\<close> in models.py, run by the
  admin action \<open>aprovar_deposito\<close> in admin.py). Around it sit registration and
  login, the deposit and history pages, the admin columns, the settings and the two
  URL tables. All views read and write one relational store; each request carries the
  account object loaded when it arrived and writes it back with \<open>save()\<close>.

  \<^bold>\<open>Theories and what they model.\<close>
  \<^item> \<open>Prelude\<close>: money as exact decimals (\<^typ>\<open>rat\<close>, Python's \<open>Decimal\<close>),
    primary keys as list indices, the ORM lookup \<open>obter\<close>, Python's
    \<open>min(iterable, key=...)\<close> as the left-to-right scan \<open>min_chave\<close>, list lemmas.
  \<^item> \<open>Models\<close>: the models of models.py as records and datatypes, the store as the
    record \<open>db\<close> (one list per table), \<open>salvar_usuario\<close> (\<open>usuario.save()\<close> of a
    loaded object), \<open>creditar\<close> (load, add, save), the foreign-key invariant
    \<open>integro\<close>, HTTP error kinds \<open>erro\<close> with their status codes.
  \<^item> \<open>Clock\<close>: \<open>ciclo\<close> (views.py 81-92) and the abstract countdown \<open>tique\<close>; the
    clock refines the timer and the remaining time stays within the phase length.
  \<^item> \<open>Selector\<close>: exposures \<open>gasto\<close> and the draw \<open>numero_vencedor\<close>
    (views.py 219-231); equivalence with the reference \<open>vencedor_ref\<close> (least option
    of minimal exposure), the house never pays more than the round took in.
  \<^item> \<open>Rounds\<close>: the last active round and get-or-create (views.py 76-79), closing a
    round; get-or-create is idempotent and keeps at most one active round.
  \<^item> \<open>Ledger\<close>: \<open>fazer_aposta\<close> and \<open>sacar\<close> with the request's account snapshot;
    exact debit, every error branch with its status code, negative stakes.
  \<^item> \<open>Settlement\<close>: \<open>fechar_rodada_lucrativa\<close> (draw, close, payout loop over the
    query snapshot) and \<open>processar_resultado_final\<close>; payout equals exposure, a
    second closure pays again, a confirmation is idempotent and trusts the client.
  \<^item> \<open>Referral\<close>: \<open>cadastro_view\<close>, \<open>depositar\<close>, \<open>Deposito.save\<close> and the admin
    action; credit and commission, approval at most once per action, re-approval
    after an edit credits again, self-invitation.
  \<^item> \<open>Payments\<close>: payment-method tables, the admin payout column, the deposit page
    with \<open>str.split(',')\<close>, the invite and history pages, the bets changelist total.
  \<^item> \<open>Concurrency\<close>: the request system \<open>passo\<close>: a request arrives with the snapshot
    of its account and finishes later in any order; registration, deposits and the
    admin actions on deposits and withdrawal status are single steps; the game page
    is split at its read of the active round and the confirmation view at its read
    of the bet, as their reads and writes are separate queries. Proved: the
    foreign-key invariant of every reachable state (rule induction), and the races
    the spec forbids are reachable: the lost debit of two overlapping bets, two
    active rounds, and a bet paid as won and then stored as lost by two overlapping
    confirmations.
  \<^item> \<open>Routing\<close>: settings as a function of the environment (with
    \<open>SECURE_PROXY_SSL_HEADER\<close>), the URL tables,
    resolution, \<open>reverse\<close>, \<open>APPEND_SLASH\<close>, host validation and the
    \<open>login_required\<close> redirect (Django behaviour from its documentation).
  \<^item> \<open>Auth\<close>: \<open>create_user\<close>, \<open>create_superuser\<close>, the \<open>ModelBackend\<close> check and
    \<open>login_view\<close>; a registered account logs in with its password; the
    configured password validators, which registration never applies.
  \<^item> \<open>Admin\<close>: the nine \<open>@admin.register\<close> classes of admin.py as records of their
    options, the models of models.py as field tables (with the implicit \<open>id\<close> of
    \<open>DEFAULT_AUTO_FIELD\<close>, the inherited \<open>AbstractUser\<close> fields and the reverse
    relations), and Django's admin checks (\<open>admin.E108\<close>-\<open>E130\<close>, registration
    once per model, search lookups through foreign keys); a configuration that passes
    the checks renders and edits only fields of the right kind.
  \<^item> \<open>Middleware\<close>: the \<open>MIDDLEWARE\<close> stack of settings.py as the request pipeline
    \<open>tratar\<close>: HTTPS redirect behind the proxy header, WhiteNoise, host validation,
    \<open>APPEND_SLASH\<close>, the CSRF origin, referer and token checks, \<open>login_required\<close>.
    In production a view runs only on a request that passed all of them. The
    browser that follows the redirects (\<open>navegar\<close>) always stops: at most the
    HTTPS, trailing-slash and login redirects, in that order.

  \<^bold>\<open>Bounds and fuel.\<close> No definition needs fuel: every loop of the code runs over a
  finite queryset or string and is structural recursion (\<open>min_chave\<close>,
  \<open>pagar_apostas\<close>, \<open>aprovar_lista\<close>, \<open>separar\<close>, \<open>casar\<close>, \<open>caminho\<close>), or a
  \<open>fun\<close> whose termination measure the package finds (\<open>dividir_lookup\<close>, Python's
  \<open>split('__')\<close>, decreases the length of the unread string). The one loop
  outside the code, a client following redirects, has no a-priori bound and is the
  \<open>partial_function (option)\<close> \<open>navegar\<close>, where \<open>None\<close> is a loop that never ends;
  that it returns \<open>Some\<close> on every request path is proved, not assumed. Money is exact
  (\<^typ>\<open>rat\<close>); the clock works on unbounded \<^typ>\<open>int\<close> seconds, as Python does.

  \<^bold>\<open>Findings.\<close> The spec's two-bet
  scenario draws 3, not 0; negative stakes and client-chosen outcomes are accepted;
  closing a round twice pays twice, and nothing calls the batch settlement;
  re-approving an edited deposit credits again; a user can invite themselves;
  overlapping bets lose a debit, overlapping page visits create two active rounds
  and overlapping confirmations store a paid bet as lost; rejected withdrawals are not refunded; in production the insecure default
  key is used when \<open>SECRET_KEY\<close> is missing, the custom domain fails host validation
  so that every request to it is answered 400 before any view, and uploaded proofs
  under \<open>/media/\<close> are not served; the configured password validators are never
  applied; the column \<open>codigo_convite\<close> is never written.

  \<^bold>\<open>Not modelled.\<close> Template rendering and flash messages; the session store and
  the logout view (a session is the account id a request carries); password hashing
  (passwords compare as stored strings); file uploads (the proof image is not a
  field of the store); \<open>DecimalField\<close> rounding to two places on save (money stays
  exact); the generic admin change forms of users, bets and rounds, which edit rows
  directly, and the \<open>ativo\<close> toggles of the payment methods, which are an input of
  the deposit page; \<open>INSTALLED_APPS\<close>, \<open>TEMPLATES\<close>, \<open>DATABASES\<close>, locale and
  static storage, which configure Django without behaviour of this program; the
  message and clickjacking middleware, which only add to a response; interleavings
  inside the other views, each of which runs as one step between its arrival and
  its end.\<close>

end
